theory Spec2Isabelle
  imports Complex_Main
begin

section \<open>Text and values\<close>

text \<open>
  A Python \<^verbatim>\<open>str\<close> is a sequence of Unicode code points; it is modelled as a list of
  natural numbers. \<open>asc\<close> writes a literal that consists of ASCII characters only.
  Literals with CJK characters are given by their code points and named \<open>zh_...\<close>.
\<close>

type_synonym pystr = "nat list"

definition asc :: "string \<Rightarrow> pystr" where
  "asc s = map of_char s"

text \<open>
  An output text may embed a number rendered by a format specifier. Python renders the
  binary double; the model computes over the reals, so the rendering is kept symbolic:
  \<open>F1 v\<close> stands for \<^verbatim>\<open>f"{v:.1f}"\<close>, \<open>FR v\<close> for \<^verbatim>\<open>f"{v}"\<close> of a float, \<open>FI n\<close> for
  \<^verbatim>\<open>f"{n}"\<close> of an int and \<open>FD t\<close> for \<^verbatim>\<open>t.strftime('%Y-%m-%d')\<close>. Such a rendering is
  never empty and contains no CJK character.
\<close>

datatype fchar = C nat | F1 real | FR real | FI int | FD nat

type_synonym ftext = "fchar list"

definition plain :: "pystr \<Rightarrow> ftext" where
  "plain s = map C s"

section \<open>Binary doubles\<close>

text \<open>
  A Python \<^verbatim>\<open>float\<close> is an IEEE 754 binary64 value: a finite number, one of the two
  infinities, or a NaN. The result of an arithmetic operation is the exact result rounded
  to the nearest double, ties to the even significand. \<open>round64\<close> is that rounding on the
  reals: the binade of \<open>x\<close> is \<open>\<lfloor>log 2 \<bar>x\<bar>\<rfloor>\<close>, not below \<open>- 1022\<close> (below it the doubles are
  subnormal and equally spaced), and a double is a multiple of the binade's unit in the
  last place, 52 binary places further down. An exact result whose magnitude reaches
  \<open>2 ^ 1024 - 2 ^ 970\<close>, the midpoint between the largest double and \<open>2 ^ 1024\<close>, rounds to
  an infinity. The sign of zero is not distinguished.
\<close>

definition dbl_overflow :: real where
  "dbl_overflow = 2 ^ 1024 - 2 ^ 970"

definition overflows :: "real \<Rightarrow> bool" where
  "overflows x = (\<bar>x\<bar> \<ge> dbl_overflow)"

definition round_even :: "real \<Rightarrow> int" where
  "round_even q =
     (let f = \<lfloor>q\<rfloor> in
      if q - of_int f < 1 / 2 then f
      else if q - of_int f > 1 / 2 then f + 1
      else if even f then f else f + 1)"

definition round64 :: "real \<Rightarrow> real" where
  "round64 x =
     (if x = 0 then 0
      else (let e = max \<lfloor>log 2 \<bar>x\<bar>\<rfloor> (- 1022);
                ulp = 2 powr (of_int e - 52)
            in of_int (round_even (x / ulp)) * ulp))"

datatype pyfloat = Fin real | PInf | NInf | NaN

definition fl_round :: "real \<Rightarrow> pyfloat" where
  "fl_round x = (if overflows x then (if x > 0 then PInf else NInf) else Fin (round64 x))"

text \<open>
  Product and quotient of a float and a positive finite constant, as \<^verbatim>\<open>value * 18.0\<close> and
  \<^verbatim>\<open>value / 18.0\<close> are: an infinity and a NaN are returned as they are, and neither
  operation raises.
\<close>

definition fl_mul :: "pyfloat \<Rightarrow> real \<Rightarrow> pyfloat" where
  "fl_mul v c = (case v of Fin x \<Rightarrow> fl_round (x * c) | PInf \<Rightarrow> PInf | NInf \<Rightarrow> NInf | NaN \<Rightarrow> NaN)"

definition fl_div :: "pyfloat \<Rightarrow> real \<Rightarrow> pyfloat" where
  "fl_div v c = (case v of Fin x \<Rightarrow> fl_round (x / c) | PInf \<Rightarrow> PInf | NInf \<Rightarrow> NInf | NaN \<Rightarrow> NaN)"

section \<open>agents.py: unit conversion\<close>

definition unit_mmol :: pystr where
  "unit_mmol = asc ''mmol/L''"

definition unit_mgdl :: pystr where
  "unit_mgdl = asc ''mg/dL''"

definition convert_glucose_unit :: "pyfloat \<Rightarrow> pystr \<Rightarrow> pystr \<Rightarrow> pyfloat" where
  "convert_glucose_unit v from_unit to_unit =
     (if from_unit = to_unit then v
      else if from_unit = unit_mgdl \<and> to_unit = unit_mmol then fl_div v 18
      else if from_unit = unit_mmol \<and> to_unit = unit_mgdl then fl_mul v 18
      else v)"

text \<open>
  Elsewhere the model computes with the real number that a finite float denotes.
  \<open>finite_or d v\<close> reads a float back as that number; \<open>d\<close> stands in for a float that is
  not finite.
\<close>

definition finite_or :: "real \<Rightarrow> pyfloat \<Rightarrow> real" where
  "finite_or d v = (case v of Fin x \<Rightarrow> x | _ \<Rightarrow> d)"

section \<open>agents.py: InstantAnalysisAgent, target range and risk tiers\<close>

text \<open>
  The columns of \<^verbatim>\<open>models.User\<close> that the analysis reads. The three targets are
  nullable floats.
\<close>

record user =
  uid :: nat
  fasting_target_min :: "real option"
  fasting_target_max :: "real option"
  post_meal_target_max :: "real option"

text \<open>Python truth value of an optional float: \<^verbatim>\<open>None\<close> and \<^verbatim>\<open>0.0\<close> are false.\<close>

definition truthy :: "real option \<Rightarrow> bool" where
  "truthy x = (case x of None \<Rightarrow> False | Some v \<Rightarrow> v \<noteq> 0)"

definition ctx_fasting :: pystr where
  "ctx_fasting = asc ''fasting''"

definition ctx_post_meal :: pystr where
  "ctx_post_meal = asc ''post_meal''"

definition ctx_pre_meal :: pystr where
  "ctx_pre_meal = asc ''pre_meal''"

definition ctx_random :: pystr where
  "ctx_random = asc ''random''"

text \<open>\<^verbatim>\<open>InstantAnalysisAgent._get_target_range\<close>.\<close>

definition get_target_range :: "user \<Rightarrow> pystr option \<Rightarrow> real \<times> real" where
  "get_target_range u context =
     (if context = Some ctx_fasting then
        (if truthy (fasting_target_min u) \<and> truthy (fasting_target_max u)
         then (the (fasting_target_min u), the (fasting_target_max u))
         else (4.4, 7.2))
      else if context = Some ctx_post_meal then
        (if truthy (post_meal_target_max u)
         then (0, the (post_meal_target_max u))
         else (0, 10.0))
      else (3.9, 11.1))"

definition zh_hypo_risk :: pystr where
  "zh_hypo_risk = [0x4F4E, 0x8840, 0x7CD6, 0x98CE, 0x9669]"

definition zh_severe_hyper_risk :: pystr where
  "zh_severe_hyper_risk = [0x6781, 0x9AD8, 0x8840, 0x7CD6, 0x98CE, 0x9669]"

definition zh_glucose_high :: pystr where
  "zh_glucose_high = [0x8840, 0x7CD6, 0x504F, 0x9AD8]"

definition zh_glucose_low :: pystr where
  "zh_glucose_low = [0x8840, 0x7CD6, 0x504F, 0x4F4E]"

definition zh_in_target :: pystr where
  "zh_in_target = [0x8840, 0x7CD6, 0x5728, 0x76EE, 0x6807, 0x8303, 0x56F4, 0x5185]"

definition zh_above_target :: pystr where
  "zh_above_target = [0x8840, 0x7CD6, 0x7565, 0x9AD8, 0x4E8E, 0x76EE, 0x6807]"

definition zh_your_value :: pystr where
  "zh_your_value = [0x60A8, 0x7684, 0x8840, 0x7CD6, 0x503C]"

definition zh_r_hypo :: pystr where
  "zh_r_hypo = [0x20, 0x6D, 0x6D, 0x6F, 0x6C, 0x2F, 0x4C, 0x4F4E, 0x4E8E, 0x5B89, 0x5168, 0x9608, 0x503C, 0x33, 0x2E, 0x39, 0x20, 0x6D, 0x6D, 0x6F, 0x6C, 0x2F, 0x4C, 0xFF0C, 0x5C5E, 0x4E8E, 0x4F4E, 0x8840, 0x7CD6, 0x3002]"

definition zh_r_severe :: pystr where
  "zh_r_severe = [0x20, 0x6D, 0x6D, 0x6F, 0x6C, 0x2F, 0x4C, 0x975E, 0x5E38, 0x9AD8, 0xFF0C, 0x9700, 0x8981, 0x7ACB, 0x5373, 0x5173, 0x6CE8, 0x3002]"

definition zh_r_high :: pystr where
  "zh_r_high = [0x20, 0x6D, 0x6D, 0x6F, 0x6C, 0x2F, 0x4C, 0x504F, 0x9AD8, 0x3002]"

definition zh_r_low :: pystr where
  "zh_r_low = [0x20, 0x6D, 0x6D, 0x6F, 0x6C, 0x2F, 0x4C, 0x7565, 0x4F4E, 0x4E8E, 0x76EE, 0x6807, 0x8303, 0x56F4, 0x3002]"

definition zh_r_normal :: pystr where
  "zh_r_normal = [0x20, 0x6D, 0x6D, 0x6F, 0x6C, 0x2F, 0x4C, 0x5728, 0x76EE, 0x6807, 0x8303, 0x56F4, 0x5185, 0xFF0C, 0x63A7, 0x5236, 0x5F97, 0x5F88, 0x597D, 0xFF01]"

definition zh_r_above :: pystr where
  "zh_r_above = [0x20, 0x6D, 0x6D, 0x6F, 0x6C, 0x2F, 0x4C, 0x7565, 0x9AD8, 0x4E8E, 0x76EE, 0x6807, 0x8303, 0x56F4, 0x3002]"

definition zh_s_hypo1 :: pystr where
  "zh_s_hypo1 = [0x8BF7, 0x7ACB, 0x5373, 0x8865, 0x5145, 0x901F, 0x6548, 0x78B3, 0x6C34, 0x5316, 0x5408, 0x7269, 0xFF08, 0x5982, 0x7CD6, 0x679C, 0x3001, 0x679C, 0x6C41, 0x3001, 0x8461, 0x8404, 0x7CD6, 0x7247, 0xFF09]"

definition zh_s_hypo2 :: pystr where
  "zh_s_hypo2 = [0x31, 0x35, 0x5206, 0x949F, 0x540E, 0x590D, 0x6D4B, 0x8840, 0x7CD6]"

definition zh_s_hypo3 :: pystr where
  "zh_s_hypo3 = [0x5982, 0x75C7, 0x72B6, 0x6301, 0x7EED, 0x6216, 0x52A0, 0x91CD, 0xFF0C, 0x8BF7, 0x7ACB, 0x5373, 0x5C31, 0x533B]"

definition zh_s_hypo4 :: pystr where
  "zh_s_hypo4 = [0x6CE8, 0x610F, 0xFF1A, 0x672C, 0x5EFA, 0x8BAE, 0x4EC5, 0x4F9B, 0x53C2, 0x8003, 0xFF0C, 0x7D27, 0x6025, 0x60C5, 0x51B5, 0x8BF7, 0x53CA, 0x65F6, 0x8054, 0x7CFB, 0x533B, 0x751F]"

definition zh_s_severe1 :: pystr where
  "zh_s_severe1 = [0x8BF7, 0x591A, 0x559D, 0x6C34, 0xFF0C, 0x4FDD, 0x6301, 0x6C34, 0x5206]"

definition zh_s_severe2 :: pystr where
  "zh_s_severe2 = [0x5BC6, 0x5207, 0x76D1, 0x6D4B, 0x75C7, 0x72B6]"

definition zh_s_severe3 :: pystr where
  "zh_s_severe3 = [0x5EFA, 0x8BAE, 0x5C3D, 0x5FEB, 0x8054, 0x7CFB, 0x533B, 0x751F, 0x6216, 0x524D, 0x5F80, 0x533B, 0x9662]"

definition zh_s_severe4 :: pystr where
  "zh_s_severe4 = [0x6CE8, 0x610F, 0xFF1A, 0x672C, 0x5EFA, 0x8BAE, 0x4EC5, 0x4F9B, 0x53C2, 0x8003, 0xFF0C, 0x7D27, 0x6025, 0x60C5, 0x51B5, 0x8BF7, 0x53CA, 0x65F6, 0x5C31, 0x533B]"

definition zh_s_high1 :: pystr where
  "zh_s_high1 = [0x5EFA, 0x8BAE, 0x591A, 0x559D, 0x6C34]"

definition zh_s_exercise_more :: pystr where
  "zh_s_exercise_more = [0x9002, 0x5F53, 0x589E, 0x52A0, 0x8FD0, 0x52A8]"

definition zh_s_high3 :: pystr where
  "zh_s_high3 = [0x68C0, 0x67E5, 0x6700, 0x8FD1, 0x7684, 0x996E, 0x98DF, 0x548C, 0x7528, 0x836F, 0x60C5, 0x51B5]"

definition zh_s_high4 :: pystr where
  "zh_s_high4 = [0x5982, 0x6301, 0x7EED, 0x504F, 0x9AD8, 0xFF0C, 0x5EFA, 0x8BAE, 0x54A8, 0x8BE2, 0x533B, 0x751F]"

definition zh_s_low1 :: pystr where
  "zh_s_low1 = [0x6CE8, 0x610F, 0x76D1, 0x6D4B, 0xFF0C, 0x907F, 0x514D, 0x4F4E, 0x8840, 0x7CD6]"

definition zh_s_low2 :: pystr where
  "zh_s_low2 = [0x9002, 0x5F53, 0x8C03, 0x6574, 0x996E, 0x98DF]"

definition zh_s_normal1 :: pystr where
  "zh_s_normal1 = [0x7EE7, 0x7EED, 0x4FDD, 0x6301, 0x5F53, 0x524D, 0x7684, 0x996E, 0x98DF, 0x548C, 0x8FD0, 0x52A8, 0x4E60, 0x60EF]"

definition zh_s_normal2 :: pystr where
  "zh_s_normal2 = [0x5B9A, 0x671F, 0x76D1, 0x6D4B, 0x8840, 0x7CD6]"

definition zh_s_above1 :: pystr where
  "zh_s_above1 = [0x6CE8, 0x610F, 0x996E, 0x98DF, 0x642D, 0x914D]"

definition zh_s_above3 :: pystr where
  "zh_s_above3 = [0x7EE7, 0x7EED, 0x76D1, 0x6D4B]"

definition lvl_critical :: pystr where
  "lvl_critical = asc ''critical''"

definition lvl_high :: pystr where
  "lvl_high = asc ''high''"

definition lvl_moderate :: pystr where
  "lvl_moderate = asc ''moderate''"

definition lvl_normal :: pystr where
  "lvl_normal = asc ''normal''"

text \<open>
  \<^verbatim>\<open>InstantAnalysisAgent._assess_risk\<close>: the tuple of risk level, conclusion, reasoning and
  suggestions. The \<^verbatim>\<open>context\<close> argument is not read by the source.
\<close>

definition assess_risk ::
  "real \<Rightarrow> real \<Rightarrow> real \<Rightarrow> pystr option \<Rightarrow> pystr \<times> pystr \<times> ftext \<times> pystr list" where
  "assess_risk v target_min target_max context =
     (if v < 3.9 then
        (lvl_critical, zh_hypo_risk, plain zh_your_value @ [F1 v] @ plain zh_r_hypo,
         [zh_s_hypo1, zh_s_hypo2, zh_s_hypo3, zh_s_hypo4])
      else if v \<ge> 16.7 then
        (lvl_critical, zh_severe_hyper_risk, plain zh_your_value @ [F1 v] @ plain zh_r_severe,
         [zh_s_severe1, zh_s_severe2, zh_s_severe3, zh_s_severe4])
      else if v \<ge> 11.1 then
        (lvl_high, zh_glucose_high, plain zh_your_value @ [F1 v] @ plain zh_r_high,
         [zh_s_high1, zh_s_exercise_more, zh_s_high3, zh_s_high4])
      else if v < target_min then
        (lvl_moderate, zh_glucose_low, plain zh_your_value @ [F1 v] @ plain zh_r_low,
         [zh_s_low1, zh_s_low2])
      else if target_min \<le> v \<and> v \<le> target_max then
        (lvl_normal, zh_in_target, plain zh_your_value @ [F1 v] @ plain zh_r_normal,
         [zh_s_normal1, zh_s_normal2])
      else
        (lvl_moderate, zh_above_target, plain zh_your_value @ [F1 v] @ plain zh_r_above,
         [zh_s_above1, zh_s_exercise_more, zh_s_above3]))"

text \<open>
  The six tiers named by the specification, the interval of values each one covers for a
  target range, and the risk level and conclusion by which the code reports it.
\<close>

datatype tier = CriticalLow | CriticalHigh | High | ModerateLow | Normal | ModerateHigh

fun tier_region :: "tier \<Rightarrow> real \<Rightarrow> real \<Rightarrow> real \<Rightarrow> bool" where
  "tier_region CriticalLow tmin tmax v = (v < 3.9)"
| "tier_region CriticalHigh tmin tmax v = (16.7 \<le> v)"
| "tier_region High tmin tmax v = (11.1 \<le> v \<and> v < 16.7)"
| "tier_region ModerateLow tmin tmax v = (3.9 \<le> v \<and> v < 11.1 \<and> v < tmin)"
| "tier_region Normal tmin tmax v = (3.9 \<le> v \<and> v < 11.1 \<and> tmin \<le> v \<and> v \<le> tmax)"
| "tier_region ModerateHigh tmin tmax v = (3.9 \<le> v \<and> v < 11.1 \<and> tmax < v)"

fun tier_label :: "tier \<Rightarrow> pystr \<times> pystr" where
  "tier_label CriticalLow = (lvl_critical, zh_hypo_risk)"
| "tier_label CriticalHigh = (lvl_critical, zh_severe_hyper_risk)"
| "tier_label High = (lvl_high, zh_glucose_high)"
| "tier_label ModerateLow = (lvl_moderate, zh_glucose_low)"
| "tier_label Normal = (lvl_normal, zh_in_target)"
| "tier_label ModerateHigh = (lvl_moderate, zh_above_target)"

definition risk_label :: "pystr \<times> pystr \<times> ftext \<times> pystr list \<Rightarrow> pystr \<times> pystr" where
  "risk_label r = (fst r, fst (snd r))"

section \<open>Python values and the persistent state\<close>

text \<open>Exceptions that the modelled code can raise by itself.\<close>

datatype error = AttributeError | KeyError | OverflowError

text \<open>
  The values held by the dictionaries that the agents return, and a dictionary as an
  association list in insertion order. Keys are program literals and are written as
  Isabelle strings; \<^verbatim>\<open>d.get(k)\<close> is \<open>map_of d k\<close>.
\<close>

datatype pyval = PNone | PBool bool | PInt int | PFloat real | PStr ftext | PList "pyval list"
  | PDict "(string \<times> pyval) list"

type_synonym pydict = "(string \<times> pyval) list"

definition opt_float :: "real option \<Rightarrow> pyval" where
  "opt_float x = (case x of None \<Rightarrow> PNone | Some v \<Rightarrow> PFloat v)"

definition dict_get :: "pydict \<Rightarrow> string \<Rightarrow> pyval" where
  "dict_get d k = (case map_of d k of None \<Rightarrow> PNone | Some v \<Rightarrow> v)"

text \<open>\<^verbatim>\<open>d[k]\<close>, which raises \<^verbatim>\<open>KeyError\<close> for a missing key.\<close>

definition subscript :: "pydict \<Rightarrow> string \<Rightarrow> error + pyval" where
  "subscript d k = (case map_of d k of None \<Rightarrow> Inl KeyError | Some v \<Rightarrow> Inr v)"

text \<open>The truth value that Python gives a value in a condition.\<close>

fun truthy_val :: "pyval \<Rightarrow> bool" where
  "truthy_val PNone = False"
| "truthy_val (PBool b) = b"
| "truthy_val (PInt n) = (n \<noteq> 0)"
| "truthy_val (PFloat x) = (x \<noteq> 0)"
| "truthy_val (PStr s) = (s \<noteq> [])"
| "truthy_val (PList l) = (l \<noteq> [])"
| "truthy_val (PDict d) = (d \<noteq> [])"

text \<open>
  Reading a value at the type that its producer gave it: the text of a string (and the
  rendering of a number), the items of a list, the entries of a dictionary.
\<close>

fun as_text :: "pyval \<Rightarrow> ftext" where
  "as_text (PStr s) = s"
| "as_text (PInt n) = [FI n]"
| "as_text (PFloat x) = [FR x]"
| "as_text v = []"

definition codes :: "ftext \<Rightarrow> pystr" where
  "codes s = concat (map (\<lambda>x. case x of C c \<Rightarrow> [c] | _ \<Rightarrow> []) s)"

fun as_opt_str :: "pyval \<Rightarrow> pystr option" where
  "as_opt_str (PStr s) = Some (codes s)"
| "as_opt_str v = None"

fun as_float :: "pyval \<Rightarrow> real" where
  "as_float (PFloat x) = x"
| "as_float (PInt n) = real_of_int n"
| "as_float v = 0"

fun as_id :: "pyval \<Rightarrow> nat option" where
  "as_id (PInt n) = Some (nat n)"
| "as_id v = None"

fun as_list :: "pyval \<Rightarrow> pyval list" where
  "as_list (PList l) = l"
| "as_list v = []"

fun as_dict :: "pyval \<Rightarrow> pydict" where
  "as_dict (PDict d) = d"
| "as_dict v = []"

text \<open>
  A naive UTC \<^verbatim>\<open>datetime\<close> is the number of microseconds since 0001-01-01 00:00:00, the
  first day of the proleptic Gregorian calendar, which is a Monday.
\<close>

definition us_per_hour :: nat where
  "us_per_hour = 3600000000"

definition us_per_day :: nat where
  "us_per_day = 24 * us_per_hour"

definition dt_hour :: "nat \<Rightarrow> nat" where
  "dt_hour t = (t div us_per_hour) mod 24"

definition dt_weekday :: "nat \<Rightarrow> nat" where
  "dt_weekday t = (t div us_per_day) mod 7"

text \<open>\<^verbatim>\<open>t.replace(hour=0, minute=0, second=0, microsecond=0)\<close>.\<close>

definition dt_midnight :: "nat \<Rightarrow> nat" where
  "dt_midnight t = (t div us_per_day) * us_per_day"

text \<open>
  The rows of the tables, with the columns that the modelled code reads or writes.
  \<^verbatim>\<open>json.dumps\<close> of a list or dictionary is injective; a JSON text column holds the
  value that was serialised.
\<close>

record glucose_reading =
  r_id :: nat
  r_user_id :: nat
  r_value :: real
  r_unit :: pystr
  r_timestamp :: nat
  r_context :: "pystr option"
  r_meal_type :: "pystr option"
  r_hours_after_meal :: "real option"
  r_risk_level :: "pystr option"
  r_analysis_notes :: "ftext option"

record meal_entry =
  me_id :: nat
  me_user_id :: nat
  me_meal_type :: pystr
  me_timestamp :: nat
  me_description :: pystr
  me_portion_size :: "pystr option"
  me_estimated_carbs :: "real option"
  me_estimated_gi :: "real option"
  me_estimated_gl :: "real option"

record exercise_record =
  ex_id :: nat
  ex_user_id :: nat
  ex_exercise_type :: pystr
  ex_duration_minutes :: "nat option"
  ex_intensity :: pystr
  ex_timestamp :: nat

record medication_record =
  md_id :: nat
  md_user_id :: nat
  md_medication_name :: pystr
  md_dosage :: "pystr option"
  md_timestamp :: nat

record analysis_event =
  ae_user_id :: nat
  ae_glucose_reading_id :: nat
  ae_risk_level :: pystr
  ae_conclusion :: pystr
  ae_reasoning :: ftext
  ae_suggestions :: "pystr list"
  ae_trend_direction :: pyval
  ae_comparison_period :: pyval
  ae_average_value :: pyval

record weekly_report =
  wr_id :: nat
  wr_user_id :: nat
  wr_week_start :: nat
  wr_week_end :: nat
  wr_total_measurements :: nat
  wr_average_glucose :: "real option"
  wr_fasting_average :: "real option"
  wr_post_meal_average :: "real option"
  wr_target_compliance_rate :: "real option"
  wr_patterns :: "ftext list"
  wr_action_items :: "ftext list"
  wr_positive_progress :: "ftext list"

text \<open>
  The slot dictionary of \<^verbatim>\<open>_extract_slots\<close> has at most the four keys
  \<^verbatim>\<open>glucose_value\<close>, \<^verbatim>\<open>unit\<close>, \<^verbatim>\<open>meal_type\<close> and \<^verbatim>\<open>hours_after_meal\<close>; a key that is
  absent is \<open>None\<close>, so that a field is also \<^verbatim>\<open>slots.get(key)\<close>.
\<close>

record slot_map =
  sl_glucose_value :: "real option"
  sl_unit :: "pystr option"
  sl_meal_type :: "pystr option"
  sl_hours_after_meal :: "real option"

text \<open>
  A conversation state row. \<open>cs_updated_at\<close> is set from the clock when the row is inserted
  (the column default) and when it is updated.
\<close>

record conversation_state =
  cs_user_id :: nat
  cs_session_id :: pystr
  cs_current_topic :: "pystr option"
  cs_intent :: "pystr option"
  cs_sentiment :: "pystr option"
  cs_slots :: "slot_map option"
  cs_updated_at :: nat

record db =
  users :: "user list"
  glucose_readings :: "glucose_reading list"
  meal_entries :: "meal_entry list"
  exercise_records :: "exercise_record list"
  medication_records :: "medication_record list"
  analysis_events :: "analysis_event list"
  weekly_reports :: "weekly_report list"
  conversation_states :: "conversation_state list"

text \<open>The primary key given to a new row: one more than the largest key in use.\<close>

definition next_id :: "nat list \<Rightarrow> nat" where
  "next_id ids = Suc (fold max ids 0)"

text \<open>\<^verbatim>\<open>db.query(models.User).filter(models.User.id == user_id).first()\<close>.\<close>

definition query_user :: "db \<Rightarrow> nat \<Rightarrow> user option" where
  "query_user d user_id = find (\<lambda>u. uid u = user_id) (users d)"

text \<open>\<^verbatim>\<open>needle in text\<close> for strings, and the prefix test it is built from.\<close>

fun startswith :: "'a list \<Rightarrow> 'a list \<Rightarrow> bool" where
  "startswith t [] = True"
| "startswith [] (p # ps) = False"
| "startswith (c # t) (p # ps) = (c = p \<and> startswith t ps)"

fun py_in :: "'a list \<Rightarrow> 'a list \<Rightarrow> bool" where
  "py_in n [] = (n = [])"
| "py_in n (c # t) = (startswith (c # t) n \<or> py_in n t)"

text \<open>The first row that a query finds is updated in place.\<close>

fun update_first :: "('a \<Rightarrow> bool) \<Rightarrow> ('a \<Rightarrow> 'a) \<Rightarrow> 'a list \<Rightarrow> 'a list" where
  "update_first p f [] = []"
| "update_first p f (x # xs) = (if p x then f x # xs else x # update_first p f xs)"

text \<open>\<^verbatim>\<open>sep.join(parts)\<close>.\<close>

fun join :: "'a list \<Rightarrow> 'a list list \<Rightarrow> 'a list" where
  "join sep [] = []"
| "join sep [p] = p"
| "join sep (p # q # ps) = p @ sep @ join sep (q # ps)"

section \<open>weekly\_report.py\<close>

definition zh_no_data :: pystr where
  "zh_no_data = [0x672C, 0x5468, 0x8FD8, 0x6CA1, 0x6709, 0x8840, 0x7CD6, 0x8BB0, 0x5F55, 0xFF0C, 0x8BF7, 0x5F00, 0x59CB, 0x8BB0, 0x5F55, 0x60A8, 0x7684, 0x8840, 0x7CD6, 0x6570, 0x636E, 0x3002]"

definition zh_breakfast :: pystr where
  "zh_breakfast = [0x65E9, 0x9910]"

definition zh_lunch :: pystr where
  "zh_lunch = [0x5348, 0x9910]"

definition zh_dinner :: pystr where
  "zh_dinner = [0x665A, 0x9910]"

definition zh_avg_high :: pystr where
  "zh_avg_high = [0x540E, 0x8840, 0x7CD6, 0x5E73, 0x5747, 0x503C, 0x504F, 0x9AD8, 0xFF08]"

definition zh_avg_low :: pystr where
  "zh_avg_low = [0x540E, 0x8840, 0x7CD6, 0x5E73, 0x5747, 0x503C, 0x504F, 0x4F4E, 0xFF08]"

definition zh_mmol_close :: pystr where
  "zh_mmol_close = [0x20, 0x6D, 0x6D, 0x6F, 0x6C, 0x2F, 0x4C, 0xFF09]"

definition zh_late_up :: pystr where
  "zh_late_up = [0x672C, 0x5468, 0x540E, 0x671F, 0x8840, 0x7CD6, 0x8F83, 0x524D, 0x671F, 0x6709, 0x6240, 0x4E0A, 0x5347]"

definition zh_late_down :: pystr where
  "zh_late_down = [0x672C, 0x5468, 0x540E, 0x671F, 0x8840, 0x7CD6, 0x8F83, 0x524D, 0x671F, 0x6709, 0x6240, 0x4E0B, 0x964D]"

definition zh_exercised1 :: pystr where
  "zh_exercised1 = [0x672C, 0x5468, 0x8FDB, 0x884C, 0x4E86]"

definition zh_exercised2 :: pystr where
  "zh_exercised2 = [0x6B21, 0x8FD0, 0x52A8, 0xFF0C, 0x7EE7, 0x7EED, 0x4FDD, 0x6301]"

definition zh_start_recording :: pystr where
  "zh_start_recording = [0x5F00, 0x59CB, 0x8BB0, 0x5F55, 0x8840, 0x7CD6, 0x6570, 0x636E]"

definition zh_pian_gao :: pystr where
  "zh_pian_gao = [0x504F, 0x9AD8]"

definition zh_act_breakfast :: pystr where
  "zh_act_breakfast = [0x65E9, 0x9910, 0x9009, 0x62E9, 0x4F4E, 0x47, 0x49, 0x98DF, 0x7269, 0xFF0C, 0x589E, 0x52A0, 0x86CB, 0x767D, 0x8D28, 0x548C, 0x81B3, 0x98DF, 0x7EA4, 0x7EF4]"

definition zh_act_lunch :: pystr where
  "zh_act_lunch = [0x5348, 0x9910, 0x63A7, 0x5236, 0x4E3B, 0x98DF, 0x4EFD, 0x91CF, 0xFF0C, 0x6CE8, 0x610F, 0x8425, 0x517B, 0x642D, 0x914D]"

definition zh_act_dinner :: pystr where
  "zh_act_dinner = [0x665A, 0x9910, 0x51CF, 0x5C11, 0x7CBE, 0x5236, 0x78B3, 0x6C34, 0xFF0C, 0x589E, 0x52A0, 0x852C, 0x83DC, 0x6BD4, 0x4F8B]"

definition zh_act_monitor :: pystr where
  "zh_act_monitor = [0x52A0, 0x5F3A, 0x8840, 0x7CD6, 0x76D1, 0x6D4B, 0x9891, 0x7387, 0xFF0C, 0x53CA, 0x65F6, 0x8C03, 0x6574, 0x996E, 0x98DF, 0x548C, 0x8FD0, 0x52A8]"

definition zh_act_frequency :: pystr where
  "zh_act_frequency = [0x5EFA, 0x8BAE, 0x589E, 0x52A0, 0x6D4B, 0x91CF, 0x9891, 0x7387, 0xFF0C, 0x6BCF, 0x5929, 0x81F3, 0x5C11, 0x32, 0x2D, 0x33, 0x6B21, 0xFF08, 0x4E0D, 0x540C, 0x65F6, 0x95F4, 0x70B9, 0xFF09]"

definition zh_act_keep :: pystr where
  "zh_act_keep = [0x7EE7, 0x7EED, 0x4FDD, 0x6301, 0x5F53, 0x524D, 0x7684, 0x826F, 0x597D, 0x4E60, 0x60EF]"

definition zh_act_regular :: pystr where
  "zh_act_regular = [0x5B9A, 0x671F, 0x76D1, 0x6D4B, 0x8840, 0x7CD6, 0xFF0C, 0x5173, 0x6CE8, 0x53D8, 0x5316, 0x8D8B, 0x52BF]"

definition zh_prog_rate1 :: pystr where
  "zh_prog_rate1 = [0x76EE, 0x6807, 0x8FBE, 0x6807, 0x7387, 0x8FBE, 0x5230]"

definition zh_prog_rate2 :: pystr where
  "zh_prog_rate2 = [0x25, 0xFF0C, 0x8868, 0x73B0, 0x4F18, 0x79C0, 0xFF01]"

definition zh_prog_count1 :: pystr where
  "zh_prog_count1 = [0x672C, 0x5468, 0x6D4B, 0x91CF]"

definition zh_prog_count2 :: pystr where
  "zh_prog_count2 = [0x6B21, 0xFF0C, 0x76D1, 0x6D4B, 0x9891, 0x7387, 0x826F, 0x597D]"

definition zh_prog_stable :: pystr where
  "zh_prog_stable = [0x8840, 0x7CD6, 0x6CE2, 0x52A8, 0x8F83, 0x5C0F, 0xFF0C, 0x63A7, 0x5236, 0x7A33, 0x5B9A]"

definition zh_rep_title :: pystr where
  "zh_rep_title = [0x1F4CA, 0x20, 0x3010, 0x672C, 0x5468, 0x8840, 0x7CD6, 0x7BA1, 0x7406, 0x62A5, 0x544A, 0x3011]"

definition zh_rep_period :: pystr where
  "zh_rep_period = [0x62A5, 0x544A, 0x5468, 0x671F, 0xFF1A]"

definition zh_rep_to :: pystr where
  "zh_rep_to = [0x20, 0x81F3, 0x20]"

definition zh_rep_stats :: pystr where
  "zh_rep_stats = [0x3010, 0x7EDF, 0x8BA1, 0x6570, 0x636E, 0x3011]"

definition zh_rep_total :: pystr where
  "zh_rep_total = [0x2022, 0x20, 0x603B, 0x6D4B, 0x91CF, 0x6B21, 0x6570, 0xFF1A]"

definition zh_rep_times :: pystr where
  "zh_rep_times = [0x6B21]"

definition zh_rep_avg :: pystr where
  "zh_rep_avg = [0x2022, 0x20, 0x5E73, 0x5747, 0x8840, 0x7CD6, 0xFF1A]"

definition zh_rep_fasting_avg :: pystr where
  "zh_rep_fasting_avg = [0x2022, 0x20, 0x7A7A, 0x8179, 0x5E73, 0x5747, 0xFF1A]"

definition zh_rep_post_avg :: pystr where
  "zh_rep_post_avg = [0x2022, 0x20, 0x9910, 0x540E, 0x5E73, 0x5747, 0xFF1A]"

definition zh_rep_rate :: pystr where
  "zh_rep_rate = [0x2022, 0x20, 0x76EE, 0x6807, 0x8FBE, 0x6807, 0x7387, 0xFF1A]"

definition zh_rep_patterns :: pystr where
  "zh_rep_patterns = [0x3010, 0x6A21, 0x5F0F, 0x8BC6, 0x522B, 0x3011]"

definition zh_rep_progress :: pystr where
  "zh_rep_progress = [0x3010, 0x6B63, 0x9762, 0x8FDB, 0x5C55, 0x3011]"

definition zh_rep_actions :: pystr where
  "zh_rep_actions = [0x3010, 0x884C, 0x52A8, 0x5EFA, 0x8BAE, 0x3011]"

definition zh_bullet :: pystr where
  "zh_bullet = [0x2022, 0x20]"

definition zh_rep_meals1 :: pystr where
  "zh_rep_meals1 = [0x3010, 0x996E, 0x98DF, 0x8BB0, 0x5F55, 0x3011, 0x672C, 0x5468, 0x5171, 0x8BB0, 0x5F55]"

definition zh_rep_meals2 :: pystr where
  "zh_rep_meals2 = [0x6B21, 0x996E, 0x98DF]"

definition zh_rep_exercises1 :: pystr where
  "zh_rep_exercises1 = [0x3010, 0x8FD0, 0x52A8, 0x8BB0, 0x5F55, 0x3011, 0x672C, 0x5468, 0x5171, 0x8BB0, 0x5F55]"

definition zh_rep_exercises2 :: pystr where
  "zh_rep_exercises2 = [0x6B21, 0x8FD0, 0x52A8]"

text \<open>Python's \<^verbatim>\<open>x or d\<close> for a nullable float column \<open>x\<close>.\<close>

definition or_default :: "real option \<Rightarrow> real \<Rightarrow> real" where
  "or_default x d = (if truthy x then the x else d)"

text \<open>
  One pass of the loop body of \<^verbatim>\<open>calculate_target_compliance\<close>: whether the reading
  counts as compliant. The user is \<^verbatim>\<open>None\<close> when the query found no row; reading its
  attributes raises \<^verbatim>\<open>AttributeError\<close>.
\<close>

definition compliant :: "user option \<Rightarrow> glucose_reading \<Rightarrow> error + bool" where
  "compliant u r =
     (if r_context r = Some ctx_fasting then
        (case u of None \<Rightarrow> Inl AttributeError
         | Some usr \<Rightarrow>
             (let target_min = or_default (fasting_target_min usr) 4.4;
                  target_max = or_default (fasting_target_max usr) 7.2
              in Inr (target_min \<le> r_value r \<and> r_value r \<le> target_max)))
      else if r_context r = Some ctx_post_meal then
        (case u of None \<Rightarrow> Inl AttributeError
         | Some usr \<Rightarrow>
             (let target_max = or_default (post_meal_target_max usr) 10.0
              in Inr (r_value r \<le> target_max)))
      else Inr (3.9 \<le> r_value r \<and> r_value r \<le> 11.1))"

fun count_compliant :: "user option \<Rightarrow> glucose_reading list \<Rightarrow> nat \<Rightarrow> error + nat" where
  "count_compliant u [] compliant_count = Inr compliant_count"
| "count_compliant u (r # rs) compliant_count =
     (case compliant u r of
        Inl e \<Rightarrow> Inl e
      | Inr b \<Rightarrow> count_compliant u rs (if b then compliant_count + 1 else compliant_count))"

definition calculate_target_compliance :: "glucose_reading list \<Rightarrow> user option \<Rightarrow> error + real" where
  "calculate_target_compliance readings u =
     (if readings = [] then Inr 0
      else (case count_compliant u readings 0 of
              Inl e \<Rightarrow> Inl e
            | Inr compliant_count \<Rightarrow>
                Inr ((real compliant_count / real (length readings)) * 100)))"

text \<open>
  The target range that the specification gives a reading by its own recorded context:
  fasting has the user's fasting minimum or 4.4 and the user's fasting maximum or 7.2,
  post-meal has the user's post-meal maximum or 10.0 as an upper bound only, and every
  other context has 3.9 to 11.1. A target that is unset or zero gives the default.
\<close>

definition in_target :: "user \<Rightarrow> glucose_reading \<Rightarrow> bool" where
  "in_target usr r =
     (if r_context r = Some ctx_fasting then
        or_default (fasting_target_min usr) 4.4 \<le> r_value r
        \<and> r_value r \<le> or_default (fasting_target_max usr) 7.2
      else if r_context r = Some ctx_post_meal then
        r_value r \<le> or_default (post_meal_target_max usr) 10.0
      else 3.9 \<le> r_value r \<and> r_value r \<le> 11.1)"

text \<open>\<^verbatim>\<open>sum(values) / len(values)\<close>; the callers pass a non-empty list.\<close>

definition average :: "real list \<Rightarrow> real" where
  "average vs = sum_list vs / real (length vs)"

text \<open>
  \<^verbatim>\<open>identify_patterns\<close>. The dictionary from meal type to values keeps insertion order.
\<close>

fun add_value :: "pystr \<Rightarrow> real \<Rightarrow> (pystr \<times> real list) list \<Rightarrow> (pystr \<times> real list) list" where
  "add_value m v [] = [(m, [v])]"
| "add_value m v ((k, vs) # kvs) =
     (if k = m then (k, vs @ [v]) # kvs else (k, vs) # add_value m v kvs)"

fun meal_type_values ::
  "glucose_reading list \<Rightarrow> (pystr \<times> real list) list \<Rightarrow> (pystr \<times> real list) list" where
  "meal_type_values [] acc = acc"
| "meal_type_values (r # rs) acc =
     meal_type_values rs
       (case r_meal_type r of
          None \<Rightarrow> acc
        | Some m \<Rightarrow> if m = [] then acc else add_value m (r_value r) acc)"

definition meal_name :: "pystr \<Rightarrow> pystr" where
  "meal_name meal_type =
     (if meal_type = asc ''breakfast'' then zh_breakfast
      else if meal_type = asc ''lunch'' then zh_lunch
      else if meal_type = asc ''dinner'' then zh_dinner
      else meal_type)"

fun meal_patterns :: "(pystr \<times> real list) list \<Rightarrow> ftext list" where
  "meal_patterns [] = []"
| "meal_patterns ((meal_type, vs) # kvs) =
     (let avg = average vs in
      (if avg > 8.0 then
         [plain (meal_name meal_type) @ plain zh_avg_high @ [F1 avg] @ plain zh_mmol_close]
       else if avg < 5.0 then
         [plain (meal_name meal_type) @ plain zh_avg_low @ [F1 avg] @ plain zh_mmol_close]
       else [])
      @ meal_patterns kvs)"

definition trend_patterns :: "glucose_reading list \<Rightarrow> ftext list" where
  "trend_patterns readings =
     (if length readings \<ge> 3 then
        (let recent_avg = sum_list (map r_value (drop (length readings - 3) readings)) / 3;
             earlier_avg = sum_list (map r_value (take 3 readings)) / 3
         in if recent_avg > earlier_avg * 1.1 then [plain zh_late_up]
            else if recent_avg < earlier_avg * 0.9 then [plain zh_late_down]
            else [])
      else [])"

definition identify_patterns ::
  "glucose_reading list \<Rightarrow> meal_entry list \<Rightarrow> exercise_record list \<Rightarrow> ftext list" where
  "identify_patterns readings meals exercises =
     (if readings = [] then []
      else meal_patterns (meal_type_values readings [])
           @ trend_patterns readings
           @ (if exercises \<noteq> []
              then [plain zh_exercised1 @ [FI (int (length exercises))] @ plain zh_exercised2]
              else []))"

text \<open>\<^verbatim>\<open>generate_action_items\<close>.\<close>

fun pattern_items :: "ftext list \<Rightarrow> pystr list" where
  "pattern_items [] = []"
| "pattern_items (pattern # ps) =
     (if py_in (plain zh_pian_gao) pattern then
        (if py_in (plain zh_breakfast) pattern then [zh_act_breakfast]
         else if py_in (plain zh_lunch) pattern then [zh_act_lunch]
         else if py_in (plain zh_dinner) pattern then [zh_act_dinner]
         else [])
      else [])
     @ pattern_items ps"

definition generate_action_items ::
  "glucose_reading list \<Rightarrow> user option \<Rightarrow> ftext list \<Rightarrow> error + ftext list" where
  "generate_action_items readings u patterns =
     (if readings = [] then Inr [plain zh_start_recording]
      else
        (case calculate_target_compliance readings u of
           Inl e \<Rightarrow> Inl e
         | Inr compliance \<Rightarrow>
             (let items1 = pattern_items patterns;
                  items2 = items1 @ (if compliance < 70 then [zh_act_monitor] else []);
                  items3 = items2 @ (if length readings < 7 then [zh_act_frequency] else []);
                  items4 = (if items3 = [] then [zh_act_keep, zh_act_regular] else items3)
              in Inr (map plain (take 3 items4)))))"

text \<open>
  Line 308 squares each deviation from the mean with \<^verbatim>\<open>** 2\<close>. The power of a float
  raises \<^verbatim>\<open>OverflowError\<close> when its result is beyond the range of the doubles; the sums
  and the quotients of floats raise nothing. The generator stops at the first square that
  raises.
\<close>

definition float_sq :: "real \<Rightarrow> error + real" where
  "float_sq x = (if overflows (x * x) then Inl OverflowError else Inr (x ^ 2))"

fun sum_sq :: "real \<Rightarrow> real list \<Rightarrow> error + real" where
  "sum_sq m [] = Inr 0"
| "sum_sq m (v # vs) =
     (case float_sq (v - m) of
        Inl e \<Rightarrow> Inl e
      | Inr s \<Rightarrow> (case sum_sq m vs of Inl e \<Rightarrow> Inl e | Inr t \<Rightarrow> Inr (s + t)))"

definition variance :: "real list \<Rightarrow> error + real" where
  "variance vs =
     (case sum_sq (average vs) vs of
        Inl e \<Rightarrow> Inl e
      | Inr s \<Rightarrow> Inr (s / real (length vs)))"

text \<open>
  \<^verbatim>\<open>identify_positive_progress\<close>. The source takes the 0.5-th power of the population
  variance, its square root, and tests whether it is below 1.5. The model tests whether
  the variance is below the square of 1.5, which over the reals is the same test
  (lemma \<open>std_dev_test\<close>) and can be evaluated. The exception of line 308 leaves the
  function, and \<^verbatim>\<open>generate_weekly_report\<close> raises it again after the rollback.
\<close>

definition identify_positive_progress ::
  "glucose_reading list \<Rightarrow> user option \<Rightarrow> error + ftext list" where
  "identify_positive_progress readings u =
     (if readings = [] then Inr []
      else
        (case calculate_target_compliance readings u of
           Inl e \<Rightarrow> Inl e
         | Inr compliance \<Rightarrow>
             (let progress =
                    (if compliance \<ge> 80
                     then [plain zh_prog_rate1 @ [F1 compliance] @ plain zh_prog_rate2] else [])
                    @ (if length readings \<ge> 14
                       then [plain zh_prog_count1 @ [FI (int (length readings))]
                             @ plain zh_prog_count2]
                       else [])
              in if length readings \<ge> 3 then
                   (case variance (map r_value readings) of
                      Inl e \<Rightarrow> Inl e
                    | Inr var \<Rightarrow>
                        Inr (progress @ (if var < 1.5 ^ 2 then [plain zh_prog_stable] else [])))
                 else Inr progress)))"

text \<open>The week that holds \<open>today\<close>: Monday 00:00 to the next Monday 00:00.\<close>

definition week_start_of :: "nat \<Rightarrow> nat" where
  "week_start_of today = dt_midnight (today - dt_weekday today * us_per_day)"

definition week_end_of :: "nat \<Rightarrow> nat" where
  "week_end_of today = week_start_of today + 7 * us_per_day"

text \<open>
  The three queries of \<^verbatim>\<open>generate_weekly_report\<close>. The readings are ordered by
  timestamp; rows with equal timestamps keep their table order.
\<close>

definition week_readings :: "db \<Rightarrow> nat \<Rightarrow> nat \<Rightarrow> glucose_reading list" where
  "week_readings d today user_id =
     sort_key r_timestamp
       (filter (\<lambda>r. r_user_id r = user_id \<and> r_timestamp r \<ge> week_start_of today
                     \<and> r_timestamp r < week_end_of today)
          (glucose_readings d))"

definition week_meals :: "db \<Rightarrow> nat \<Rightarrow> nat \<Rightarrow> meal_entry list" where
  "week_meals d today user_id =
     filter (\<lambda>m. me_user_id m = user_id \<and> me_timestamp m \<ge> week_start_of today
                   \<and> me_timestamp m < week_end_of today)
       (meal_entries d)"

definition week_exercises :: "db \<Rightarrow> nat \<Rightarrow> nat \<Rightarrow> exercise_record list" where
  "week_exercises d today user_id =
     filter (\<lambda>x. ex_user_id x = user_id \<and> ex_timestamp x \<ge> week_start_of today
                   \<and> ex_timestamp x < week_end_of today)
       (exercise_records d)"

text \<open>The lines of the report text, lines 99 to 141 of the source.\<close>

fun numbered :: "nat \<Rightarrow> ftext list \<Rightarrow> ftext list" where
  "numbered i [] = []"
| "numbered i (item # items) = ([FI (int i)] @ plain (asc ''. '') @ item) # numbered (Suc i) items"

definition report_content ::
  "nat \<Rightarrow> nat \<Rightarrow> nat \<Rightarrow> real \<Rightarrow> real option \<Rightarrow> real option \<Rightarrow> real \<Rightarrow> ftext list \<Rightarrow> ftext list
   \<Rightarrow> ftext list \<Rightarrow> nat \<Rightarrow> nat \<Rightarrow> ftext" where
  "report_content week_start week_end total_measurements avg_glucose fasting_avg post_meal_avg
     target_compliance patterns positive_progress action_items n_meals n_exercises =
     join (plain (asc [CHR 0x0A]))
       ([plain zh_rep_title,
         plain zh_rep_period @ [FD week_start] @ plain zh_rep_to @ [FD week_end]
           @ plain (asc [CHR 0x0A]),
         plain zh_rep_stats,
         plain zh_rep_total @ [FI (int total_measurements)] @ plain zh_rep_times,
         plain zh_rep_avg @ [F1 avg_glucose] @ plain (asc '' mmol/L'')]
        @ (if truthy fasting_avg
           then [plain zh_rep_fasting_avg @ [F1 (the fasting_avg)] @ plain (asc '' mmol/L'')]
           else [])
        @ (if truthy post_meal_avg
           then [plain zh_rep_post_avg @ [F1 (the post_meal_avg)] @ plain (asc '' mmol/L'')]
           else [])
        @ [plain zh_rep_rate @ [F1 target_compliance] @ plain (asc [CHR ''%'', CHR 0x0A])]
        @ (if patterns \<noteq> []
           then [plain zh_rep_patterns] @ map (\<lambda>p. plain zh_bullet @ p) patterns @ [[]]
           else [])
        @ (if positive_progress \<noteq> []
           then [plain zh_rep_progress] @ map (\<lambda>p. plain zh_bullet @ p) positive_progress @ [[]]
           else [])
        @ (if action_items \<noteq> []
           then [plain zh_rep_actions] @ numbered 1 (take 3 action_items) @ [[]]
           else [])
        @ (if n_meals \<noteq> 0
           then [plain zh_rep_meals1 @ [FI (int n_meals)] @ plain zh_rep_meals2] else [])
        @ (if n_exercises \<noteq> 0
           then [plain zh_rep_exercises1 @ [FI (int n_exercises)] @ plain zh_rep_exercises2]
           else []))"

definition context_average :: "glucose_reading list \<Rightarrow> pystr \<Rightarrow> real option" where
  "context_average readings c =
     (let rs = filter (\<lambda>r. r_context r = Some c) readings
      in if rs \<noteq> [] then Some (average (map r_value rs)) else None)"

text \<open>
  \<^verbatim>\<open>generate_weekly_report\<close>, with the current time \<^verbatim>\<open>datetime.utcnow()\<close> as the argument
  \<open>today\<close>. The result is the returned dictionary and the state after the call, or the
  exception that is raised again after the rollback.
\<close>

definition generate_weekly_report :: "db \<Rightarrow> nat \<Rightarrow> nat \<Rightarrow> error + (pydict \<times> db)" where
  "generate_weekly_report d today user_id =
     (let week_start = week_start_of today;
          week_end = week_end_of today;
          readings = week_readings d today user_id;
          meals = week_meals d today user_id;
          exercises = week_exercises d today user_id;
          u = query_user d user_id;
          total_measurements = length readings
      in
      if total_measurements = 0 then
        Inr ([(''success'', PBool False),
              (''content'', PStr (plain zh_no_data)),
              (''report_id'', PNone),
              (''total_measurements'', PInt 0),
              (''average_glucose'', PNone),
              (''fasting_average'', PNone),
              (''post_meal_average'', PNone),
              (''target_compliance_rate'', PNone)], d)
      else
        (let avg_glucose = average (map r_value readings);
             fasting_avg = context_average readings ctx_fasting;
             post_meal_avg = context_average readings ctx_post_meal
         in
         case calculate_target_compliance readings u of
           Inl e \<Rightarrow> Inl e
         | Inr target_compliance \<Rightarrow>
         (let patterns = identify_patterns readings meals exercises in
          case generate_action_items readings u patterns of
            Inl e \<Rightarrow> Inl e
          | Inr action_items \<Rightarrow>
          (case identify_positive_progress readings u of
            Inl e \<Rightarrow> Inl e
          | Inr positive_progress \<Rightarrow>
          (let content = report_content week_start week_end total_measurements avg_glucose
                 fasting_avg post_meal_avg target_compliance patterns positive_progress
                 action_items (length meals) (length exercises);
               report = \<lparr> wr_id = next_id (map wr_id (weekly_reports d)),
                          wr_user_id = user_id,
                          wr_week_start = week_start,
                          wr_week_end = week_end,
                          wr_total_measurements = total_measurements,
                          wr_average_glucose = Some avg_glucose,
                          wr_fasting_average = fasting_avg,
                          wr_post_meal_average = post_meal_avg,
                          wr_target_compliance_rate = Some target_compliance,
                          wr_patterns = patterns,
                          wr_action_items = action_items,
                          wr_positive_progress = positive_progress \<rparr>
           in Inr ([(''success'', PBool True),
                    (''content'', PStr content),
                    (''report_id'', PInt (int (wr_id report))),
                    (''total_measurements'', PInt (int total_measurements)),
                    (''average_glucose'', PFloat avg_glucose),
                    (''fasting_average'', opt_float fasting_avg),
                    (''post_meal_average'', opt_float post_meal_avg),
                    (''target_compliance_rate'', PFloat target_compliance)],
                   d\<lparr> weekly_reports := weekly_reports d @ [report] \<rparr>))))))"

section \<open>agents.py: text extractors\<close>

subsection \<open>Characters\<close>

text \<open>
  \<^verbatim>\<open>\d\<close> in a \<^verbatim>\<open>str\<close> pattern matches the Unicode decimal digits, which come in blocks of
  ten consecutive code points for the digits 0 to 9 (the table is that of Unicode 14,
  Python 3.11); \<^verbatim>\<open>float\<close> reads them by their digit value. \<^verbatim>\<open>\s\<close> matches the characters
  for which \<^verbatim>\<open>str.isspace\<close> holds.
\<close>

definition digit_blocks :: "nat list" where
  "digit_blocks =
     [0x30, 0x660, 0x6F0, 0x7C0, 0x966, 0x9E6, 0xA66, 0xAE6, 0xB66, 0xBE6, 0xC66,
      0xCE6, 0xD66, 0xDE6, 0xE50, 0xED0, 0xF20, 0x1040, 0x1090, 0x17E0, 0x1810,
      0x1946, 0x19D0, 0x1A80, 0x1A90, 0x1B50, 0x1BB0, 0x1C40, 0x1C50, 0xA620,
      0xA8D0, 0xA900, 0xA9D0, 0xA9F0, 0xAA50, 0xABF0, 0xFF10, 0x104A0, 0x10D30,
      0x11066, 0x110F0, 0x11136, 0x111D0, 0x112F0, 0x11450, 0x114D0, 0x11650,
      0x116C0, 0x11730, 0x118E0, 0x11950, 0x11C50, 0x11D50, 0x11DA0, 0x16A60,
      0x16AC0, 0x16B50, 0x1D7CE, 0x1D7D8, 0x1D7E2, 0x1D7EC, 0x1D7F6, 0x1E140,
      0x1E2F0, 0x1E950, 0x1FBF0]"

definition in_block :: "nat \<Rightarrow> nat \<Rightarrow> bool" where
  "in_block c b = (b \<le> c \<and> c < b + 10)"

definition is_digit :: "nat \<Rightarrow> bool" where
  "is_digit c = list_ex (in_block c) digit_blocks"

definition digit_val :: "nat \<Rightarrow> nat" where
  "digit_val c = (case find (in_block c) digit_blocks of Some b \<Rightarrow> c - b | None \<Rightarrow> 0)"

definition is_space :: "nat \<Rightarrow> bool" where
  "is_space c =
     ((0x09 \<le> c \<and> c \<le> 0x0D) \<or> (0x1C \<le> c \<and> c \<le> 0x20) \<or> c = 0x85 \<or> c = 0xA0
      \<or> c = 0x1680 \<or> (0x2000 \<le> c \<and> c \<le> 0x200A) \<or> c = 0x2028 \<or> c = 0x2029
      \<or> c = 0x202F \<or> c = 0x205F \<or> c = 0x3000)"

text \<open>
  Letter case. The literals that the program looks for in a lower-cased text, or matches
  with \<^verbatim>\<open>re.IGNORECASE\<close>, consist of ASCII lower-case letters, ASCII punctuation and CJK
  characters. \<open>py_lower\<close> is \<^verbatim>\<open>str.lower\<close> on every character whose lower case holds an
  ASCII letter: the letters A to Z, the Kelvin sign U+212A and the dotted capital I
  U+0130. Every other character is left as it is; \<^verbatim>\<open>str.lower\<close> maps it to one
  character that is again neither ASCII, CJK nor a line break, so that the searches of
  this program cannot tell the difference. \<open>fold_cp\<close> is the case folding of
  \<^verbatim>\<open>re.IGNORECASE\<close> on the ASCII letters; the letters of the patterns compiled with that
  flag (m, o, l, g, h) have no other case variant.
\<close>

definition fold_cp :: "nat \<Rightarrow> nat" where
  "fold_cp c = (if 0x41 \<le> c \<and> c \<le> 0x5A then c + 0x20 else c)"

definition lower_cp :: "nat \<Rightarrow> pystr" where
  "lower_cp c =
     (if 0x41 \<le> c \<and> c \<le> 0x5A then [c + 0x20]
      else if c = 0x212A then [0x6B]
      else if c = 0x130 then [0x69, 0x307]
      else [c])"

definition py_lower :: "pystr \<Rightarrow> pystr" where
  "py_lower s = concat (map lower_cp s)"

subsection \<open>Regular expressions\<close>

text \<open>
  The fragment of Python's \<^verbatim>\<open>re\<close> that the program uses: literals, the classes \<^verbatim>\<open>\d\<close>,
  \<^verbatim>\<open>\s\<close>, \<^verbatim>\<open>.\<close> and bracketed sets of them, greedy \<^verbatim>\<open>*\<close> and \<^verbatim>\<open>+\<close> over one such class,
  sequence, alternation, a greedy optional part, and one capturing group.

  \<open>rx_run\<close> is the backtracking matcher: from a state (the text of group 1 so far and
  the rest of the input) it gives the states in which a match of the expression can end,
  in the order in which backtracking tries them. \<open>re_search\<close> is \<^verbatim>\<open>re.search\<close>: the first
  match at the leftmost start position, as the text of group 1. Every pattern of the
  program that is read with \<^verbatim>\<open>group(1)\<close> has its group outside any optional part, so the
  group is set in every match.
\<close>

datatype cc = Ch nat | Digit | Space | Any

fun cc_ok :: "bool \<Rightarrow> cc \<Rightarrow> nat \<Rightarrow> bool" where
  "cc_ok ic (Ch k) c = (if ic then fold_cp c = fold_cp k else c = k)"
| "cc_ok ic Digit c = is_digit c"
| "cc_ok ic Space c = is_space c"
| "cc_ok ic Any c = (c \<noteq> 0x0A)"

definition cls_ok :: "bool \<Rightarrow> cc list \<Rightarrow> nat \<Rightarrow> bool" where
  "cls_ok ic cs c = list_ex (\<lambda>a. cc_ok ic a c) cs"

datatype rx = Lit pystr | One "cc list" | Star "cc list" | Plus "cc list"
  | Then rx rx | Alt rx rx | Opt rx | Group rx

type_synonym mstate = "pystr \<times> pystr"

text \<open>The rests after a greedy run of characters of a class, the longest run first.\<close>

fun many :: "(nat \<Rightarrow> bool) \<Rightarrow> pystr \<Rightarrow> pystr list" where
  "many p [] = [[]]"
| "many p (c # t) = (if p c then many p t @ [c # t] else [c # t])"

definition many1 :: "(nat \<Rightarrow> bool) \<Rightarrow> pystr \<Rightarrow> pystr list" where
  "many1 p t = (case t of [] \<Rightarrow> [] | c # t' \<Rightarrow> if p c then many p t' else [])"

definition lit_ok :: "bool \<Rightarrow> pystr \<Rightarrow> pystr \<Rightarrow> bool" where
  "lit_ok ic s t = (if ic then startswith (map fold_cp t) (map fold_cp s) else startswith t s)"

fun rx_run :: "bool \<Rightarrow> rx \<Rightarrow> mstate \<Rightarrow> mstate list" where
  "rx_run ic (Lit s) (g, t) = (if lit_ok ic s t then [(g, drop (length s) t)] else [])"
| "rx_run ic (One cs) (g, t) =
     (case t of [] \<Rightarrow> [] | c # t' \<Rightarrow> if cls_ok ic cs c then [(g, t')] else [])"
| "rx_run ic (Star cs) (g, t) = map (Pair g) (many (cls_ok ic cs) t)"
| "rx_run ic (Plus cs) (g, t) = map (Pair g) (many1 (cls_ok ic cs) t)"
| "rx_run ic (Then r1 r2) st = concat (map (rx_run ic r2) (rx_run ic r1 st))"
| "rx_run ic (Alt r1 r2) st = rx_run ic r1 st @ rx_run ic r2 st"
| "rx_run ic (Opt r) st = rx_run ic r st @ [st]"
| "rx_run ic (Group r) (g, t) =
     map (\<lambda>(g', t'). (take (length t - length t') t, t')) (rx_run ic r (g, t))"

fun re_search :: "bool \<Rightarrow> rx \<Rightarrow> pystr \<Rightarrow> pystr option" where
  "re_search ic r [] = (case rx_run ic r ([], []) of [] \<Rightarrow> None | (g, _) # _ \<Rightarrow> Some g)"
| "re_search ic r (c # t) =
     (case rx_run ic r ([], c # t) of [] \<Rightarrow> re_search ic r t | (g, _) # _ \<Rightarrow> Some g)"

fun seq :: "rx list \<Rightarrow> rx" where
  "seq [] = Lit []"
| "seq [r] = r"
| "seq (r # rs) = Then r (seq rs)"

text \<open>\<^verbatim>\<open>.*\<close> and the number pattern \<^verbatim>\<open>\d+(?:\.\d+)?\<close>.\<close>

definition dotstar :: rx where
  "dotstar = Star [Any]"

definition number :: rx where
  "number = Then (Plus [Digit]) (Opt (Then (Lit (asc ''.'')) (Plus [Digit])))"

text \<open>
  \<^verbatim>\<open>float\<close> of a matched number, as its exact decimal value (Python rounds it to the
  nearest double).
\<close>

definition dec :: "pystr \<Rightarrow> nat" where
  "dec ds = foldl (\<lambda>a c. 10 * a + digit_val c) 0 ds"

definition py_float :: "pystr \<Rightarrow> real" where
  "py_float s =
     (let ip = takeWhile is_digit s; rest = dropWhile is_digit s
      in real (dec ip)
         + (case rest of [] \<Rightarrow> 0 | dot # fp \<Rightarrow> real (dec fp) / 10 ^ length fp))"

subsection \<open>The extractors\<close>

definition zh_xuetang :: pystr where
  "zh_xuetang = [0x8840, 0x7CD6]"

definition zh_shi :: pystr where
  "zh_shi = [0x662F]"

definition zh_canhou :: pystr where
  "zh_canhou = [0x9910, 0x540E]"

definition zh_xiaoshi :: pystr where
  "zh_xiaoshi = [0x5C0F, 0x65F6]"

definition zh_hou :: pystr where
  "zh_hou = [0x540E]"

definition zh_zaofan :: pystr where
  "zh_zaofan = [0x65E9, 0x996D]"

definition zh_wufan :: pystr where
  "zh_wufan = [0x5348, 0x996D]"

definition zh_wanfan :: pystr where
  "zh_wanfan = [0x665A, 0x996D]"

definition zh_jiacan :: pystr where
  "zh_jiacan = [0x52A0, 0x9910]"

definition zh_meichifan :: pystr where
  "zh_meichifan = [0x6CA1, 0x5403, 0x996D]"

definition zh_shihou :: pystr where
  "zh_shihou = [0x65F6, 0x5019]"

definition zh_ce :: pystr where
  "zh_ce = [0x6D4B]"

definition zh_e :: pystr where
  "zh_e = [0x997F]"

definition zh_yiwanshang :: pystr where
  "zh_yiwanshang = [0x4E00, 0x665A, 0x4E0A]"

definition zh_wanshang :: pystr where
  "zh_wanshang = [0x665A, 0x4E0A]"

definition zh_meichizaofan :: pystr where
  "zh_meichizaofan = [0x6CA1, 0x5403, 0x65E9, 0x996D]"

definition zh_meichizaocan :: pystr where
  "zh_meichizaocan = [0x6CA1, 0x5403, 0x65E9, 0x9910]"

definition zh_duzikong :: pystr where
  "zh_duzikong = [0x809A, 0x5B50, 0x7A7A]"

definition zh_kongfu :: pystr where
  "zh_kongfu = [0x7A7A, 0x8179]"

definition zh_ezhe :: pystr where
  "zh_ezhe = [0x997F, 0x7740]"

definition zh_kongzhe :: pystr where
  "zh_kongzhe = [0x7A7A, 0x7740]"

definition zh_chifanqian :: pystr where
  "zh_chifanqian = [0x5403, 0x996D, 0x524D]"

definition zh_zhunbeikaifan :: pystr where
  "zh_zhunbeikaifan = [0x51C6, 0x5907, 0x5F00, 0x996D]"

definition zh_meichifanzhiqian :: pystr where
  "zh_meichifanzhiqian = [0x6CA1, 0x5403, 0x996D, 0x4E4B, 0x524D]"

definition zh_yaochifan :: pystr where
  "zh_yaochifan = [0x8981, 0x5403, 0x996D]"

definition zh_xiance :: pystr where
  "zh_xiance = [0x5148, 0x6D4B]"

definition zh_canqian :: pystr where
  "zh_canqian = [0x9910, 0x524D]"

definition zh_fanqian :: pystr where
  "zh_fanqian = [0x996D, 0x524D]"

definition zh_chiwan :: pystr where
  "zh_chiwan = [0x5403, 0x5B8C]"

definition zh_fanhou :: pystr where
  "zh_fanhou = [0x996D, 0x540E]"

definition zh_gangchiwan :: pystr where
  "zh_gangchiwan = [0x521A, 0x5403, 0x5B8C]"

definition zh_fan :: pystr where
  "zh_fan = [0x996D]"

definition zh_chibao :: pystr where
  "zh_chibao = [0x5403, 0x9971]"

definition zh_dongxi :: pystr where
  "zh_dongxi = [0x4E1C, 0x897F]"

definition zh_yongcanjieshu :: pystr where
  "zh_yongcanjieshu = [0x7528, 0x9910, 0x7ED3, 0x675F]"

definition zh_suibian :: pystr where
  "zh_suibian = [0x968F, 0x4FBF]"

definition zh_xiangqilai :: pystr where
  "zh_xiangqilai = [0x60F3, 0x8D77, 0x6765]"

definition zh_meigudingshijian :: pystr where
  "zh_meigudingshijian = [0x6CA1, 0x56FA, 0x5B9A, 0x65F6, 0x95F4]"

definition zh_renyishihou :: pystr where
  "zh_renyishihou = [0x4EFB, 0x610F, 0x65F6, 0x5019]"

definition zh_suiji :: pystr where
  "zh_suiji = [0x968F, 0x673A]"

definition zh_renyi :: pystr where
  "zh_renyi = [0x4EFB, 0x610F]"

text \<open>
  The loop shared by \<^verbatim>\<open>extract_glucose_value\<close> and \<^verbatim>\<open>extract_hours_after_meal\<close>: the
  first pattern that matches gives the number in its group; the patterns are compiled
  with \<^verbatim>\<open>re.IGNORECASE\<close>.
\<close>

fun first_number :: "rx list \<Rightarrow> pystr \<Rightarrow> real option" where
  "first_number [] text = None"
| "first_number (pattern # patterns) text =
     (case re_search True pattern text of
        Some g \<Rightarrow> Some (py_float g)
      | None \<Rightarrow> first_number patterns text)"

definition glucose_patterns :: "rx list" where
  "glucose_patterns =
     [seq [Group number, Star [Space], Alt (Lit (asc ''mmol'')) (Lit (asc ''mg''))],
      seq [Lit zh_xuetang, Star [Ch 0x662F, Space], Group number],
      Group number]"

definition extract_glucose_value :: "pystr \<Rightarrow> real option" where
  "extract_glucose_value text = first_number glucose_patterns text"

definition detect_unit :: "pystr \<Rightarrow> pystr" where
  "detect_unit text =
     (let text_lower = py_lower text
      in if py_in (asc ''mg'') text_lower \<or> py_in (asc ''mg/dl'') text_lower
         then unit_mgdl else unit_mmol)"

definition infer_meal_type :: "nat \<Rightarrow> pystr" where
  "infer_meal_type timestamp =
     (let hour = dt_hour timestamp
      in if 6 \<le> hour \<and> hour < 10 then asc ''breakfast''
         else if 10 \<le> hour \<and> hour < 14 then asc ''lunch''
         else if 14 \<le> hour \<and> hour < 18 then asc ''snack''
         else if 18 \<le> hour \<and> hour < 22 then asc ''dinner''
         else asc ''other'')"

definition detect_meal_type_from_text :: "pystr \<Rightarrow> pystr option" where
  "detect_meal_type_from_text text =
     (let text_lower = py_lower text
      in if py_in zh_breakfast text_lower \<or> py_in zh_zaofan text_lower
            \<or> py_in (asc ''breakfast'') text_lower then Some (asc ''breakfast'')
         else if py_in zh_lunch text_lower \<or> py_in zh_wufan text_lower
            \<or> py_in (asc ''lunch'') text_lower then Some (asc ''lunch'')
         else if py_in zh_dinner text_lower \<or> py_in zh_wanfan text_lower
            \<or> py_in (asc ''dinner'') text_lower then Some (asc ''dinner'')
         else if py_in zh_jiacan text_lower \<or> py_in (asc ''snack'') text_lower
         then Some (asc ''snack'')
         else None)"

definition hours_patterns :: "rx list" where
  "hours_patterns =
     [seq [Lit zh_canhou, Star [Ch 0x28, Space], Group number, Star [Space], Lit zh_xiaoshi],
      seq [Group number, Star [Space], Lit zh_xiaoshi, One [Ch 0x540E]],
      seq [Group number, Lit (asc ''h'')]]"

definition extract_hours_after_meal :: "pystr \<Rightarrow> real option" where
  "extract_hours_after_meal text = first_number hours_patterns text"

text \<open>
  \<^verbatim>\<open>detect_context_from_colloquial\<close>: four pattern lists, each tried by a loop that
  returns at the first pattern found in the lower-cased text.
\<close>

definition fasting_keywords :: "rx list" where
  "fasting_keywords =
     [seq [Lit zh_meichifan, dotstar, Lit zh_shihou, dotstar, Lit zh_ce],
      seq [Lit zh_meichifan, dotstar, Lit zh_ce],
      seq [Lit zh_e, dotstar, Lit zh_yiwanshang, dotstar, Lit zh_ce],
      seq [Lit zh_e, dotstar, Lit zh_wanshang, dotstar, Lit zh_ce],
      seq [Lit zh_meichizaofan, dotstar, Lit zh_ce],
      seq [Lit zh_meichizaocan, dotstar, Lit zh_ce],
      seq [Lit zh_duzikong, dotstar, Lit zh_shihou, dotstar, Lit zh_ce],
      seq [Lit zh_duzikong, dotstar, Lit zh_ce],
      Lit zh_kongfu,
      Lit (asc ''fasting''),
      seq [Lit zh_ezhe, dotstar, Lit zh_ce],
      seq [Lit zh_kongzhe, dotstar, Lit zh_ce]]"

definition pre_meal_keywords :: "rx list" where
  "pre_meal_keywords =
     [seq [Lit zh_chifanqian, dotstar, Lit zh_ce],
      seq [Lit zh_zhunbeikaifan, dotstar, Lit zh_shihou, dotstar, Lit zh_ce],
      seq [Lit zh_zhunbeikaifan, dotstar, Lit zh_ce],
      seq [Lit zh_meichifanzhiqian, dotstar, Lit zh_ce],
      seq [Lit zh_yaochifan, dotstar, Lit zh_xiance],
      Lit zh_canqian,
      seq [Lit (asc ''pre''), dotstar, Lit (asc ''meal'')],
      Lit zh_fanqian]"

definition post_meal_keywords :: "rx list" where
  "post_meal_keywords =
     [seq [Lit zh_chiwan, dotstar, Lit zh_fanhou, dotstar, Lit zh_ce],
      seq [Lit zh_gangchiwan, dotstar, Lit zh_fan, dotstar, Lit zh_ce],
      seq [Lit zh_chibao, dotstar, Lit zh_dongxi, dotstar, Lit zh_ce],
      seq [Lit zh_chibao, dotstar, Lit zh_ce],
      seq [Lit zh_yongcanjieshu, dotstar, Lit zh_ce],
      Lit zh_canhou,
      seq [Lit (asc ''post''), dotstar, Lit (asc ''meal'')],
      Lit zh_fanhou,
      seq [Lit zh_chiwan, dotstar, Lit zh_ce]]"

definition random_keywords :: "rx list" where
  "random_keywords =
     [seq [Lit zh_suibian, dotstar, Lit zh_shihou, dotstar, Lit zh_ce],
      seq [Lit zh_xiangqilai, dotstar, Lit zh_ce],
      seq [Lit zh_meigudingshijian, dotstar, Lit zh_ce],
      seq [Lit zh_renyishihou, dotstar, Lit zh_ce],
      Lit zh_suiji,
      Lit (asc ''random''),
      seq [Lit zh_suibian, dotstar, Lit zh_ce],
      seq [Lit zh_renyi, dotstar, Lit zh_ce]]"

text \<open>
  \<^verbatim>\<open>for pattern in patterns: if re.search(pattern, text_lower): return ...\<close>: whether the
  loop returns.
\<close>

fun any_search :: "rx list \<Rightarrow> pystr \<Rightarrow> bool" where
  "any_search [] text = False"
| "any_search (pattern # patterns) text =
     (case re_search False pattern text of
        Some g \<Rightarrow> True
      | None \<Rightarrow> any_search patterns text)"

definition detect_context_from_colloquial :: "pystr \<Rightarrow> pystr option" where
  "detect_context_from_colloquial text =
     (let text_lower = py_lower text
      in if any_search fasting_keywords text_lower then Some ctx_fasting
         else if any_search pre_meal_keywords text_lower then Some ctx_pre_meal
         else if any_search post_meal_keywords text_lower then Some ctx_post_meal
         else if any_search random_keywords text_lower then Some ctx_random
         else None)"

text \<open>
  Whether some pattern of a list is found in a text, as the specification speaks of a
  text that matches some pattern of a tier.
\<close>

definition matches_some :: "rx list \<Rightarrow> pystr \<Rightarrow> bool" where
  "matches_some ps t = (\<exists>p \<in> set ps. re_search False p t \<noteq> None)"

text \<open>
  Two parts of the glucose patterns, named for the proofs: what follows the number in the
  first pattern, and the class \<^verbatim>\<open>[\<close>U+662F\<^verbatim>\<open>\s]\<close> of the second.
\<close>

definition unit_tail :: rx where
  "unit_tail = Then (Star [Space]) (Alt (Lit (asc ''mmol'')) (Lit (asc ''mg'')))"

definition label_class :: "nat \<Rightarrow> bool" where
  "label_class = cls_ok True [Ch 0x662F, Space]"

section \<open>String literals of agents.py and orchestrator.py\<close>

text \<open>
  The literals with CJK characters, by their code points. \<open>zh_a237_1\<close> is the first such
  literal on line 237 of agents.py, \<open>zh_o130_1\<close> the first on line 130 of orchestrator.py.
\<close>

definition zh_o71_1 :: pystr where
  "zh_o71_1 = [0x8BB0, 0x5F55, 0x8840, 0x7CD6]"

definition zh_o84_1 :: pystr where
  "zh_o84_1 = [0x5206, 0x6790, 0x8840, 0x7CD6]"

definition zh_o89_1 :: pystr where
  "zh_o89_1 = [0x8BB0, 0x5F55, 0x996E, 0x98DF]"

definition zh_o96_1 :: pystr where
  "zh_o96_1 = [0x8BB0, 0x5F55, 0x8FD0, 0x52A8]"

definition zh_o101_1 :: pystr where
  "zh_o101_1 = [0x8BB0, 0x5F55, 0x7528, 0x836F]"

definition zh_o106_1 :: pystr where
  "zh_o106_1 = [0x5206, 0x6790, 0x8840, 0x7CD6, 0x72B6, 0x6001]"

definition zh_o113_1 :: pystr where
  "zh_o113_1 = [0x79D1, 0x666E, 0x6559, 0x80B2]"

definition zh_o120_1 :: pystr where
  "zh_o120_1 = [0x5EFA, 0x8BAE, 0xFF1A, 0xA]"

definition zh_o120_2 :: pystr where
  "zh_o120_2 = [0x2022, 0x20]"

definition zh_o121_1 :: pystr where
  "zh_o121_1 = [0x60C5, 0x611F, 0x652F, 0x6301]"

definition zh_o126_1 :: pystr where
  "zh_o126_1 = [0x751F, 0x6210, 0x5468, 0x62A5]"

definition zh_o130_1 :: pystr where
  "zh_o130_1 = [0x5DF2, 0x68C0, 0x6D4B, 0x5230, 0x98CE, 0x9669, 0x60C5, 0x51B5, 0xFF0C, 0x8BF7, 0x67E5, 0x770B, 0x4E0A, 0x8FF0, 0x5206, 0x6790, 0x5EFA, 0x8BAE, 0x3002]"

definition zh_o131_1 :: pystr where
  "zh_o131_1 = [0x98CE, 0x9669, 0x544A, 0x8B66]"

definition zh_o135_1 :: pystr where
  "zh_o135_1 = [0x6211, 0x7406, 0x89E3, 0x60A8, 0x7684, 0x95EE, 0x9898, 0x3002]"

definition zh_o136_1 :: pystr where
  "zh_o136_1 = [0x8840, 0x7CD6]"

definition zh_o137_1 :: pystr where
  "zh_o137_1 = [0x5982, 0x679C, 0x60A8, 0x60F3, 0x8BB0, 0x5F55, 0x8840, 0x7CD6, 0xFF0C, 0x53EF, 0x4EE5, 0x8BF4, 0x22, 0x6211, 0x6D4B, 0x4E86, 0x8840, 0x7CD6, 0x58, 0x2E, 0x58, 0x22, 0xFF1B, 0x5982, 0x679C, 0x60F3, 0x8BE2, 0x95EE, 0x6570, 0x503C, 0xFF0C, 0x53EF, 0x4EE5, 0x8BF4, 0x22, 0x8FD9, 0x4E2A, 0x6570, 0x503C, 0x9AD8, 0x5417, 0xFF1F, 0x22]"

definition zh_o139_1 :: pystr where
  "zh_o139_1 = [0x6211, 0x53EF, 0x4EE5, 0x5E2E, 0x60A8, 0xFF1A, 0x8BB0, 0x5F55, 0x8840, 0x7CD6, 0x2F, 0x996E, 0x98DF, 0x2F, 0x8FD0, 0x52A8, 0xFF0C, 0x5206, 0x6790, 0x8840, 0x7CD6, 0x72B6, 0x6001, 0xFF0C, 0x56DE, 0x7B54, 0x5065, 0x5EB7, 0x95EE, 0x9898, 0xFF0C, 0x63D0, 0x4F9B, 0x60C5, 0x611F, 0x652F, 0x6301, 0x3002, 0x8BF7, 0x544A, 0x8BC9, 0x6211, 0x60A8, 0x9700, 0x8981, 0x4EC0, 0x4E48, 0x5E2E, 0x52A9, 0x3002]"

definition zh_o151_1 :: pystr where
  "zh_o151_1 = [0x5EFA, 0x8BAE]"

definition zh_o152_1 :: pystr where
  "zh_o152_1 = [0xA, 0xA, 0x26A0, 0xFE0F, 0x20, 0x91CD, 0x8981, 0x63D0, 0x793A, 0xFF1A, 0x4EE5, 0x4E0A, 0x5EFA, 0x8BAE, 0x4EC5, 0x4F9B, 0x53C2, 0x8003, 0xFF0C, 0x4E0D, 0x80FD, 0x66FF, 0x4EE3, 0x4E13, 0x4E1A, 0x533B, 0x7597, 0x8BCA, 0x65AD, 0x3002, 0x5982, 0x6709, 0x7D27, 0x6025, 0x60C5, 0x51B5, 0x6216, 0x6301, 0x7EED, 0x5F02, 0x5E38, 0xFF0C, 0x8BF7, 0x53CA, 0x65F6, 0x8054, 0x7CFB, 0x533B, 0x751F, 0x3002]"

definition zh_o167_1 :: pystr where
  "zh_o167_1 = [0x8840, 0x7CD6]"

definition zh_o167_2 :: pystr where
  "zh_o167_2 = [0x6D4B, 0x4E86]"

definition zh_o167_3 :: pystr where
  "zh_o167_3 = [0x6D4B, 0x91CF]"

definition zh_o171_1 :: pystr where
  "zh_o171_1 = [0x5403, 0x4E86]"

definition zh_o171_2 :: pystr where
  "zh_o171_2 = [0x996E, 0x98DF]"

definition zh_o171_3 :: pystr where
  "zh_o171_3 = [0x9910]"

definition zh_o171_4 :: pystr where
  "zh_o171_4 = [0x8BB0, 0x5F55]"

definition zh_o171_5 :: pystr where
  "zh_o171_5 = [0x5403]"

definition zh_o175_1 :: pystr where
  "zh_o175_1 = [0x8FD0, 0x52A8]"

definition zh_o175_2 :: pystr where
  "zh_o175_2 = [0x953B, 0x70BC]"

definition zh_o175_3 :: pystr where
  "zh_o175_3 = [0x8DD1, 0x6B65]"

definition zh_o175_4 :: pystr where
  "zh_o175_4 = [0x8D70, 0x8DEF]"

definition zh_o179_1 :: pystr where
  "zh_o179_1 = [0x7528, 0x836F]"

definition zh_o179_2 :: pystr where
  "zh_o179_2 = [0x5403, 0x836F]"

definition zh_o179_3 :: pystr where
  "zh_o179_3 = [0x836F, 0x7269]"

definition zh_o183_1 :: pystr where
  "zh_o183_1 = [0x600E, 0x4E48, 0x6837]"

definition zh_o183_2 :: pystr where
  "zh_o183_2 = [0x9AD8, 0x5417]"

definition zh_o183_3 :: pystr where
  "zh_o183_3 = [0x4F4E, 0x5417]"

definition zh_o183_4 :: pystr where
  "zh_o183_4 = [0x6B63, 0x5E38, 0x5417]"

definition zh_o183_5 :: pystr where
  "zh_o183_5 = [0x8840, 0x7CD6]"

definition zh_o187_1 :: pystr where
  "zh_o187_1 = [0x5468, 0x62A5]"

definition zh_o187_2 :: pystr where
  "zh_o187_2 = [0x8FD9, 0x5468]"

definition zh_o187_3 :: pystr where
  "zh_o187_3 = [0x672C, 0x5468]"

definition zh_o187_4 :: pystr where
  "zh_o187_4 = [0x590D, 0x76D8]"

definition zh_o191_1 :: pystr where
  "zh_o191_1 = [0x662F, 0x4EC0, 0x4E48]"

definition zh_o191_2 :: pystr where
  "zh_o191_2 = [0x4EC0, 0x4E48, 0x610F, 0x601D]"

definition zh_o191_3 :: pystr where
  "zh_o191_3 = [0x89E3, 0x91CA]"

definition zh_o195_1 :: pystr where
  "zh_o195_1 = [0x6CAE, 0x4E27]"

definition zh_o195_2 :: pystr where
  "zh_o195_2 = [0x63A7, 0x5236, 0x4E0D, 0x597D]"

definition zh_o195_3 :: pystr where
  "zh_o195_3 = [0x53C8, 0x9AD8, 0x4E86]"

definition zh_o195_4 :: pystr where
  "zh_o195_4 = [0x5931, 0x8D25]"

definition zh_o195_5 :: pystr where
  "zh_o195_5 = [0x62C5, 0x5FC3]"

definition zh_o195_6 :: pystr where
  "zh_o195_6 = [0x7126, 0x8651]"

definition zh_o196_1 :: pystr where
  "zh_o196_1 = [0x63A7, 0x5236, 0x5F97, 0x5F88, 0x597D]"

definition zh_o196_2 :: pystr where
  "zh_o196_2 = [0x8FBE, 0x6807]"

definition zh_o196_3 :: pystr where
  "zh_o196_3 = [0x5F00, 0x5FC3]"

definition zh_o196_4 :: pystr where
  "zh_o196_4 = [0x8FDB, 0x6B65]"

definition zh_o201_1 :: pystr where
  "zh_o201_1 = [0x4F4E, 0x8840, 0x7CD6]"

definition zh_o201_2 :: pystr where
  "zh_o201_2 = [0x9AD8, 0x8840, 0x7CD6]"

definition zh_o201_3 :: pystr where
  "zh_o201_3 = [0x7D27, 0x6025]"

definition zh_o210_1 :: pystr where
  "zh_o210_1 = [0x62C5, 0x5FC3]"

definition zh_o210_2 :: pystr where
  "zh_o210_2 = [0x5BB3, 0x6015]"

definition zh_o210_3 :: pystr where
  "zh_o210_3 = [0x7126, 0x8651]"

definition zh_o210_4 :: pystr where
  "zh_o210_4 = [0x7D27, 0x5F20]"

definition zh_o211_1 :: pystr where
  "zh_o211_1 = [0x6CAE, 0x4E27]"

definition zh_o211_2 :: pystr where
  "zh_o211_2 = [0x63A7, 0x5236, 0x4E0D, 0x597D]"

definition zh_o211_3 :: pystr where
  "zh_o211_3 = [0x53C8, 0x9AD8, 0x4E86]"

definition zh_o211_4 :: pystr where
  "zh_o211_4 = [0x5931, 0x8D25]"

definition zh_o211_5 :: pystr where
  "zh_o211_5 = [0x5931, 0x671B]"

definition zh_o212_1 :: pystr where
  "zh_o212_1 = [0x63A7, 0x5236, 0x5F97, 0x5F88, 0x597D]"

definition zh_o212_2 :: pystr where
  "zh_o212_2 = [0x8FBE, 0x6807]"

definition zh_o212_3 :: pystr where
  "zh_o212_3 = [0x5F00, 0x5FC3]"

definition zh_o212_4 :: pystr where
  "zh_o212_4 = [0x987A, 0x5229]"

definition zh_o212_5 :: pystr where
  "zh_o212_5 = [0x8FDB, 0x6B65]"

definition zh_o317_1 :: pystr where
  "zh_o317_1 = [0x7A7A, 0x8179]"

definition zh_o319_1 :: pystr where
  "zh_o319_1 = [0x9910, 0x540E]"

definition zh_o321_1 :: pystr where
  "zh_o321_1 = [0x9910, 0x524D]"

definition zh_o346_1 :: pystr where
  "zh_o346_1 = [0x62B1, 0x6B49, 0xFF0C, 0x6211, 0x6CA1, 0x6709, 0x627E, 0x5230, 0x60A8, 0x6700, 0x8FD1, 0x7684, 0x8840, 0x7CD6, 0x8BB0, 0x5F55, 0x3002, 0x8BF7, 0x5148, 0x8BB0, 0x5F55, 0x4E00, 0x6B21, 0x8840, 0x7CD6, 0x6D4B, 0x91CF, 0x3002]"

definition zh_o358_1 :: pystr where
  "zh_o358_1 = [0x60A8, 0x6700, 0x8FD1, 0x7684, 0x8840, 0x7CD6, 0x503C, 0x662F, 0x20]"

definition zh_o370_1 :: pystr where
  "zh_o370_1 = [0x3010, 0x5206, 0x6790, 0x7ED3, 0x679C, 0x3011]"

definition zh_o373_1 :: pystr where
  "zh_o373_1 = [0x4F9D, 0x636E, 0xFF1A]"

definition zh_o376_1 :: pystr where
  "zh_o376_1 = [0x5EFA, 0x8BAE, 0xFF1A]"

definition zh_o378_1 :: pystr where
  "zh_o378_1 = [0x20, 0x20, 0x2022, 0x20]"

definition zh_o381_1 :: pystr where
  "zh_o381_1 = [0x8D8B, 0x52BF, 0xFF1A]"

definition zh_a237_1 :: pystr where
  "zh_a237_1 = [0x62B1, 0x6B49, 0xFF0C, 0x6211, 0x6CA1, 0x6709, 0x5728, 0x60A8, 0x7684, 0x8BDD, 0x91CC, 0x627E, 0x5230, 0x8840, 0x7CD6, 0x6570, 0x503C, 0xFF0C, 0x8BF7, 0x518D, 0x8BF4, 0x4E00, 0x6B21, 0xFF0C, 0x6BD4, 0x5982, 0x22, 0x8840, 0x7CD6, 0x38, 0x2E, 0x35, 0x22, 0x3002]"

definition zh_a238_1 :: pystr where
  "zh_a238_1 = [0x8840, 0x7CD6, 0x6570, 0x503C]"

definition zh_a268_1 :: pystr where
  "zh_a268_1 = [0x7A7A, 0x8179]"

definition zh_a270_1 :: pystr where
  "zh_a270_1 = [0x9910, 0x540E]"

definition zh_a275_1 :: pystr where
  "zh_a275_1 = [0x9910, 0x540E, 0x65F6, 0x957F]"

definition zh_a276_1 :: pystr where
  "zh_a276_1 = [0x9910, 0x524D]"

definition zh_a286_1 :: pystr where
  "zh_a286_1 = [0x6D4B, 0x91CF, 0x4E0A, 0x4E0B, 0x6587, 0xFF08, 0x7A7A, 0x8179, 0x2F, 0x9910, 0x540E, 0xFF09]"

definition zh_a313_1 :: pystr where
  "zh_a313_1 = [0x5DF2, 0x4E3A, 0x60A8, 0x8BB0, 0x5F55, 0x8840, 0x7CD6, 0x503C, 0xFF1A]"

definition zh_a313_2 :: pystr where
  "zh_a313_2 = [0xFF08]"

definition zh_a313_3 :: pystr where
  "zh_a313_3 = [0x20, 0x6D, 0x6D, 0x6F, 0x6C, 0x2F, 0x4C, 0xFF09]"

definition zh_a315_1 :: pystr where
  "zh_a315_1 = [0xFF0C, 0x6D4B, 0x91CF, 0x7C7B, 0x578B, 0xFF1A]"

definition zh_a317_1 :: pystr where
  "zh_a317_1 = [0x3002, 0x8FD8, 0x9700, 0x8981, 0x8865, 0x5145, 0xFF1A]"

definition zh_a384_1 :: pystr where
  "zh_a384_1 = [0x5DF2, 0x4E3A, 0x60A8, 0x8BB0, 0x5F55, 0x996E, 0x98DF, 0xFF1A]"

definition zh_a386_1 :: pystr where
  "zh_a386_1 = [0x4EFD, 0x91CF]"

definition zh_a387_1 :: pystr where
  "zh_a387_1 = [0x3002, 0x5982, 0x9700, 0x66F4, 0x51C6, 0x786E, 0x7684, 0x5206, 0x6790, 0xFF0C, 0x8BF7, 0x8865, 0x5145, 0x4EFD, 0x91CF, 0x4FE1, 0x606F, 0x3002]"

definition zh_a412_1 :: pystr where
  "zh_a412_1 = [0x8DD1, 0x6B65]"

definition zh_a413_1 :: pystr where
  "zh_a413_1 = [0x8DD1, 0x6B65]"

definition zh_a414_1 :: pystr where
  "zh_a414_1 = [0x8D70, 0x8DEF]"

definition zh_a415_1 :: pystr where
  "zh_a415_1 = [0x8D70, 0x8DEF]"

definition zh_a416_1 :: pystr where
  "zh_a416_1 = [0x6E38, 0x6CF3]"

definition zh_a417_1 :: pystr where
  "zh_a417_1 = [0x6E38, 0x6CF3]"

definition zh_a454_1 :: pystr where
  "zh_a454_1 = [0x5DF2, 0x8BB0, 0x5F55, 0x8FD0, 0x52A8, 0xFF1A]"

definition zh_a496_1 :: pystr where
  "zh_a496_1 = [0x5DF2, 0x8BB0, 0x5F55, 0x7528, 0x836F, 0xFF1A]"

definition zh_a511_1 :: pystr where
  "zh_a511_1 = [0x9762]"

definition zh_a514_1 :: pystr where
  "zh_a514_1 = [0x7C73, 0x996D]"

definition zh_a514_2 :: pystr where
  "zh_a514_2 = [0x7C73]"

definition zh_a517_1 :: pystr where
  "zh_a517_1 = [0x9762, 0x5305]"

definition zh_a559_1 :: pystr where
  "zh_a559_1 = [0x672A, 0x627E, 0x5230, 0x7528, 0x6237, 0x4FE1, 0x606F]"

definition zh_a737_1 :: pystr where
  "zh_a737_1 = [0x6570, 0x636E, 0x4E0D, 0x8DB3, 0xFF0C, 0x65E0, 0x6CD5, 0x5206, 0x6790, 0x8D8B, 0x52BF]"

definition zh_a746_1 :: pystr where
  "zh_a746_1 = [0x8F83, 0x8FD1, 0x37, 0x5929, 0x5E73, 0x5747, 0x503C, 0x28]"

definition zh_a746_2 :: pystr where
  "zh_a746_2 = [0x20, 0x6D, 0x6D, 0x6F, 0x6C, 0x2F, 0x4C, 0x29, 0x6709, 0x6240, 0x4E0A, 0x5347]"

definition zh_a749_1 :: pystr where
  "zh_a749_1 = [0x8F83, 0x8FD1, 0x37, 0x5929, 0x5E73, 0x5747, 0x503C, 0x28]"

definition zh_a749_2 :: pystr where
  "zh_a749_2 = [0x20, 0x6D, 0x6D, 0x6F, 0x6C, 0x2F, 0x4C, 0x29, 0x6709, 0x6240, 0x4E0B, 0x964D]"

definition zh_a752_1 :: pystr where
  "zh_a752_1 = [0x4E0E, 0x8FD1, 0x37, 0x5929, 0x5E73, 0x5747, 0x503C, 0x28]"

definition zh_a752_2 :: pystr where
  "zh_a752_2 = [0x20, 0x6D, 0x6D, 0x6F, 0x6C, 0x2F, 0x4C, 0x29, 0x57FA, 0x672C, 0x4E00, 0x81F4]"

definition zh_a841_1 :: pystr where
  "zh_a841_1 = [0x7A7A, 0x8179, 0x8840, 0x7CD6]"

definition zh_a847_1 :: pystr where
  "zh_a847_1 = [0x9910, 0x540E, 0x8840, 0x7CD6]"

definition zh_a859_1 :: pystr where
  "zh_a859_1 = [0x76D1, 0x6D4B, 0x9891, 0x7387]"

definition zh_a820_1 :: pystr where
  "zh_a820_1 = [0x47, 0x49, 0xFF08, 0x8840, 0x7CD6, 0x751F, 0x6210, 0x6307, 0x6570, 0xFF09]"

definition zh_a821_1 :: pystr where
  "zh_a821_1 = [0x47, 0x49, 0x503C, 0x8861, 0x91CF, 0x98DF, 0x7269, 0x5BFC, 0x81F4, 0x8840, 0x7CD6, 0x5347, 0x9AD8, 0x7684, 0x901F, 0x5EA6, 0x548C, 0x7A0B, 0x5EA6, 0x3002, 0x8303, 0x56F4, 0x30, 0x2D, 0x31, 0x30, 0x30, 0xFF0C, 0x6570, 0x503C, 0x8D8A, 0x9AD8, 0xFF0C, 0x8840, 0x7CD6, 0x5347, 0x9AD8, 0x8D8A, 0x5FEB, 0x3002]"

definition zh_a823_1 :: pystr where
  "zh_a823_1 = [0x4F4E, 0x47, 0x49]"

definition zh_a824_1 :: pystr where
  "zh_a824_1 = [0x4E2D, 0x47, 0x49]"

definition zh_a825_1 :: pystr where
  "zh_a825_1 = [0x9AD8, 0x47, 0x49]"

definition zh_a823_2 :: pystr where
  "zh_a823_2 = [0x2264, 0x35, 0x35, 0xFF0C, 0x8840, 0x7CD6, 0x5347, 0x9AD8, 0x7F13, 0x6162, 0xFF0C, 0x9002, 0x5408, 0x7CD6, 0x5C3F, 0x75C5, 0x60A3, 0x8005]"

definition zh_a824_2 :: pystr where
  "zh_a824_2 = [0x35, 0x36, 0x2D, 0x36, 0x39, 0xFF0C, 0x8840, 0x7CD6, 0x5347, 0x9AD8, 0x4E2D, 0x7B49]"

definition zh_a825_2 :: pystr where
  "zh_a825_2 = [0x2265, 0x37, 0x30, 0xFF0C, 0x8840, 0x7CD6, 0x5347, 0x9AD8, 0x5FEB, 0x901F, 0xFF0C, 0x5E94, 0x9002, 0x91CF, 0x63A7, 0x5236]"

definition zh_a828_1 :: pystr where
  "zh_a828_1 = [0x4F4E, 0x47, 0x49]"

definition zh_a829_1 :: pystr where
  "zh_a829_1 = [0x9AD8, 0x47, 0x49]"

definition zh_a828_2 :: pystr where
  "zh_a828_2 = [0x71D5, 0x9EA6, 0x3001, 0x5168, 0x9EA6, 0x9762, 0x5305, 0x3001, 0x82F9, 0x679C, 0x3001, 0x8C46, 0x7C7B]"

definition zh_a829_2 :: pystr where
  "zh_a829_2 = [0x767D, 0x7C73, 0x996D, 0x3001, 0x767D, 0x9762, 0x5305, 0x3001, 0x7CD6, 0x679C, 0x3001, 0x679C, 0x6C41]"

definition zh_a833_1 :: pystr where
  "zh_a833_1 = [0x47, 0x4C, 0xFF08, 0x8840, 0x7CD6, 0x8D1F, 0x8377, 0xFF09]"

definition zh_a834_1 :: pystr where
  "zh_a834_1 = [0x47, 0x4C, 0x503C, 0x7EFC, 0x5408, 0x8003, 0x8651, 0x4E86, 0x47, 0x49, 0x503C, 0x548C, 0x98DF, 0x7269, 0x4EFD, 0x91CF, 0xFF0C, 0x66F4, 0x80FD, 0x53CD, 0x6620, 0x5B9E, 0x9645, 0x5BF9, 0x8840, 0x7CD6, 0x7684, 0x5F71, 0x54CD, 0x3002, 0x47, 0x4C, 0x20, 0x3D, 0x20, 0x47, 0x49, 0x20, 0xD7, 0x20, 0x78B3, 0x6C34, 0x5316, 0x5408, 0x7269, 0x542B, 0x91CF, 0x28, 0x67, 0x29, 0x20, 0x2F, 0x20, 0x31, 0x30, 0x30]"

definition zh_a836_1 :: pystr where
  "zh_a836_1 = [0x4F4E, 0x47, 0x4C]"

definition zh_a837_1 :: pystr where
  "zh_a837_1 = [0x4E2D, 0x47, 0x4C]"

definition zh_a838_1 :: pystr where
  "zh_a838_1 = [0x9AD8, 0x47, 0x4C]"

definition zh_a836_2 :: pystr where
  "zh_a836_2 = [0x2264, 0x31, 0x30]"

definition zh_a838_2 :: pystr where
  "zh_a838_2 = [0x2265, 0x32, 0x30]"

definition zh_a844_1 :: pystr where
  "zh_a844_1 = [0x6B63, 0x5E38, 0x8303, 0x56F4]"

definition zh_a845_1 :: pystr where
  "zh_a845_1 = [0x610F, 0x4E49]"

definition zh_a842_1 :: pystr where
  "zh_a842_1 = [0x7A7A, 0x8179, 0x8840, 0x7CD6]"

definition zh_a843_1 :: pystr where
  "zh_a843_1 = [0x7A7A, 0x8179, 0x8840, 0x7CD6, 0x662F, 0x6307, 0x81F3, 0x5C11, 0x38, 0x5C0F, 0x65F6, 0x672A, 0x8FDB, 0x98DF, 0x540E, 0x6D4B, 0x91CF, 0x7684, 0x8840, 0x7CD6, 0x503C, 0xFF0C, 0x901A, 0x5E38, 0x5728, 0x65E9, 0x6668, 0x8D77, 0x5E8A, 0x540E, 0x6D4B, 0x91CF, 0x3002]"

definition zh_a844_2 :: pystr where
  "zh_a844_2 = [0x6B63, 0x5E38, 0xFF1A, 0x33, 0x2E, 0x39, 0x2D, 0x36, 0x2E, 0x31, 0x20, 0x6D, 0x6D, 0x6F, 0x6C, 0x2F, 0x4C, 0xFF1B, 0x7CD6, 0x5C3F, 0x75C5, 0x524D, 0x671F, 0xFF1A, 0x36, 0x2E, 0x31, 0x2D, 0x37, 0x2E, 0x30, 0x20, 0x6D, 0x6D, 0x6F, 0x6C, 0x2F, 0x4C, 0xFF1B, 0x7CD6, 0x5C3F, 0x75C5, 0xFF1A, 0x2265, 0x37, 0x2E, 0x30, 0x20, 0x6D, 0x6D, 0x6F, 0x6C, 0x2F, 0x4C]"

definition zh_a845_2 :: pystr where
  "zh_a845_2 = [0x7A7A, 0x8179, 0x8840, 0x7CD6, 0x53CD, 0x6620, 0x57FA, 0x7840, 0x80F0, 0x5C9B, 0x7D20, 0x5206, 0x6CCC, 0x529F, 0x80FD, 0x548C, 0x809D, 0x810F, 0x8461, 0x8404, 0x7CD6, 0x8F93, 0x51FA, 0x60C5, 0x51B5, 0x3002]"

definition zh_a850_1 :: pystr where
  "zh_a850_1 = [0x6B63, 0x5E38, 0x8303, 0x56F4]"

definition zh_a851_1 :: pystr where
  "zh_a851_1 = [0x610F, 0x4E49]"

definition zh_a848_1 :: pystr where
  "zh_a848_1 = [0x9910, 0x540E, 0x8840, 0x7CD6]"

definition zh_a849_1 :: pystr where
  "zh_a849_1 = [0x9910, 0x540E, 0x8840, 0x7CD6, 0x662F, 0x6307, 0x8FDB, 0x98DF, 0x540E, 0x6D4B, 0x91CF, 0x7684, 0x8840, 0x7CD6, 0x503C, 0xFF0C, 0x901A, 0x5E38, 0x6D4B, 0x91CF, 0x9910, 0x540E, 0x32, 0x5C0F, 0x65F6, 0x8840, 0x7CD6, 0x3002]"

definition zh_a850_2 :: pystr where
  "zh_a850_2 = [0x6B63, 0x5E38, 0xFF1A, 0x3C, 0x37, 0x2E, 0x38, 0x20, 0x6D, 0x6D, 0x6F, 0x6C, 0x2F, 0x4C, 0xFF1B, 0x7CD6, 0x5C3F, 0x75C5, 0x524D, 0x671F, 0xFF1A, 0x37, 0x2E, 0x38, 0x2D, 0x31, 0x31, 0x2E, 0x31, 0x20, 0x6D, 0x6D, 0x6F, 0x6C, 0x2F, 0x4C, 0xFF1B, 0x7CD6, 0x5C3F, 0x75C5, 0xFF1A, 0x2265, 0x31, 0x31, 0x2E, 0x31, 0x20, 0x6D, 0x6D, 0x6F, 0x6C, 0x2F, 0x4C]"

definition zh_a851_2 :: pystr where
  "zh_a851_2 = [0x9910, 0x540E, 0x8840, 0x7CD6, 0x53CD, 0x6620, 0x9910, 0x540E, 0x80F0, 0x5C9B, 0x7D20, 0x5206, 0x6CCC, 0x548C, 0x8461, 0x8404, 0x7CD6, 0x5904, 0x7406, 0x80FD, 0x529B, 0x3002]"

definition zh_a856_1 :: pystr where
  "zh_a856_1 = [0x6B63, 0x5E38, 0x8303, 0x56F4]"

definition zh_a857_1 :: pystr where
  "zh_a857_1 = [0x610F, 0x4E49]"

definition zh_a854_1 :: pystr where
  "zh_a854_1 = [0x48, 0x62, 0x41, 0x31, 0x63, 0xFF08, 0x7CD6, 0x5316, 0x8840, 0x7EA2, 0x86CB, 0x767D, 0xFF09]"

definition zh_a855_1 :: pystr where
  "zh_a855_1 = [0x48, 0x62, 0x41, 0x31, 0x63, 0x53CD, 0x6620, 0x8FC7, 0x53BB, 0x32, 0x2D, 0x33, 0x4E2A, 0x6708, 0x7684, 0x5E73, 0x5747, 0x8840, 0x7CD6, 0x6C34, 0x5E73, 0xFF0C, 0x662F, 0x8BC4, 0x4F30, 0x957F, 0x671F, 0x8840, 0x7CD6, 0x63A7, 0x5236, 0x7684, 0x91CD, 0x8981, 0x6307, 0x6807, 0x3002]"

definition zh_a856_2 :: pystr where
  "zh_a856_2 = [0x6B63, 0x5E38, 0xFF1A, 0x3C, 0x35, 0x2E, 0x37, 0x25, 0xFF1B, 0x7CD6, 0x5C3F, 0x75C5, 0x524D, 0x671F, 0xFF1A, 0x35, 0x2E, 0x37, 0x2D, 0x36, 0x2E, 0x34, 0x25, 0xFF1B, 0x7CD6, 0x5C3F, 0x75C5, 0xFF1A, 0x2265, 0x36, 0x2E, 0x35, 0x25]"

definition zh_a857_2 :: pystr where
  "zh_a857_2 = [0x4E0D, 0x53D7, 0x5355, 0x6B21, 0x6D4B, 0x91CF, 0x6CE2, 0x52A8, 0x5F71, 0x54CD, 0xFF0C, 0x66F4, 0x80FD, 0x53CD, 0x6620, 0x6574, 0x4F53, 0x8840, 0x7CD6, 0x63A7, 0x5236, 0x60C5, 0x51B5, 0x3002]"

definition zh_a862_1 :: pystr where
  "zh_a862_1 = [0x5EFA, 0x8BAE]"

definition zh_a860_1 :: pystr where
  "zh_a860_1 = [0x8840, 0x7CD6, 0x76D1, 0x6D4B, 0x9891, 0x7387]"

definition zh_a861_1 :: pystr where
  "zh_a861_1 = [0x6839, 0x636E, 0x75C5, 0x60C5, 0x548C, 0x6CBB, 0x7597, 0x65B9, 0x6848, 0xFF0C, 0x76D1, 0x6D4B, 0x9891, 0x7387, 0x4E0D, 0x540C, 0x3002]"

definition zh_a863_1 :: pystr where
  "zh_a863_1 = [0x65B0, 0x8BCA, 0x65AD, 0x6216, 0x8C03, 0x6574, 0x6CBB, 0x7597, 0x65B9, 0x6848]"

definition zh_a864_1 :: pystr where
  "zh_a864_1 = [0x7A33, 0x5B9A, 0x671F]"

definition zh_a865_1 :: pystr where
  "zh_a865_1 = [0x7279, 0x6B8A, 0x60C5, 0x51B5]"

definition zh_a863_2 :: pystr where
  "zh_a863_2 = [0x6BCF, 0x5929, 0x34, 0x2D, 0x37, 0x6B21, 0xFF08, 0x4E09, 0x9910, 0x524D, 0x540E, 0x2B, 0x7761, 0x524D, 0xFF09]"

definition zh_a864_2 :: pystr where
  "zh_a864_2 = [0x6BCF, 0x5468, 0x32, 0x2D, 0x34, 0x6B21, 0xFF08, 0x4E0D, 0x540C, 0x65F6, 0x95F4, 0x70B9, 0xFF09]"

definition zh_a865_2 :: pystr where
  "zh_a865_2 = [0x8FD0, 0x52A8, 0x524D, 0x540E, 0x3001, 0x611F, 0x89C9, 0x4E0D, 0x9002, 0x65F6, 0x589E, 0x52A0, 0x76D1, 0x6D4B]"

definition zh_a885_1 :: pystr where
  "zh_a885_1 = [0x503C]"

definition zh_a892_1 :: pystr where
  "zh_a892_1 = [0x8FD9, 0x4E2A, 0x95EE, 0x9898, 0x6211, 0x8FD8, 0x5728, 0x5B66, 0x4E60, 0x4E2D, 0x3002, 0x5173, 0x4E8E, 0x8840, 0x7CD6, 0x7BA1, 0x7406, 0xFF0C, 0x5EFA, 0x8BAE, 0x5173, 0x6CE8, 0xFF1A, 0x4F4E, 0x47, 0x49, 0x996E, 0x98DF, 0x3001, 0x63A7, 0x5236, 0x603B, 0x80FD, 0x91CF, 0x3001, 0x89C4, 0x5F8B, 0x8FD0, 0x52A8, 0x3001, 0x5B9A, 0x671F, 0x76D1, 0x6D4B, 0x3002, 0x5982, 0x6709, 0x5177, 0x4F53, 0x95EE, 0x9898, 0xFF0C, 0x53EF, 0x4EE5, 0x8BE6, 0x7EC6, 0x63CF, 0x8FF0, 0x3002]"

definition zh_a900_1 :: pystr where
  "zh_a900_1 = [0x3010]"

definition zh_a900_2 :: pystr where
  "zh_a900_2 = [0x3011]"

definition zh_a905_1 :: pystr where
  "zh_a905_1 = [0xA, 0x5206, 0x7C7B, 0x6807, 0x51C6, 0xFF1A]"

definition zh_a907_1 :: pystr where
  "zh_a907_1 = [0x20, 0x20, 0x2022, 0x20]"

definition zh_a907_2 :: pystr where
  "zh_a907_2 = [0xFF1A]"

definition zh_a911_1 :: pystr where
  "zh_a911_1 = [0xA, 0x5E38, 0x89C1, 0x98DF, 0x7269, 0x793A, 0x4F8B, 0xFF1A]"

definition zh_a913_1 :: pystr where
  "zh_a913_1 = [0x20, 0x20, 0x2022, 0x20]"

definition zh_a913_2 :: pystr where
  "zh_a913_2 = [0xFF1A]"

definition zh_a916_1 :: pystr where
  "zh_a916_1 = [0x6B63, 0x5E38, 0x8303, 0x56F4]"

definition zh_a916_2 :: pystr where
  "zh_a916_2 = [0x610F, 0x4E49]"

definition zh_a916_3 :: pystr where
  "zh_a916_3 = [0x5EFA, 0x8BAE]"

definition zh_a919_1 :: pystr where
  "zh_a919_1 = [0xFF1A]"

definition zh_a921_1 :: pystr where
  "zh_a921_1 = [0x20, 0x20, 0x2022, 0x20]"

definition zh_a921_2 :: pystr where
  "zh_a921_2 = [0xFF1A]"

definition zh_a923_1 :: pystr where
  "zh_a923_1 = [0xFF1A]"

definition zh_a934_1 :: pystr where
  "zh_a934_1 = [0x66F4, 0x591A, 0x5173, 0x4E8E]"

definition zh_a934_2 :: pystr where
  "zh_a934_2 = [0x7684, 0x4FE1, 0x606F, 0xFF0C, 0x53EF, 0x4EE5, 0x7EE7, 0x7EED, 0x63D0, 0x95EE, 0x3002]"

definition zh_a952_1 :: pystr where
  "zh_a952_1 = [0x63A7, 0x5236, 0x5F97, 0x5F88, 0x597D]"

definition zh_a952_2 :: pystr where
  "zh_a952_2 = [0x8FBE, 0x6807]"

definition zh_a952_3 :: pystr where
  "zh_a952_3 = [0x5F00, 0x5FC3]"

definition zh_a952_4 :: pystr where
  "zh_a952_4 = [0x987A, 0x5229]"

definition zh_a952_5 :: pystr where
  "zh_a952_5 = [0x8FDB, 0x6B65]"

definition zh_a952_6 :: pystr where
  "zh_a952_6 = [0x6539, 0x5584]"

definition zh_a952_7 :: pystr where
  "zh_a952_7 = [0x597D, 0x591A, 0x4E86]"

definition zh_a953_1 :: pystr where
  "zh_a953_1 = [0x6210, 0x529F]"

definition zh_a953_2 :: pystr where
  "zh_a953_2 = [0x575A, 0x6301]"

definition zh_a953_3 :: pystr where
  "zh_a953_3 = [0x52AA, 0x529B]"

definition zh_a953_4 :: pystr where
  "zh_a953_4 = [0x52A0, 0x6CB9]"

definition zh_a956_1 :: pystr where
  "zh_a956_1 = [0x6CAE, 0x4E27]"

definition zh_a956_2 :: pystr where
  "zh_a956_2 = [0x63A7, 0x5236, 0x4E0D, 0x597D]"

definition zh_a956_3 :: pystr where
  "zh_a956_3 = [0x53C8, 0x9AD8, 0x4E86]"

definition zh_a956_4 :: pystr where
  "zh_a956_4 = [0x5931, 0x8D25]"

definition zh_a956_5 :: pystr where
  "zh_a956_5 = [0x62C5, 0x5FC3]"

definition zh_a956_6 :: pystr where
  "zh_a956_6 = [0x7126, 0x8651]"

definition zh_a956_7 :: pystr where
  "zh_a956_7 = [0x5931, 0x671B]"

definition zh_a957_1 :: pystr where
  "zh_a957_1 = [0x6CA1, 0x6548, 0x679C]"

definition zh_a957_2 :: pystr where
  "zh_a957_2 = [0x6CA1, 0x7528]"

definition zh_a957_3 :: pystr where
  "zh_a957_3 = [0x653E, 0x5F03]"

definition zh_a957_4 :: pystr where
  "zh_a957_4 = [0x592A, 0x96BE, 0x4E86]"

definition zh_a960_1 :: pystr where
  "zh_a960_1 = [0x62C5, 0x5FC3]"

definition zh_a960_2 :: pystr where
  "zh_a960_2 = [0x5BB3, 0x6015]"

definition zh_a960_3 :: pystr where
  "zh_a960_3 = [0x7126, 0x8651]"

definition zh_a960_4 :: pystr where
  "zh_a960_4 = [0x7D27, 0x5F20]"

definition zh_a960_5 :: pystr where
  "zh_a960_5 = [0x4E0D, 0x5B89]"

definition zh_a960_6 :: pystr where
  "zh_a960_6 = [0x6050, 0x60E7]"

definition zh_a989_1 :: pystr where
  "zh_a989_1 = [0x770B, 0x5230, 0x60A8, 0x7684, 0x8FDB, 0x6B65, 0xFF0C, 0x6211, 0x4E5F, 0x4E3A, 0x60A8, 0x611F, 0x5230, 0x9AD8, 0x5174, 0xFF01]"

definition zh_a990_1 :: pystr where
  "zh_a990_1 = [0x7EE7, 0x7EED, 0x4FDD, 0x6301, 0x5F53, 0x524D, 0x7684, 0x826F, 0x597D, 0x4E60, 0x60EF, 0xFF0C, 0x60A8, 0x7684, 0x52AA, 0x529B, 0x6B63, 0x5728, 0x5E26, 0x6765, 0x79EF, 0x6781, 0x7684, 0x53D8, 0x5316, 0x3002]"

definition zh_a992_1 :: pystr where
  "zh_a992_1 = [0x8BB0, 0x5F55, 0x4E0B, 0x4ECA, 0x5929, 0x7684, 0x6210, 0x529F, 0x7ECF, 0x9A8C]"

definition zh_a993_1 :: pystr where
  "zh_a993_1 = [0x7EE7, 0x7EED, 0x4FDD, 0x6301, 0x89C4, 0x5F8B, 0x7684, 0x76D1, 0x6D4B]"

definition zh_a994_1 :: pystr where
  "zh_a994_1 = [0x4E0E, 0x533B, 0x751F, 0x5206, 0x4EAB, 0x60A8, 0x7684, 0x8FDB, 0x6B65]"

definition zh_a1000_1 :: pystr where
  "zh_a1000_1 = [0x6211, 0x7406, 0x89E3, 0x60A8, 0x7684, 0x6CAE, 0x4E27, 0xFF0C, 0x8840, 0x7CD6, 0x7BA1, 0x7406, 0x786E, 0x5B9E, 0x662F, 0x4E00, 0x4E2A, 0x957F, 0x671F, 0x7684, 0x8FC7, 0x7A0B, 0xFF0C, 0x5076, 0x5C14, 0x7684, 0x6CE2, 0x52A8, 0x662F, 0x6B63, 0x5E38, 0x7684, 0x3002]"

definition zh_a1001_1 :: pystr where
  "zh_a1001_1 = [0x4E0D, 0x8981, 0x56E0, 0x4E3A, 0x4E00, 0x6B21, 0x7684, 0x7ED3, 0x679C, 0x800C, 0x6C14, 0x9981, 0xFF0C, 0x91CD, 0x8981, 0x7684, 0x662F, 0x6301, 0x7EED, 0x7684, 0x52AA, 0x529B, 0x548C, 0x8C03, 0x6574, 0x3002]"

definition zh_a1003_1 :: pystr where
  "zh_a1003_1 = [0x8BA9, 0x6211, 0x4EEC, 0x4E00, 0x8D77, 0x590D, 0x76D8, 0x6700, 0x8FD1, 0x7684, 0x6570, 0x636E, 0xFF0C, 0x627E, 0x51FA, 0x53EF, 0x4EE5, 0x6539, 0x8FDB, 0x7684, 0x5730, 0x65B9]"

definition zh_a1004_1 :: pystr where
  "zh_a1004_1 = [0x8BBE, 0x5B9A, 0x4E00, 0x4E2A, 0x5C0F, 0x7684, 0x3001, 0x53EF, 0x6267, 0x884C, 0x7684, 0x76EE, 0x6807]"

definition zh_a1005_1 :: pystr where
  "zh_a1005_1 = [0x8BB0, 0x4F4F, 0xFF1A, 0x8FDB, 0x6B65, 0x662F, 0x6E10, 0x8FDB, 0x7684, 0xFF0C, 0x4E0D, 0x662F, 0x4E00, 0x8E74, 0x800C, 0x5C31, 0x7684]"

definition zh_a1011_1 :: pystr where
  "zh_a1011_1 = [0x6211, 0x7406, 0x89E3, 0x60A8, 0x7684, 0x62C5, 0x5FC3, 0xFF0C, 0x8FD9, 0x662F, 0x5F88, 0x6B63, 0x5E38, 0x7684, 0x3002, 0x8BA9, 0x6211, 0x4EEC, 0x4E00, 0x6B65, 0x6B65, 0x6765, 0xFF0C, 0x4E0D, 0x8981, 0x7ED9, 0x81EA, 0x5DF1, 0x592A, 0x5927, 0x538B, 0x529B, 0x3002]"

definition zh_a1012_1 :: pystr where
  "zh_a1012_1 = [0x7126, 0x8651, 0x662F, 0x6B63, 0x5E38, 0x7684, 0xFF0C, 0x4F46, 0x6211, 0x4EEC, 0x53EF, 0x4EE5, 0x901A, 0x8FC7, 0x79D1, 0x5B66, 0x7684, 0x7BA1, 0x7406, 0x548C, 0x76D1, 0x6D4B, 0x6765, 0x51CF, 0x5C11, 0x4E0D, 0x786E, 0x5B9A, 0x6027, 0x3002]"

definition zh_a1014_1 :: pystr where
  "zh_a1014_1 = [0x5B9A, 0x671F, 0x76D1, 0x6D4B, 0x53EF, 0x4EE5, 0x5E2E, 0x52A9, 0x60A8, 0x66F4, 0x597D, 0x5730, 0x4E86, 0x89E3, 0x81EA, 0x5DF1, 0x7684, 0x8840, 0x7CD6, 0x6A21, 0x5F0F]"

definition zh_a1015_1 :: pystr where
  "zh_a1015_1 = [0x4E0E, 0x533B, 0x751F, 0x6C9F, 0x901A, 0x60A8, 0x7684, 0x62C5, 0x5FE7]"

definition zh_a1016_1 :: pystr where
  "zh_a1016_1 = [0x8BB0, 0x4F4F, 0xFF1A, 0x60A8, 0x4E0D, 0x662F, 0x4E00, 0x4E2A, 0x4EBA, 0x5728, 0x6218, 0x6597]"

definition zh_a1023_1 :: pystr where
  "zh_a1023_1 = [0x7EE7, 0x7EED, 0x575A, 0x6301, 0xFF0C, 0x60A8, 0x6B63, 0x5728, 0x505A, 0x6B63, 0x786E, 0x7684, 0x4E8B, 0x60C5, 0x3002]"

section \<open>agents.py: DataLoggingAgent\<close>

text \<open>
  The agents open a database session, add one row and commit. The model adds the row to
  the table; a failing database is outside the model. The current time
  \<^verbatim>\<open>datetime.utcnow()\<close> is the argument \<open>now\<close> of each function that reads the clock.
\<close>

text \<open>
  Lines 261 to 286 of \<^verbatim>\<open>log_glucose\<close>: the context, the hours after the meal and the
  missing information, from the colloquial matcher, then the standard keywords, then the
  hour of the day.
\<close>

definition infer_context ::
  "pystr \<Rightarrow> nat \<Rightarrow> pystr option \<Rightarrow> real option \<Rightarrow> pystr option \<times> real option \<times> pystr list" where
  "infer_context text timestamp context hours_after_meal =
     (case context of
        Some c \<Rightarrow> (Some c, hours_after_meal, [])
      | None \<Rightarrow>
          (case detect_context_from_colloquial text of
             Some c \<Rightarrow> (Some c, hours_after_meal, [])
           | None \<Rightarrow>
               (if py_in zh_a268_1 text \<or> py_in (asc ''fasting'') (py_lower text) then
                  (Some ctx_fasting, hours_after_meal, [])
                else if py_in zh_a270_1 text \<or> py_in (asc ''post'') (py_lower text)
                        \<or> hours_after_meal \<noteq> None then
                  (case hours_after_meal of
                     Some h \<Rightarrow> (Some ctx_post_meal, Some h, [])
                   | None \<Rightarrow>
                       (case extract_hours_after_meal text of
                          Some h \<Rightarrow> (Some ctx_post_meal, Some h, [])
                        | None \<Rightarrow> (Some ctx_post_meal, None, [zh_a275_1])))
                else if py_in zh_a276_1 text \<or> py_in (asc ''pre'') (py_lower text) then
                  (Some ctx_pre_meal, hours_after_meal, [])
                else if dt_hour timestamp < 10 then
                  (Some ctx_fasting, hours_after_meal, [])
                else (Some ctx_random, hours_after_meal, [zh_a286_1]))))"

definition str_list :: "pystr list \<Rightarrow> pyval" where
  "str_list ss = PList (map (\<lambda>s. PStr (plain s)) ss)"

text \<open>
  \<^verbatim>\<open>log_glucose\<close>. The quotient by 18 of the number read from the text is a finite
  double unless that number is itself beyond the range of the doubles; \<open>finite_or\<close> keeps
  the number read in that case.
\<close>

definition log_glucose ::
  "db \<Rightarrow> nat \<Rightarrow> nat \<Rightarrow> pystr \<Rightarrow> nat option \<Rightarrow> pystr option \<Rightarrow> pystr option \<Rightarrow> pystr option
   \<Rightarrow> real option \<Rightarrow> pydict \<times> db" where
  "log_glucose d now user_id text timestamp unit context meal_type hours_after_meal =
     (case extract_glucose_value text of
        None \<Rightarrow>
          ([(''success'', PBool False),
            (''message'', PStr (plain zh_a237_1)),
            (''missing_info'', str_list [zh_a238_1])], d)
      | Some v \<Rightarrow>
          (let unit1 = (case unit of None \<Rightarrow> detect_unit text | Some u \<Rightarrow> u);
               value_mmol = (if unit1 = unit_mgdl
                             then finite_or v (convert_glucose_unit (Fin v) unit_mgdl unit_mmol)
                             else v);
               timestamp1 = (case timestamp of None \<Rightarrow> now | Some t \<Rightarrow> t);
               meal_type1 = (case meal_type of
                               Some m \<Rightarrow> m
                             | None \<Rightarrow> (case detect_meal_type_from_text text of
                                          Some m \<Rightarrow> m
                                        | None \<Rightarrow> infer_meal_type timestamp1));
               inferred = infer_context text timestamp1 context hours_after_meal;
               context1 = fst inferred;
               hours1 = fst (snd inferred);
               missing_info = snd (snd inferred);
               reading = \<lparr> r_id = next_id (map r_id (glucose_readings d)),
                           r_user_id = user_id,
                           r_value = value_mmol,
                           r_unit = unit_mmol,
                           r_timestamp = timestamp1,
                           r_context = context1,
                           r_meal_type = Some meal_type1,
                           r_hours_after_meal = hours1,
                           r_risk_level = None,
                           r_analysis_notes = None \<rparr>;
               message1 = plain zh_a313_1 @ [FR v] @ plain (asc '' '') @ plain unit1
                          @ plain zh_a313_2 @ [F1 value_mmol] @ plain zh_a313_3;
               message2 = (case context1 of
                             None \<Rightarrow> message1
                           | Some c \<Rightarrow> if c \<noteq> [] then message1 @ plain zh_a315_1 @ plain c
                                       else message1);
               message3 = (if missing_info \<noteq> []
                           then message2 @ plain zh_a317_1 @ plain (join (asc '', '') missing_info)
                           else message2)
           in ([(''success'', PBool True),
                (''message'', PStr message3),
                (''reading_id'', PInt (int (r_id reading))),
                (''value'', PFloat value_mmol),
                (''unit'', PStr (plain unit_mmol)),
                (''missing_info'', str_list missing_info)],
               d\<lparr> glucose_readings := glucose_readings d @ [reading] \<rparr>)))"

text \<open>\<^verbatim>\<open>_estimate_nutrition\<close>: carbohydrates, GI and GL.\<close>

definition estimate_nutrition :: "pystr \<Rightarrow> real option \<times> real option \<times> real option" where
  "estimate_nutrition text =
     (let text_lower = py_lower text;
          cg = (if py_in zh_a511_1 text_lower then (Some 50.0, Some 60.0)
                else if py_in zh_a514_1 text_lower \<or> py_in zh_a514_2 text_lower
                then (Some 40.0, Some 70.0)
                else if py_in zh_a517_1 text_lower then (Some 30.0, Some 70.0)
                else (None, None));
          carbs = fst cg;
          gi = snd cg;
          gl = (if truthy carbs \<and> truthy gi then Some (the carbs * the gi / 100.0) else None)
      in (carbs, gi, gl))"

definition log_meal ::
  "db \<Rightarrow> nat \<Rightarrow> nat \<Rightarrow> pystr \<Rightarrow> nat option \<Rightarrow> pystr option \<Rightarrow> pystr option \<Rightarrow> pydict \<times> db" where
  "log_meal d now user_id text timestamp meal_type portion_size =
     (let timestamp1 = (case timestamp of None \<Rightarrow> now | Some t \<Rightarrow> t);
          meal_type1 = (case meal_type of
                          Some m \<Rightarrow> m
                        | None \<Rightarrow> (case detect_meal_type_from_text text of
                                     Some m \<Rightarrow> m
                                   | None \<Rightarrow> infer_meal_type timestamp1));
          nutrition = estimate_nutrition text;
          meal = \<lparr> me_id = next_id (map me_id (meal_entries d)),
                   me_user_id = user_id,
                   me_meal_type = meal_type1,
                   me_timestamp = timestamp1,
                   me_description = text,
                   me_portion_size = portion_size,
                   me_estimated_carbs = fst nutrition,
                   me_estimated_gi = fst (snd nutrition),
                   me_estimated_gl = snd (snd nutrition) \<rparr>;
          message1 = plain zh_a384_1 @ plain text
      in ([(''success'', PBool True),
           (''message'', PStr (if portion_size = None then message1 @ plain zh_a387_1
                               else message1)),
           (''meal_id'', PInt (int (me_id meal))),
           (''missing_info'', str_list (if portion_size = None then [zh_a386_1] else []))],
          d\<lparr> meal_entries := meal_entries d @ [meal] \<rparr>))"

text \<open>The pattern \<^verbatim>\<open>(\d+)\s*\<close>U+5206 U+949F of \<^verbatim>\<open>log_exercise\<close>, the minutes.\<close>

definition minutes_pattern :: rx where
  "minutes_pattern = seq [Group (Plus [Digit]), Star [Space], Lit [0x5206, 0x949F]]"

definition log_exercise ::
  "db \<Rightarrow> nat \<Rightarrow> nat \<Rightarrow> pystr \<Rightarrow> nat option \<Rightarrow> pystr option \<Rightarrow> nat option \<Rightarrow> pystr option
   \<Rightarrow> pydict \<times> db" where
  "log_exercise d now user_id text timestamp exercise_type duration_minutes intensity =
     (let timestamp1 = (case timestamp of None \<Rightarrow> now | Some t \<Rightarrow> t);
          text_lower = py_lower text;
          exercise_type1 =
            (case exercise_type of
               Some e \<Rightarrow> e
             | None \<Rightarrow>
                 if py_in zh_a412_1 text_lower \<or> py_in (asc ''run'') text_lower then zh_a413_1
                 else if py_in zh_a414_1 text_lower \<or> py_in (asc ''walk'') text_lower
                 then zh_a415_1
                 else if py_in zh_a416_1 text_lower \<or> py_in (asc ''swim'') text_lower
                 then zh_a417_1
                 else text);
          duration1 = (case duration_minutes of
                         Some m \<Rightarrow> Some m
                       | None \<Rightarrow> map_option dec (re_search False minutes_pattern text));
          intensity1 = (case intensity of None \<Rightarrow> asc ''moderate'' | Some i \<Rightarrow> i);
          exercise = \<lparr> ex_id = next_id (map ex_id (exercise_records d)),
                       ex_user_id = user_id,
                       ex_exercise_type = exercise_type1,
                       ex_duration_minutes = duration1,
                       ex_intensity = intensity1,
                       ex_timestamp = timestamp1 \<rparr>
      in ([(''success'', PBool True),
           (''message'', PStr (plain zh_a454_1 @ plain exercise_type1)),
           (''exercise_id'', PInt (int (ex_id exercise)))],
          d\<lparr> exercise_records := exercise_records d @ [exercise] \<rparr>))"

definition log_medication ::
  "db \<Rightarrow> nat \<Rightarrow> nat \<Rightarrow> pystr \<Rightarrow> nat option \<Rightarrow> pystr option \<Rightarrow> pystr option \<Rightarrow> pydict \<times> db" where
  "log_medication d now user_id text timestamp medication_name dosage =
     (let timestamp1 = (case timestamp of None \<Rightarrow> now | Some t \<Rightarrow> t);
          medication_name1 = (case medication_name of None \<Rightarrow> text | Some n \<Rightarrow> n);
          medication = \<lparr> md_id = next_id (map md_id (medication_records d)),
                         md_user_id = user_id,
                         md_medication_name = medication_name1,
                         md_dosage = dosage,
                         md_timestamp = timestamp1 \<rparr>
      in ([(''success'', PBool True),
           (''message'', PStr (plain zh_a496_1 @ plain medication_name1)),
           (''medication_id'', PInt (int (md_id medication)))],
          d\<lparr> medication_records := medication_records d @ [medication] \<rparr>))"

section \<open>agents.py: InstantAnalysisAgent, analysis of a value\<close>

text \<open>
  \<^verbatim>\<open>now - datetime.timedelta(days=n)\<close>, which raises \<^verbatim>\<open>OverflowError\<close> before the first
  representable date.
\<close>

definition days_before :: "nat \<Rightarrow> nat \<Rightarrow> error + nat" where
  "days_before now n = (if now < n * us_per_day then Inl OverflowError else Inr (now - n * us_per_day))"

text \<open>
  The readings of a user since a time, filtered by the context only when a context is
  given and not empty (\<^verbatim>\<open>if context:\<close>).
\<close>

definition readings_since :: "db \<Rightarrow> nat \<Rightarrow> nat \<Rightarrow> pystr option \<Rightarrow> glucose_reading list" where
  "readings_since d user_id start context =
     (let rs = filter (\<lambda>r. r_user_id r = user_id \<and> r_timestamp r \<ge> start) (glucose_readings d)
      in case context of
           None \<Rightarrow> rs
         | Some c \<Rightarrow> if c \<noteq> [] then filter (\<lambda>r. r_context r = Some c) rs else rs)"

text \<open>\<^verbatim>\<open>_analyze_trend\<close>.\<close>

definition analyze_trend :: "db \<Rightarrow> nat \<Rightarrow> nat \<Rightarrow> real \<Rightarrow> pystr option \<Rightarrow> error + pydict" where
  "analyze_trend d now user_id current_value context =
     (case days_before now 7 of
        Inl e \<Rightarrow> Inl e
      | Inr week_ago \<Rightarrow>
          (let recent_readings = readings_since d user_id week_ago context
           in if length recent_readings < 2 then
                Inr [(''direction'', PStr (plain (asc ''insufficient_data''))),
                     (''message'', PStr (plain zh_a737_1))]
              else
                (let avg_value = average (map r_value recent_readings);
                     dm = (if current_value > avg_value * 1.1 then
                             (asc ''up'', plain zh_a746_1 @ [F1 avg_value] @ plain zh_a746_2)
                           else if current_value < avg_value * 0.9 then
                             (asc ''down'', plain zh_a749_1 @ [F1 avg_value] @ plain zh_a749_2)
                           else
                             (asc ''stable'', plain zh_a752_1 @ [F1 avg_value] @ plain zh_a752_2))
                 in Inr [(''direction'', PStr (plain (fst dm))),
                         (''message'', PStr (snd dm)),
                         (''average'', PFloat avg_value),
                         (''period'', PStr (plain (asc ''7d'')))])))"

text \<open>
  \<^verbatim>\<open>_compare_with_history\<close>. The SQL average of no rows is \<^verbatim>\<open>None\<close>; an average that is
  \<^verbatim>\<open>None\<close> or zero is left out of the results.
\<close>

definition period_average :: "db \<Rightarrow> nat \<Rightarrow> nat \<Rightarrow> pystr option \<Rightarrow> real option" where
  "period_average d user_id start context =
     (let rs = readings_since d user_id start context
      in if rs = [] then None else Some (average (map r_value rs)))"

definition period_entry :: "string \<Rightarrow> real option \<Rightarrow> pydict" where
  "period_entry name avg = (if truthy avg then [(name, PFloat (the avg))] else [])"

definition compare_with_history ::
  "db \<Rightarrow> nat \<Rightarrow> nat \<Rightarrow> real \<Rightarrow> pystr option \<Rightarrow> error + pydict" where
  "compare_with_history d now user_id current_value context =
     (case days_before now 7 of
        Inl e \<Rightarrow> Inl e
      | Inr d7 \<Rightarrow>
     (case days_before now 14 of
        Inl e \<Rightarrow> Inl e
      | Inr d14 \<Rightarrow>
     (case days_before now 30 of
        Inl e \<Rightarrow> Inl e
      | Inr d30 \<Rightarrow>
          (let results = period_entry ''7d'' (period_average d user_id d7 context)
                         @ period_entry ''14d'' (period_average d user_id d14 context)
                         @ period_entry ''30d'' (period_average d user_id d30 context);
               pa = (case map_of results ''7d'' of
                       Some a \<Rightarrow> (asc ''7d'', a)
                     | None \<Rightarrow>
                    (case map_of results ''14d'' of
                       Some a \<Rightarrow> (asc ''14d'', a)
                     | None \<Rightarrow>
                    (case map_of results ''30d'' of
                       Some a \<Rightarrow> (asc ''30d'', a)
                     | None \<Rightarrow> (asc ''7d'', PNone))))
           in Inr [(''period'', PStr (plain (fst pa))),
                   (''average'', snd pa),
                   (''all_periods'', PDict results)]))))"

text \<open>
  \<^verbatim>\<open>analyze_glucose\<close>, with the clock reads of the trend and of the comparison as
  arguments. An analysis event is stored, and the reading annotated, when a reading id is
  given and not zero.
\<close>

definition analyze_glucose ::
  "db \<Rightarrow> nat \<Rightarrow> nat \<Rightarrow> nat \<Rightarrow> real \<Rightarrow> pystr option \<Rightarrow> nat option \<Rightarrow> error + (pydict \<times> db)" where
  "analyze_glucose d now_trend now_compare user_id current_value context reading_id =
     (case query_user d user_id of
        None \<Rightarrow>
          Inr ([(''risk_level'', PStr (plain (asc ''unknown''))),
                (''conclusion'', PStr (plain zh_a559_1)),
                (''reasoning'', PStr []),
                (''suggestions'', PList [])], d)
      | Some usr \<Rightarrow>
          (let target = get_target_range usr context;
               risk = assess_risk current_value (fst target) (snd target) context;
               risk_level = fst risk;
               conclusion = fst (snd risk);
               reasoning = fst (snd (snd risk));
               suggestions = snd (snd (snd risk))
           in
           case analyze_trend d now_trend user_id current_value context of
             Inl e \<Rightarrow> Inl e
           | Inr trend \<Rightarrow>
          (case compare_with_history d now_compare user_id current_value context of
             Inl e \<Rightarrow> Inl e
           | Inr comparison \<Rightarrow>
          (let d1 = (case reading_id of
                       None \<Rightarrow> d
                     | Some rid \<Rightarrow>
                         if rid = 0 then d
                         else
                           d\<lparr> analysis_events := analysis_events d @
                                 [\<lparr> ae_user_id = user_id,
                                    ae_glucose_reading_id = rid,
                                    ae_risk_level = risk_level,
                                    ae_conclusion = conclusion,
                                    ae_reasoning = reasoning,
                                    ae_suggestions = suggestions,
                                    ae_trend_direction = dict_get trend ''direction'',
                                    ae_comparison_period = dict_get comparison ''period'',
                                    ae_average_value = dict_get comparison ''average'' \<rparr>],
                              glucose_readings :=
                                update_first (\<lambda>r. r_id r = rid)
                                  (\<lambda>r. r\<lparr> r_risk_level := Some risk_level,
                                            r_analysis_notes := Some reasoning \<rparr>)
                                  (glucose_readings d) \<rparr>)
           in Inr ([(''risk_level'', PStr (plain risk_level)),
                    (''conclusion'', PStr (plain conclusion)),
                    (''reasoning'', PStr reasoning),
                    (''suggestions'', str_list suggestions),
                    (''trend'', PDict trend),
                    (''comparison'', PDict comparison)], d1)))))"

section \<open>agents.py: EducationAgent\<close>

text \<open>
  An entry of the knowledge base: its keyword, concept and explanation, the optional
  classification and examples, and its other keys, whose value is a text or a dictionary.
\<close>

record kb_entry =
  kb_keyword :: pystr
  kb_concept :: pystr
  kb_explanation :: pystr
  kb_classification :: "(pystr \<times> pystr) list option"
  kb_examples :: "(pystr \<times> pystr) list option"
  kb_other :: "(pystr \<times> (pystr + (pystr \<times> pystr) list)) list"

definition knowledge_base :: "kb_entry list" where
  "knowledge_base =
     [\<lparr> kb_keyword = asc ''gi'', kb_concept = zh_a820_1, kb_explanation = zh_a821_1,
         kb_classification = Some [(zh_a823_1, zh_a823_2), (zh_a824_1, zh_a824_2),
                                   (zh_a825_1, zh_a825_2)],
         kb_examples = Some [(zh_a828_1, zh_a828_2), (zh_a829_1, zh_a829_2)],
         kb_other = [] \<rparr>,
      \<lparr> kb_keyword = asc ''gl'', kb_concept = zh_a833_1, kb_explanation = zh_a834_1,
         kb_classification = Some [(zh_a836_1, zh_a836_2), (zh_a837_1, asc ''11-19''),
                                   (zh_a838_1, zh_a838_2)],
         kb_examples = None,
         kb_other = [] \<rparr>,
      \<lparr> kb_keyword = zh_a841_1, kb_concept = zh_a842_1, kb_explanation = zh_a843_1,
         kb_classification = None, kb_examples = None,
         kb_other = [(zh_a844_1, Inl zh_a844_2), (zh_a845_1, Inl zh_a845_2)] \<rparr>,
      \<lparr> kb_keyword = zh_a847_1, kb_concept = zh_a848_1, kb_explanation = zh_a849_1,
         kb_classification = None, kb_examples = None,
         kb_other = [(zh_a850_1, Inl zh_a850_2), (zh_a851_1, Inl zh_a851_2)] \<rparr>,
      \<lparr> kb_keyword = asc ''hba1c'', kb_concept = zh_a854_1, kb_explanation = zh_a855_1,
         kb_classification = None, kb_examples = None,
         kb_other = [(zh_a856_1, Inl zh_a856_2), (zh_a857_1, Inl zh_a857_2)] \<rparr>,
      \<lparr> kb_keyword = zh_a859_1, kb_concept = zh_a860_1, kb_explanation = zh_a861_1,
         kb_classification = None, kb_examples = None,
         kb_other = [(zh_a862_1, Inr [(zh_a863_1, zh_a863_2), (zh_a864_1, zh_a864_2),
                                      (zh_a865_1, zh_a865_2)])] \<rparr>]"

text \<open>The loop that looks for the first keyword found in the question.\<close>

fun match_topic :: "kb_entry list \<Rightarrow> pystr \<Rightarrow> kb_entry option" where
  "match_topic [] question_lower = None"
| "match_topic (info # kb) question_lower =
     (if py_in (kb_keyword info) question_lower
         \<or> py_in (filter (\<lambda>c. c \<noteq> 0x503C) (kb_keyword info)) question_lower
      then Some info else match_topic kb question_lower)"

definition kb_items :: "pystr \<Rightarrow> pystr \<Rightarrow> pystr \<Rightarrow> (pystr \<times> pystr) list \<Rightarrow> pystr list" where
  "kb_items bullet colon header items =
     header # map (\<lambda>(k, v). bullet @ k @ colon @ v) items"

definition kb_other_lines :: "kb_entry \<Rightarrow> pystr \<Rightarrow> pystr list" where
  "kb_other_lines info key =
     (case map_of (kb_other info) key of
        None \<Rightarrow> []
      | Some (Inr items) \<Rightarrow> kb_items zh_a921_1 zh_a921_2 ([0x0A] @ key @ zh_a919_1) items
      | Some (Inl text) \<Rightarrow> [[0x0A] @ key @ zh_a923_1 @ text])"

text \<open>
  \<^verbatim>\<open>answer_question\<close>. \<^verbatim>\<open>_personalize_advice\<close> returns the empty string, so the
  personalised part is empty with and without a user.
\<close>

definition answer_question :: "pystr \<Rightarrow> nat option \<Rightarrow> pydict" where
  "answer_question question user_id =
     (case match_topic knowledge_base (py_lower question) of
        None \<Rightarrow>
          [(''answer'', PStr (plain zh_a892_1)),
           (''related_info'', PStr []),
           (''personalized'', PStr [])]
      | Some info \<Rightarrow>
          (let answer_parts =
                 [zh_a900_1 @ kb_concept info @ zh_a900_2, kb_explanation info]
                 @ (case kb_classification info of
                      None \<Rightarrow> []
                    | Some items \<Rightarrow> kb_items zh_a907_1 zh_a907_2 zh_a905_1 items)
                 @ (case kb_examples info of
                      None \<Rightarrow> []
                    | Some items \<Rightarrow> kb_items zh_a913_1 zh_a913_2 zh_a911_1 items)
                 @ kb_other_lines info zh_a916_1
                 @ kb_other_lines info zh_a916_2
                 @ kb_other_lines info zh_a916_3
           in [(''answer'', PStr (plain (join [0x0A] answer_parts))),
               (''related_info'', PStr (plain (zh_a934_1 @ kb_concept info @ zh_a934_2))),
               (''personalized'', PStr [])]))"

section \<open>agents.py: EmotionalSupportAgent\<close>

definition positive_keywords :: "pystr list" where
  "positive_keywords =
     [zh_a952_1, zh_a952_2, zh_a952_3, zh_a952_4, zh_a952_5, zh_a952_6, zh_a952_7,
      zh_a953_1, zh_a953_2, zh_a953_3, zh_a953_4]"

definition negative_keywords :: "pystr list" where
  "negative_keywords =
     [zh_a956_1, zh_a956_2, zh_a956_3, zh_a956_4, zh_a956_5, zh_a956_6, zh_a956_7,
      zh_a957_1, zh_a957_2, zh_a957_3, zh_a957_4]"

definition anxious_keywords :: "pystr list" where
  "anxious_keywords = [zh_a960_1, zh_a960_2, zh_a960_3, zh_a960_4, zh_a960_5, zh_a960_6]"

text \<open>\<^verbatim>\<open>any(kw in text for kw in keywords)\<close>.\<close>

definition any_in :: "pystr list \<Rightarrow> pystr \<Rightarrow> bool" where
  "any_in keywords text = list_ex (\<lambda>kw. py_in kw text) keywords"

definition provide_support :: "pystr \<Rightarrow> nat option \<Rightarrow> pydict" where
  "provide_support text user_id =
     (let text_lower = py_lower text;
          sentiment = (if any_in anxious_keywords text_lower then asc ''anxious''
                       else if any_in negative_keywords text_lower then asc ''negative''
                       else if any_in positive_keywords text_lower then asc ''positive''
                       else asc ''neutral'')
      in if sentiment = asc ''positive'' then
           [(''sentiment'', PStr (plain sentiment)),
            (''empathy'', PStr (plain zh_a989_1)),
            (''encouragement'', PStr (plain zh_a990_1)),
            (''next_steps'', str_list [zh_a992_1, zh_a993_1, zh_a994_1])]
         else if sentiment = asc ''negative'' then
           [(''sentiment'', PStr (plain sentiment)),
            (''empathy'', PStr (plain zh_a1000_1)),
            (''encouragement'', PStr (plain zh_a1001_1)),
            (''next_steps'', str_list [zh_a1003_1, zh_a1004_1, zh_a1005_1])]
         else if sentiment = asc ''anxious'' then
           [(''sentiment'', PStr (plain sentiment)),
            (''empathy'', PStr (plain zh_a1011_1)),
            (''encouragement'', PStr (plain zh_a1012_1)),
            (''next_steps'', str_list [zh_a1014_1, zh_a1015_1, zh_a1016_1])]
         else
           [(''sentiment'', PStr (plain sentiment)),
            (''empathy'', PStr []),
            (''encouragement'', PStr (plain zh_a1023_1)),
            (''next_steps'', PList [])])"

section \<open>orchestrator.py: OrchestratorAgent\<close>

text \<open>
  \<^verbatim>\<open>str.isdigit\<close> holds for the decimal digits and for the other characters with a digit
  value (superscripts, circled digits and the like, Unicode 14).
\<close>

definition other_digit_ranges :: "(nat \<times> nat) list" where
  "other_digit_ranges =
     [(0xB2, 0xB3), (0xB9, 0xB9), (0x1369, 0x1371), (0x19DA, 0x19DA), (0x2070, 0x2070),
      (0x2074, 0x2079), (0x2080, 0x2089), (0x2460, 0x2468), (0x2474, 0x247C),
      (0x2488, 0x2490), (0x24EA, 0x24EA), (0x24F5, 0x24FD), (0x24FF, 0x24FF),
      (0x2776, 0x277E), (0x2780, 0x2788), (0x278A, 0x2792), (0x10A40, 0x10A43),
      (0x10E60, 0x10E68), (0x11052, 0x1105A), (0x1F100, 0x1F10A)]"

definition str_isdigit :: "nat \<Rightarrow> bool" where
  "str_isdigit c = (is_digit c \<or> list_ex (\<lambda>(a, b). a \<le> c \<and> c \<le> b) other_digit_ranges)"

definition intent_record_glucose :: pystr where
  "intent_record_glucose = asc ''record_glucose''"

definition intent_emotional_support :: pystr where
  "intent_emotional_support = asc ''emotional_support''"

definition intent_general :: pystr where
  "intent_general = asc ''general''"

text \<open>\<^verbatim>\<open>_classify_intent\<close>.\<close>

definition classify_intent :: "pystr \<Rightarrow> pystr" where
  "classify_intent message =
     (let message_lower = py_lower message in
      if (py_in zh_o167_1 message \<or> py_in zh_o167_2 message \<or> py_in zh_o167_3 message)
         \<and> list_ex str_isdigit message then intent_record_glucose
      else if py_in zh_o171_1 message \<or> py_in zh_o171_2 message
              \<or> (py_in zh_o171_3 message \<and> (py_in zh_o171_4 message \<or> py_in zh_o171_5 message))
      then asc ''record_meal''
      else if py_in zh_o175_1 message \<or> py_in zh_o175_2 message \<or> py_in zh_o175_3 message
              \<or> py_in zh_o175_4 message
      then asc ''record_exercise''
      else if py_in zh_o179_1 message \<or> py_in zh_o179_2 message \<or> py_in zh_o179_3 message
      then asc ''record_medication''
      else if (py_in zh_o183_1 message \<or> py_in zh_o183_2 message \<or> py_in zh_o183_3 message
               \<or> py_in zh_o183_4 message) \<and> py_in zh_o183_5 message
      then asc ''ask_value_status''
      else if py_in zh_o187_1 message \<or> py_in zh_o187_2 message \<or> py_in zh_o187_3 message
              \<or> py_in zh_o187_4 message
      then asc ''weekly_report''
      else if py_in zh_o191_1 message \<or> py_in zh_o191_2 message
              \<or> py_in (asc ''gi'') message_lower \<or> py_in zh_o191_3 message
      then asc ''ask_education''
      else if any_in ([zh_o195_1, zh_o195_2, zh_o195_3, zh_o195_4, zh_o195_5, zh_o195_6]
                      @ [zh_o196_1, zh_o196_2, zh_o196_3, zh_o196_4]) message
      then intent_emotional_support
      else if py_in zh_o201_1 message \<or> py_in zh_o201_2 message \<or> py_in zh_o201_3 message
      then asc ''risk_alert''
      else intent_general)"

definition sent_anxious :: pystr where
  "sent_anxious = asc ''anxious''"

definition sent_negative :: pystr where
  "sent_negative = asc ''negative''"

text \<open>\<^verbatim>\<open>_detect_sentiment\<close>.\<close>

definition detect_sentiment :: "pystr \<Rightarrow> pystr" where
  "detect_sentiment message =
     (let message_lower = py_lower message in
      if any_in [zh_o210_1, zh_o210_2, zh_o210_3, zh_o210_4] message_lower then sent_anxious
      else if any_in [zh_o211_1, zh_o211_2, zh_o211_3, zh_o211_4, zh_o211_5] message_lower
      then sent_negative
      else if any_in [zh_o212_1, zh_o212_2, zh_o212_3, zh_o212_4, zh_o212_5] message_lower
      then asc ''positive''
      else asc ''neutral'')"

text \<open>
  \<^verbatim>\<open>_extract_slots\<close>: a key is set when its value is true in a condition, so a value or
  an hour count of zero is left out.
\<close>

definition extract_slots :: "pystr \<Rightarrow> slot_map" where
  "extract_slots message =
     \<lparr> sl_glucose_value = (let v = extract_glucose_value message in if truthy v then v else None),
       sl_unit = (let u = detect_unit message in if u \<noteq> [] then Some u else None),
       sl_meal_type = (case detect_meal_type_from_text message of
                         Some m \<Rightarrow> if m \<noteq> [] then Some m else None
                       | None \<Rightarrow> None),
       sl_hours_after_meal = (let h = extract_hours_after_meal message
                              in if truthy h then h else None) \<rparr>"

text \<open>
  \<^verbatim>\<open>_update_conversation_state\<close>: the first row of the user and session is overwritten,
  and a row is added only when there is none.
\<close>

definition same_session :: "nat \<Rightarrow> pystr \<Rightarrow> conversation_state \<Rightarrow> bool" where
  "same_session user_id session_id s = (cs_user_id s = user_id \<and> cs_session_id s = session_id)"

definition update_conversation_state ::
  "db \<Rightarrow> nat \<Rightarrow> nat \<Rightarrow> pystr \<Rightarrow> pystr \<Rightarrow> pystr \<Rightarrow> slot_map \<Rightarrow> db" where
  "update_conversation_state d now user_id session_id intent sentiment slots =
     (case find (same_session user_id session_id) (conversation_states d) of
        None \<Rightarrow>
          d\<lparr> conversation_states := conversation_states d @
                [\<lparr> cs_user_id = user_id,
                   cs_session_id = session_id,
                   cs_current_topic = Some intent,
                   cs_intent = Some intent,
                   cs_sentiment = Some sentiment,
                   cs_slots = Some slots,
                   cs_updated_at = now \<rparr>] \<rparr>
      | Some state \<Rightarrow>
          d\<lparr> conversation_states :=
                update_first (same_session user_id session_id)
                  (\<lambda>s. s\<lparr> cs_current_topic := Some intent,
                            cs_intent := Some intent,
                            cs_sentiment := Some sentiment,
                            cs_slots := Some slots,
                            cs_updated_at := now \<rparr>)
                  (conversation_states d) \<rparr>)"

text \<open>Python's \<^verbatim>\<open>x or y\<close> for an optional text and for an optional number.\<close>

definition str_or :: "pystr option \<Rightarrow> pystr option \<Rightarrow> pystr option" where
  "str_or x y = (case x of Some s \<Rightarrow> if s \<noteq> [] then Some s else y | None \<Rightarrow> y)"

definition float_or :: "real option \<Rightarrow> real option \<Rightarrow> real option" where
  "float_or x y = (if truthy x then x else y)"

text \<open>
  \<^verbatim>\<open>_handle_record_glucose\<close>. The value that the source computes first is not passed on;
  \<^verbatim>\<open>log_glucose\<close> extracts it again from the message.
\<close>

definition handle_record_glucose :: "db \<Rightarrow> nat \<Rightarrow> nat \<Rightarrow> pystr \<Rightarrow> slot_map \<Rightarrow> pydict \<times> db" where
  "handle_record_glucose d now user_id message slots =
     (let unit = str_or (sl_unit slots) (Some (detect_unit message));
          meal_type = str_or (sl_meal_type slots) (detect_meal_type_from_text message);
          hours_after_meal = float_or (sl_hours_after_meal slots) (extract_hours_after_meal message);
          context =
            (case detect_context_from_colloquial message of
               Some c \<Rightarrow> Some c
             | None \<Rightarrow>
                 if py_in zh_o317_1 message \<or> py_in (asc ''fasting'') (py_lower message)
                 then Some ctx_fasting
                 else if py_in zh_o319_1 message \<or> hours_after_meal \<noteq> None
                 then Some ctx_post_meal
                 else if py_in zh_o321_1 message \<or> py_in (asc ''pre'') (py_lower message)
                 then Some ctx_pre_meal
                 else None)
      in log_glucose d now user_id message None unit context meal_type hours_after_meal)"

text \<open>\<^verbatim>\<open>_format_analysis\<close>.\<close>

definition format_analysis :: "pydict \<Rightarrow> error + ftext" where
  "format_analysis analysis =
     (case subscript analysis ''conclusion'' of
        Inl e \<Rightarrow> Inl e
      | Inr conclusion \<Rightarrow>
          Inr (join (plain [0x0A])
            ([plain zh_o370_1 @ as_text conclusion]
             @ (if truthy_val (dict_get analysis ''reasoning'')
                then [plain zh_o373_1 @ as_text (dict_get analysis ''reasoning'')] else [])
             @ (if truthy_val (dict_get analysis ''suggestions'')
                then plain zh_o376_1
                     # map (\<lambda>s. plain zh_o378_1 @ as_text s)
                         (as_list (dict_get analysis ''suggestions''))
                else [])
             @ (if truthy_val (dict_get (as_dict (dict_get analysis ''trend'')) ''message'')
                then [plain zh_o381_1
                      @ as_text (dict_get (as_dict (dict_get analysis ''trend'')) ''message'')]
                else []))))"

text \<open>
  The latest reading of a user: the largest timestamp, and among equal timestamps the
  first row.
\<close>

fun latest_of :: "glucose_reading list \<Rightarrow> glucose_reading option \<Rightarrow> glucose_reading option" where
  "latest_of [] best = best"
| "latest_of (r # rs) best =
     latest_of rs (case best of
                     None \<Rightarrow> Some r
                   | Some b \<Rightarrow> if r_timestamp r > r_timestamp b then Some r else Some b)"

text \<open>\<^verbatim>\<open>_handle_ask_value_status\<close>.\<close>

definition handle_ask_value_status ::
  "db \<Rightarrow> nat \<Rightarrow> nat \<Rightarrow> nat \<Rightarrow> pystr \<Rightarrow> (error + pydict) \<times> db" where
  "handle_ask_value_status d now_trend now_compare user_id message =
     (case latest_of (filter (\<lambda>r. r_user_id r = user_id) (glucose_readings d)) None of
        None \<Rightarrow> (Inr [(''message'', PStr (plain zh_o346_1))], d)
      | Some latest_reading \<Rightarrow>
          (case analyze_glucose d now_trend now_compare user_id (r_value latest_reading)
                  (r_context latest_reading) (Some (r_id latest_reading)) of
             Inl e \<Rightarrow> (Inl e, d)
           | Inr (analysis, d1) \<Rightarrow>
               (case format_analysis analysis of
                  Inl e \<Rightarrow> (Inl e, d1)
                | Inr formatted \<Rightarrow>
                    (Inr [(''message'',
                           PStr (join (plain [0x0A, 0x0A])
                                  [plain zh_o358_1 @ [F1 (r_value latest_reading)]
                                     @ plain (asc '' mmol/L''),
                                   formatted]))], d1))))"

text \<open>\<^verbatim>\<open>_handle_weekly_report\<close>.\<close>

definition handle_weekly_report :: "db \<Rightarrow> nat \<Rightarrow> nat \<Rightarrow> (error + pydict) \<times> db" where
  "handle_weekly_report d now user_id =
     (case generate_weekly_report d now user_id of
        Inl e \<Rightarrow> (Inl e, d)
      | Inr (report, d1) \<Rightarrow>
          (case subscript report ''content'' of
             Inl e \<Rightarrow> (Inl e, d1)
           | Inr content \<Rightarrow> (Inr [(''message'', content)], d1)))"

text \<open>
  The clock reads of one turn: by the state update, by the primary handler, and by the
  trend and the comparison of an analysis.
\<close>

record clock =
  clk_state :: nat
  clk_primary :: nat
  clk_trend :: nat
  clk_compare :: nat

text \<open>
  What step 5 of \<^verbatim>\<open>process_message\<close> builds: the reply parts, the actions taken and the
  clarifications needed.
\<close>

type_synonym turn = "ftext list \<times> pystr list \<times> pyval list"

definition missing_of :: "pydict \<Rightarrow> pyval list" where
  "missing_of result =
     (if truthy_val (dict_get result ''missing_info'')
      then as_list (dict_get result ''missing_info'') else [])"

text \<open>
  The branch for \<^verbatim>\<open>record_glucose\<close>, lines 68 to 84: the reading is logged, and when the
  result has a reading id the value is analysed with \<^verbatim>\<open>result.get("context")\<close> as the
  context.
\<close>

definition record_glucose_turn :: "clock \<Rightarrow> db \<Rightarrow> nat \<Rightarrow> pystr \<Rightarrow> slot_map \<Rightarrow> (error + turn) \<times> db" where
  "record_glucose_turn clk d user_id message slots =
     (case handle_record_glucose d (clk_primary clk) user_id message slots of
        (result, d1) \<Rightarrow>
     (case subscript result ''message'' of
        Inl e \<Rightarrow> (Inl e, d1)
      | Inr msg \<Rightarrow>
          if truthy_val (dict_get result ''reading_id'') then
            (case subscript result ''value'' of
               Inl e \<Rightarrow> (Inl e, d1)
             | Inr v \<Rightarrow>
            (case subscript result ''reading_id'' of
               Inl e \<Rightarrow> (Inl e, d1)
             | Inr rid \<Rightarrow>
            (case analyze_glucose d1 (clk_trend clk) (clk_compare clk) user_id (as_float v)
                    (as_opt_str (dict_get result ''context'')) (as_id rid) of
               Inl e \<Rightarrow> (Inl e, d1)
             | Inr (analysis, d2) \<Rightarrow>
            (case format_analysis analysis of
               Inl e \<Rightarrow> (Inl e, d2)
             | Inr formatted \<Rightarrow>
                 (Inr ([as_text msg, formatted], [zh_o71_1, zh_o84_1], missing_of result), d2)))))
          else (Inr ([as_text msg], [zh_o71_1], missing_of result), d1)))"

text \<open>A handler whose reply is the message of its result.\<close>

definition message_turn :: "pydict \<Rightarrow> pystr \<Rightarrow> pyval list \<Rightarrow> db \<Rightarrow> (error + turn) \<times> db" where
  "message_turn result action needs d =
     (case subscript result ''message'' of
        Inl e \<Rightarrow> (Inl e, d)
      | Inr msg \<Rightarrow> (Inr ([as_text msg], [action], needs), d))"

definition dispatch :: "clock \<Rightarrow> db \<Rightarrow> nat \<Rightarrow> pystr \<Rightarrow> pystr \<Rightarrow> slot_map \<Rightarrow> (error + turn) \<times> db" where
  "dispatch clk d user_id message intent slots =
     (if intent = intent_record_glucose then
        record_glucose_turn clk d user_id message slots
      else if intent = asc ''record_meal'' then
        (case log_meal d (clk_primary clk) user_id message None None None of
           (result, d1) \<Rightarrow> message_turn result zh_o89_1 (missing_of result) d1)
      else if intent = asc ''record_exercise'' then
        (case log_exercise d (clk_primary clk) user_id message None None None None of
           (result, d1) \<Rightarrow> message_turn result zh_o96_1 [] d1)
      else if intent = asc ''record_medication'' then
        (case log_medication d (clk_primary clk) user_id message None None None of
           (result, d1) \<Rightarrow> message_turn result zh_o101_1 [] d1)
      else if intent = asc ''ask_value_status'' then
        (case handle_ask_value_status d (clk_trend clk) (clk_compare clk) user_id message of
           (Inl e, d1) \<Rightarrow> (Inl e, d1)
         | (Inr result, d1) \<Rightarrow> message_turn result zh_o106_1 [] d1)
      else if intent = asc ''ask_education'' then
        (let result = answer_question message (Some user_id) in
         case subscript result ''answer'' of
           Inl e \<Rightarrow> (Inl e, d)
         | Inr answer \<Rightarrow>
             (Inr ([as_text answer]
                   @ (if truthy_val (dict_get result ''personalized'')
                      then [as_text (dict_get result ''personalized'')] else []),
                   [zh_o113_1], []), d))
      else if intent = intent_emotional_support then
        (let result = provide_support message (Some user_id) in
         case subscript result ''empathy'' of
           Inl e \<Rightarrow> (Inl e, d)
         | Inr empathy \<Rightarrow>
        (case subscript result ''encouragement'' of
           Inl e \<Rightarrow> (Inl e, d)
         | Inr encouragement \<Rightarrow>
             (Inr ([as_text empathy, as_text encouragement]
                   @ (if truthy_val (dict_get result ''next_steps'')
                      then [plain zh_o120_1
                            @ join (plain [0x0A])
                                (map (\<lambda>step. plain zh_o120_2 @ as_text step)
                                   (as_list (dict_get result ''next_steps'')))]
                      else []),
                   [zh_o121_1], []), d)))
      else if intent = asc ''weekly_report'' then
        (case handle_weekly_report d (clk_primary clk) user_id of
           (Inl e, d1) \<Rightarrow> (Inl e, d1)
         | (Inr result, d1) \<Rightarrow> message_turn result zh_o126_1 [] d1)
      else if intent = asc ''risk_alert'' then
        (Inr ([plain zh_o130_1], [zh_o131_1], []), d)
      else
        (Inr ([plain zh_o135_1,
               if py_in zh_o136_1 message then plain zh_o137_1 else plain zh_o139_1],
              [], []), d))"

text \<open>\<^verbatim>\<open>xs.insert(i, x)\<close> for an index that is not negative.\<close>

definition py_insert :: "nat \<Rightarrow> 'a \<Rightarrow> 'a list \<Rightarrow> 'a list" where
  "py_insert i x xs = take i xs @ [x] @ drop i xs"

text \<open>
  Step 6 of \<^verbatim>\<open>process_message\<close>, lines 141 to 145: for a negative, anxious or frustrated
  sentiment the empathy line of the support agent is inserted at index 1 of the reply
  parts.
\<close>

definition add_empathy :: "pystr \<Rightarrow> pystr \<Rightarrow> nat \<Rightarrow> ftext list \<Rightarrow> error + ftext list" where
  "add_empathy sentiment message user_id reply_parts =
     (if sentiment \<in> set [sent_negative, sent_anxious, asc ''frustrated''] then
        (let support = provide_support message (Some user_id) in
         if truthy_val (dict_get support ''empathy'') then
           (case subscript support ''empathy'' of
              Inl e \<Rightarrow> Inl e
            | Inr empathy \<Rightarrow> Inr (py_insert 1 (as_text empathy) reply_parts))
         else Inr reply_parts)
      else Inr reply_parts)"

text \<open>Steps 7 and 8, lines 147 to 152: the parts that are not empty are joined, and the
  disclaimer is appended.\<close>

definition aggregate_reply :: "pystr \<Rightarrow> ftext list \<Rightarrow> ftext" where
  "aggregate_reply intent reply_parts =
     (let reply = join (plain [0x0A, 0x0A]) (filter (\<lambda>p. p \<noteq> []) reply_parts)
      in if intent \<in> set [asc ''ask_value_status'', asc ''risk_alert'']
            \<or> py_in (plain zh_o151_1) reply
         then reply @ plain zh_o152_1 else reply)"

text \<open>
  \<^verbatim>\<open>process_message\<close>. The result is the returned dictionary or the exception that
  leaves the function, and the state after the turn: what was committed before an
  exception stays committed.
\<close>

definition process_message :: "clock \<Rightarrow> db \<Rightarrow> nat \<Rightarrow> pystr \<Rightarrow> pystr \<Rightarrow> (error + pydict) \<times> db" where
  "process_message clk d user_id session_id message =
     (let intent = classify_intent message;
          sentiment = detect_sentiment message;
          slots = extract_slots message;
          d1 = update_conversation_state d (clk_state clk) user_id session_id intent sentiment slots
      in case dispatch clk d1 user_id message intent slots of
           (Inl e, d2) \<Rightarrow> (Inl e, d2)
         | (Inr (reply_parts, actions_taken, needs_clarification), d2) \<Rightarrow>
             (case add_empathy sentiment message user_id reply_parts of
                Inl e \<Rightarrow> (Inl e, d2)
              | Inr reply_parts1 \<Rightarrow>
                  (Inr [(''reply'', PStr (aggregate_reply intent reply_parts1)),
                        (''intent'', PStr (plain intent)),
                        (''sentiment'', PStr (plain sentiment)),
                        (''actions_taken'', str_list actions_taken),
                        (''needs_clarification'', PList needs_clarification)], d2)))"

text \<open>
  The keys (user and session) of the conversation state rows, and the rows of one user and
  session.
\<close>

definition session_keys :: "db \<Rightarrow> (nat \<times> pystr) list" where
  "session_keys d = map (\<lambda>s. (cs_user_id s, cs_session_id s)) (conversation_states d)"

definition session_rows :: "db \<Rightarrow> nat \<Rightarrow> pystr \<Rightarrow> conversation_state list" where
  "session_rows d user_id session_id = filter (same_session user_id session_id) (conversation_states d)"

section \<open>Sample data\<close>

text \<open>
  A small state used to run the definitions: user 1 has two readings in the week of
  Monday 2026-11-02 and one in the week before, user 2 has a single reading in the week
  before. \<open>t_tue_noon\<close> is Tuesday 2026-11-03 12:00:00 UTC.
\<close>

definition reading_at :: "nat \<Rightarrow> nat \<Rightarrow> real \<Rightarrow> nat \<Rightarrow> pystr option \<Rightarrow> glucose_reading" where
  "reading_at i u v t c =
     \<lparr> r_id = i, r_user_id = u, r_value = v, r_unit = unit_mmol, r_timestamp = t,
       r_context = c, r_meal_type = None, r_hours_after_meal = None, r_risk_level = None,
       r_analysis_notes = None \<rparr>"

definition t_tue_noon :: nat where
  "t_tue_noon = 63929304000000000"

definition sample_user1 :: user where
  "sample_user1 = \<lparr> uid = 1, fasting_target_min = None, fasting_target_max = Some 6.5,
                     post_meal_target_max = None \<rparr>"

definition sample_user2 :: user where
  "sample_user2 = \<lparr> uid = 2, fasting_target_min = None, fasting_target_max = None,
                     post_meal_target_max = None \<rparr>"

definition sample_readings :: "glucose_reading list" where
  "sample_readings =
     [reading_at 1 1 12.0 63928944000000000 (Some ctx_random),
      reading_at 2 2 6.1 63928944000000000 (Some ctx_fasting),
      reading_at 3 1 5.2 63929201400000000 (Some ctx_fasting),
      reading_at 4 1 9.0 63929293200000000 (Some ctx_post_meal)]"

definition sample_db :: db where
  "sample_db = \<lparr> users = [sample_user1, sample_user2], glucose_readings = sample_readings,
                  meal_entries = [], exercise_records = [], medication_records = [],
                  analysis_events = [],
                  weekly_reports = [], conversation_states = [] \<rparr>"

text \<open>The double nearest to 3.9.\<close>

definition sample_3_9 :: real where
  "sample_3_9 = 8782019273372467 / 2 ^ 51"

text \<open>
  The state with three readings of user 1 in the week instead, the first of them
  \<open>10 ^ 160\<close>, as a text with a number of 161 digits records it.
\<close>

definition sample_db_huge :: db where
  "sample_db_huge =
     sample_db\<lparr> glucose_readings :=
       [reading_at 1 1 (10 ^ 160) 63929201400000000 (Some ctx_random),
        reading_at 2 1 5.0 63929201400000001 (Some ctx_random),
        reading_at 3 1 5.0 63929293200000000 (Some ctx_random)] \<rparr>"

text \<open>
  A text with the random phrase "sui bian ... ce" and the fasting word "kong fu":
  U+968F U+4FBF U+6D4B U+7684 U+7A7A U+8179 U+8840 U+7CD6.
\<close>

definition sample_ambiguous :: pystr where
  "sample_ambiguous = [0x968F, 0x4FBF, 0x6D4B, 0x7684, 0x7A7A, 0x8179, 0x8840, 0x7CD6]"

text \<open>
  Two texts with a value: a prefix without digits, U+4ECA U+5929 U+6D4B U+7684 U+8840 U+7CD6
  ("the glucose measured today"), and a reading given in both units.
\<close>

definition sample_text_8_5_pre :: pystr where
  "sample_text_8_5_pre = [0x4ECA, 0x5929, 0x6D4B, 0x7684, 0x8840, 0x7CD6]"

definition sample_text_18_5 :: pystr where
  "sample_text_18_5 = asc ''18.5 mmol/L (333 mg/dL)''"

text \<open>
  A turn: clock reads, a session id, and two messages, U+5BB3 U+6015 ("afraid") and
  U+7A7A U+8179 U+8840 U+7CD6 followed by 7.5 ("fasting glucose 7.5").
\<close>

definition sample_clock :: clock where
  "sample_clock = \<lparr> clk_state = t_tue_noon, clk_primary = t_tue_noon, clk_trend = t_tue_noon,
                     clk_compare = t_tue_noon \<rparr>"

definition sample_session :: pystr where
  "sample_session = asc ''s-1''"

definition sample_afraid :: pystr where
  "sample_afraid = [0x5BB3, 0x6015]"

definition sample_fasting_7_5 :: pystr where
  "sample_fasting_7_5 = [0x7A7A, 0x8179, 0x8840, 0x7CD6, 0x37, 0x2E, 0x35]"

section \<open>Theorems\<close>

subsection \<open>Rounding to a double\<close>

lemma round_even_err: "\<bar>of_int (round_even q) - q\<bar> \<le> 1 / 2"
  unfolding round_even_def Let_def by (auto simp: abs_le_iff)

lemma round64_err:
  "\<bar>round64 x - x\<bar> \<le> \<bar>x\<bar> / 2 ^ 53 + 2 powr (- 1075)"
proof (cases "x = 0")
  case True then show ?thesis by (simp add: round64_def)
next
  case False
  define e where "e = max \<lfloor>log 2 \<bar>x\<bar>\<rfloor> (- 1022)"
  define ulp :: real where "ulp = 2 powr (of_int e - 52)"
  have up: "ulp > 0" by (simp add: ulp_def)
  have r: "round64 x = of_int (round_even (x / ulp)) * ulp"
    using False by (simp add: round64_def Let_def e_def ulp_def)
  have "round64 x - x = (of_int (round_even (x / ulp)) - x / ulp) * ulp"
    using up by (simp add: r field_simps)
  then have "\<bar>round64 x - x\<bar> = \<bar>of_int (round_even (x / ulp)) - x / ulp\<bar> * ulp"
    using up by (simp add: abs_mult)
  also have "\<dots> \<le> 1 / 2 * ulp"
    using round_even_err [of "x / ulp"] up by (intro mult_right_mono) simp_all
  finally have err: "\<bar>round64 x - x\<bar> \<le> ulp / 2" by simp
  have half: "ulp / 2 = 2 powr (of_int e - 53)"
    by (simp add: ulp_def powr_diff)
  show ?thesis
  proof (cases "\<lfloor>log 2 \<bar>x\<bar>\<rfloor> \<ge> - 1022")
    case True
    then have e: "e = \<lfloor>log 2 \<bar>x\<bar>\<rfloor>" by (simp add: e_def)
    have "of_int e \<le> log 2 \<bar>x\<bar>" by (simp add: e)
    then have "2 powr (of_int e) \<le> \<bar>x\<bar>"
      using False by (simp add: powr_le_iff)
    then have "2 powr (of_int e - 53) \<le> \<bar>x\<bar> / 2 ^ 53"
      by (simp add: powr_diff divide_right_mono)
    with err half have "\<bar>round64 x - x\<bar> \<le> \<bar>x\<bar> / 2 ^ 53" by simp
    moreover have "(0::real) \<le> 2 powr (- 1075)" by simp
    ultimately show ?thesis by linarith
  next
    case False
    then have "e = - 1022" by (simp add: e_def)
    then have "ulp / 2 = 2 powr (- 1075)" by (simp add: half)
    with err have "\<bar>round64 x - x\<bar> \<le> 2 powr (- 1075)" by simp
    moreover have "0 \<le> \<bar>x\<bar> / 2 ^ 53" by simp
    ultimately show ?thesis by linarith
  qed
qed


lemma dbl_overflow_ge: "dbl_overflow \<ge> 2 ^ 1023"
proof -
  have "(2::real) ^ 970 \<le> 2 ^ 1023" by (rule power_increasing) simp_all
  moreover have "(2::real) ^ 1024 = 2 * 2 ^ 1023" by simp
  ultimately show ?thesis unfolding dbl_overflow_def by linarith
qed

lemma dbl_overflow_big: "dbl_overflow \<ge> 4"
proof -
  have "(2::real) ^ 2 \<le> 2 ^ 1023" by (rule power_increasing) simp_all
  with dbl_overflow_ge show ?thesis by simp
qed

lemma tiny: "2 powr (- 1074) = 2 * 2 powr (- 1075 :: real)" "2 powr (- 1075 :: real) \<le> 1"
proof -
  have "2 powr (- 1074 :: real) = 2 powr (1 + (- 1075))" by simp
  also have "\<dots> = 2 powr 1 * 2 powr (- 1075 :: real)" by (rule powr_add)
  finally show "2 powr (- 1074) = 2 * 2 powr (- 1075 :: real)" by simp
  have "2 powr (- 1075 :: real) \<le> 2 powr 0" by (rule powr_mono) simp_all
  then show "2 powr (- 1075 :: real) \<le> 1" by simp
qed

lemma round_trip_18:
  assumes pos: "0 < x" and no: "\<not> overflows (x * 18)"
  shows "\<exists>y. fl_div (fl_mul (Fin x) 18) 18 = Fin y
             \<and> \<bar>y - x\<bar> \<le> x / 2 ^ 51 + 2 powr (- 1074)"
proof -
  define a :: real where "a = 2 powr (- 1075)"
  have a: "0 \<le> a" "a \<le> 1" "2 powr (- 1074) = 2 * a"
    using tiny by (simp_all add: a_def)
  define y1 where "y1 = round64 (x * 18)"
  have m: "fl_mul (Fin x) 18 = Fin y1"
    using no by (simp add: fl_mul_def fl_round_def y1_def)
  have e1: "\<bar>y1 - x * 18\<bar> \<le> x * 18 / 2 ^ 53 + a"
    using round64_err [of "x * 18"] pos by (simp add: y1_def a_def)
  have x18: "x * 18 < dbl_overflow"
    using no pos by (simp add: overflows_def)
  have b1: "\<bar>y1\<bar> \<le> x * 18 + x * 18 / 2 ^ 53 + a"
    using e1 pos by linarith
  have "x * 18 / 2 ^ 53 \<le> x * 18" using pos by (simp add: divide_le_eq)
  with b1 a x18 dbl_overflow_big have "\<bar>y1 / 18\<bar> < dbl_overflow"
    by (simp add: abs_divide)
  then have no2: "\<not> overflows (y1 / 18)" by (simp add: overflows_def)
  define y where "y = round64 (y1 / 18)"
  have d: "fl_div (Fin y1) 18 = Fin y"
    using no2 by (simp add: fl_div_def fl_round_def y_def)
  have e2: "\<bar>y - y1 / 18\<bar> \<le> \<bar>y1 / 18\<bar> / 2 ^ 53 + a"
    using round64_err [of "y1 / 18"] by (simp add: y_def a_def)
  have b2: "\<bar>y1 / 18\<bar> \<le> x + x / 2 ^ 53 + a / 18"
    using b1 by (simp add: abs_divide) 
  have e3: "\<bar>y1 / 18 - x\<bar> \<le> x / 2 ^ 53 + a / 18"
    using e1 by (simp add: abs_le_iff field_simps)
  have "\<bar>y - x\<bar> \<le> \<bar>y - y1 / 18\<bar> + \<bar>y1 / 18 - x\<bar>" by linarith
  also have "\<dots> \<le> (x + x / 2 ^ 53 + a / 18) / 2 ^ 53 + a + (x / 2 ^ 53 + a / 18)"
    using e2 e3 b2 by (intro add_mono order_trans [OF e2] add_mono divide_right_mono) simp_all
  also have "\<dots> \<le> x / 2 ^ 51 + 2 * a"
  proof -
    have "x / 2 ^ 53 / 2 ^ 53 \<le> x / 2 ^ 53" using pos by (simp add: divide_le_eq)
    moreover have "a / 18 / 2 ^ 53 \<le> a / 18" using a(1) by (simp add: divide_le_eq)
    moreover have "x / 2 ^ 51 = 4 * (x / 2 ^ 53)" by simp
    moreover have "0 \<le> x / 2 ^ 53" using pos by simp
    ultimately show ?thesis using a(1) by (simp add: add_divide_distrib)
  qed
  finally have "\<bar>y - x\<bar> \<le> x / 2 ^ 51 + 2 powr (- 1074)" using a(3) by simp
  with m d show ?thesis by simp
qed

lemma round64_eval:
  assumes lo: "2 powr of_int e \<le> \<bar>x\<bar>" and hi: "\<bar>x\<bar> < 2 powr (of_int e + 1)" and e: "- 1022 \<le> e"
  shows "round64 x = of_int (round_even (x / 2 powr (of_int e - 52))) * 2 powr (of_int e - 52)"
proof -
  have "(0::real) < 2 powr of_int e" by simp
  with lo have pos: "0 < \<bar>x\<bar>" by linarith
  then have nz: "x \<noteq> 0" by simp
  have fl: "\<lfloor>log 2 \<bar>x\<bar>\<rfloor> = e"
    by (subst floor_log_eq_powr_iff) (use lo hi pos in simp_all)
  have "max e (- 1022) = e" using e by (simp add: max_def)
  then show ?thesis unfolding round64_def Let_def fl using nz by simp
qed

lemma round64_eval_pos:
  assumes "2 ^ n \<le> \<bar>x\<bar>" and "\<bar>x\<bar> < 2 * 2 ^ n" and "n \<le> 52"
  shows "round64 x = of_int (round_even (x * 2 ^ (52 - n))) / 2 ^ (52 - n)"
proof -
  have 1: "2 powr of_int (int n) = (2::real) ^ n" by (simp add: powr_realpow)
  have 2: "2 powr (of_int (int n) + 1) = (2::real) * 2 ^ n" by (simp add: powr_add powr_realpow)
  have "real_of_int (int n) - 52 = - real (52 - n)" using assms(3) by simp
  then have "2 powr (of_int (int n) - 52) = 2 powr (- real (52 - n))" by (simp only:)
  also have "\<dots> = 1 / (2::real) ^ (52 - n)"
    by (simp only: powr_minus powr_realpow) (simp add: divide_simps powr_realpow)
  finally have 3: "2 powr (of_int (int n) - 52) = 1 / (2::real) ^ (52 - n)" .
  have "round64 x = of_int (round_even (x / (1 / 2 ^ (52 - n)))) * (1 / 2 ^ (52 - n))"
    using round64_eval [of "int n" x] assms(1,2) unfolding 1 2 3 by simp
  then show ?thesis by simp
qed

lemma round_even_int: "round_even (of_int k) = k"
  by (simp add: round_even_def)

lemma round64_2_1023: "round64 (2 ^ 1023) = 2 ^ 1023"
proof -
  have a: "2 powr real_of_int 1023 = (2::real) ^ 1023"
    using powr_realpow [of 2 1023] by simp
  have b: "2 powr (real_of_int 1023 + 1) = (2::real) ^ 1024"
    using powr_realpow [of 2 1024] by simp
  have c: "2 powr (real_of_int 1023 - 52) = (2::real) ^ 971"
    using powr_realpow [of 2 971] by simp
  have d: "(2::real) ^ 1023 / 2 ^ 971 = of_int (2 ^ 52)"
    by (simp add: power_diff [symmetric])
  have e: "(2::real) ^ 1023 < 2 ^ 1024" by (rule power_strict_increasing) simp_all
  have "round64 (2 ^ 1023) = of_int (round_even (2 ^ 1023 / 2 ^ 971)) * 2 ^ 971"
    using round64_eval [of 1023 "2 ^ 1023"] e unfolding a b c by simp
  also have "\<dots> = of_int (2 ^ 52) * 2 ^ 971"
    unfolding d round_even_int ..
  also have "\<dots> = 2 ^ 1023" by (simp add: power_add [symmetric])
  finally show ?thesis .
qed

lemma sample_3_9_double: "round64 sample_3_9 = sample_3_9"
  using round64_eval_pos [of 1 sample_3_9]
  by (simp add: sample_3_9_def round_even_def)


lemma sample_3_9_times: "round64 (sample_3_9 * 18) = 4939885841272013 / 2 ^ 46"
  using round64_eval_pos [of 6 "sample_3_9 * 18"]
  by (simp add: sample_3_9_def round_even_def)

lemma sample_3_9_back: "round64 (4939885841272013 / 2 ^ 46 / 18) = 8782019273372468 / 2 ^ 51"
  using round64_eval_pos [of 1 "4939885841272013 / 2 ^ 46 / 18"]
  by (simp add: round_even_def)

subsection \<open>Unit conversion\<close>

lemma units_distinct: "unit_mgdl \<noteq> unit_mmol"
  by (simp add: unit_mgdl_def unit_mmol_def asc_def)

text \<open>
  C8, as amended. For every positive \<open>x\<close> whose product with 18 is below the overflow
  threshold of the doubles, converting \<open>x\<close> from mmol/L to mg/dL and back gives a finite
  double \<open>y\<close> within the floating tolerance \<open>x / 2 ^ 51 + 2 powr (- 1074)\<close> of \<open>x\<close> (two
  roundings, each of relative error at most \<open>1 / 2 ^ 53\<close>, or half the smallest subnormal).
  From mg/dL to mmol/L the conversion is the quotient by 18 rounded to a double, from
  mmol/L to mg/dL the product with 18 rounded to a double, and between equal units it is
  the identity on every float.
\<close>

theorem convert_glucose_unit_roundtrip:
  assumes "0 < x" and "\<not> overflows (x * 18)"
  shows "(\<exists>y. convert_glucose_unit (convert_glucose_unit (Fin x) unit_mmol unit_mgdl)
                 unit_mgdl unit_mmol = Fin y
              \<and> \<bar>y - x\<bar> \<le> x / 2 ^ 51 + 2 powr (- 1074))
         \<and> convert_glucose_unit (Fin x) unit_mgdl unit_mmol = fl_round (x / 18)
         \<and> convert_glucose_unit (Fin x) unit_mmol unit_mgdl = fl_round (x * 18)
         \<and> convert_glucose_unit v u u = v"
  using round_trip_18 [OF assms] units_distinct
  by (simp add: convert_glucose_unit_def fl_mul_def fl_div_def)

theorem convert_glucose_unit_roundtrip_witness:
  "0 < sample_3_9 \<and> \<not> overflows (sample_3_9 * 18)
   \<and> (\<exists>y. convert_glucose_unit (convert_glucose_unit (Fin sample_3_9) unit_mmol unit_mgdl)
                 unit_mgdl unit_mmol = Fin y
            \<and> \<bar>y - sample_3_9\<bar> \<le> sample_3_9 / 2 ^ 51 + 2 powr (- 1074))"
proof -
  have p: "0 < sample_3_9" by (simp add: sample_3_9_def)
  have n: "\<not> overflows (sample_3_9 * 18)"
    by (simp add: overflows_def dbl_overflow_def sample_3_9_def)
  from convert_glucose_unit_roundtrip [OF p n]
  have "\<exists>y. convert_glucose_unit (convert_glucose_unit (Fin sample_3_9) unit_mmol unit_mgdl)
                 unit_mgdl unit_mmol = Fin y
            \<and> \<bar>y - sample_3_9\<bar> \<le> sample_3_9 / 2 ^ 51 + 2 powr (- 1074)"
    by (rule conjunct1)
  with p n show ?thesis by (intro conjI)
qed

text \<open>
  The claim C8 as stated, for all positive \<open>x\<close>, fails: \<open>2 ^ 1023\<close> is a positive double,
  its product with 18 is beyond the range of the doubles, and the round trip returns the
  infinity, which no floating tolerance brings back to \<open>x\<close>.
\<close>

theorem convert_glucose_unit_overflow_counterexample:
  "(0::real) < 2 ^ 1023 \<and> round64 (2 ^ 1023) = 2 ^ 1023
   \<and> convert_glucose_unit (convert_glucose_unit (Fin (2 ^ 1023)) unit_mmol unit_mgdl)
         unit_mgdl unit_mmol = PInf"
proof -
  have "overflows (2 ^ 1023 * 18)"
    unfolding overflows_def dbl_overflow_def by simp
  then have "convert_glucose_unit (convert_glucose_unit (Fin (2 ^ 1023)) unit_mmol unit_mgdl)
         unit_mgdl unit_mmol = PInf"
    using units_distinct
    by (simp add: convert_glucose_unit_def fl_mul_def fl_div_def fl_round_def)
  with round64_2_1023 show ?thesis by simp
qed

text \<open>
  Within the range the round trip is not exact either: the double nearest to 3.9 comes
  back one unit in the last place higher, as \<^verbatim>\<open>3.9 * 18.0 / 18.0\<close> does in Python
  (\<^verbatim>\<open>3.9000000000000004\<close>).
\<close>

lemma sample_3_9_roundtrip:
  "convert_glucose_unit (convert_glucose_unit (Fin sample_3_9) unit_mmol unit_mgdl)
     unit_mgdl unit_mmol = Fin (sample_3_9 + 1 / 2 ^ 51)"
proof -
  have n: "\<not> overflows (sample_3_9 * 18)"
    by (simp add: overflows_def dbl_overflow_def sample_3_9_def)
  have m: "\<not> overflows (4939885841272013 / 2 ^ 46 / 18)"
    by (simp add: overflows_def dbl_overflow_def)
  have 1: "fl_round (sample_3_9 * 18) = Fin (4939885841272013 / 2 ^ 46)"
    using n by (simp only: fl_round_def sample_3_9_times if_False)
  have 2: "fl_round (4939885841272013 / 2 ^ 46 / 18) = Fin (8782019273372468 / 2 ^ 51)"
    using m by (simp only: fl_round_def sample_3_9_back if_False)
  have 3: "8782019273372468 / 2 ^ 51 = sample_3_9 + 1 / 2 ^ 51"
    by (simp add: sample_3_9_def)
  have c1: "convert_glucose_unit (Fin sample_3_9) unit_mmol unit_mgdl = fl_round (sample_3_9 * 18)"
    using units_distinct by (simp add: convert_glucose_unit_def fl_mul_def)
  have c2: "convert_glucose_unit (Fin y) unit_mgdl unit_mmol = fl_round (y / 18)" for y
    using units_distinct by (simp add: convert_glucose_unit_def fl_div_def)
  show ?thesis unfolding c1 1 c2 2 3 ..
qed

subsection \<open>Risk tiers\<close>

lemma labels_distinct:
  "tier_label s = tier_label t \<longleftrightarrow> s = t"
  by (cases s; cases t; simp add: lvl_critical_def lvl_high_def lvl_moderate_def lvl_normal_def asc_def
      zh_hypo_risk_def zh_severe_hyper_risk_def zh_glucose_high_def zh_glucose_low_def zh_in_target_def zh_above_target_def)

lemma region_cover: "tmin < tmax \<Longrightarrow> \<exists>!t. tier_region t tmin tmax v"
proof -
  assume h: "tmin < tmax"
  have ex: "\<exists>t. tier_region t tmin tmax v"
  proof (cases "v < 3.9")
    case True then show ?thesis by (intro exI[of _ CriticalLow]) simp
  next
    case a: False
    show ?thesis
    proof (cases "16.7 \<le> v")
      case True then show ?thesis by (intro exI[of _ CriticalHigh]) simp
    next
      case b: False
      show ?thesis
      proof (cases "11.1 \<le> v")
        case True with b show ?thesis by (intro exI[of _ High]) simp
      next
        case c: False
        show ?thesis
        proof (cases "v < tmin")
          case True with a c show ?thesis by (intro exI[of _ ModerateLow]) simp
        next
          case d: False
          show ?thesis
          proof (cases "v \<le> tmax")
            case True with a c d show ?thesis by (intro exI[of _ Normal]) simp
          next
            case False with a c show ?thesis by (intro exI[of _ ModerateHigh]) simp
          qed
        qed
      qed
    qed
  qed
  have un: "tier_region s tmin tmax v \<Longrightarrow> tier_region t tmin tmax v \<Longrightarrow> s = t" for s t
    using h by (cases s; cases t; simp)
  from ex un show ?thesis by blast
qed

lemma assess_region:
  "tmin < tmax \<Longrightarrow> tier_region t tmin tmax v \<Longrightarrow> risk_label (assess_risk v tmin tmax c) = tier_label t"
  by (cases t; simp add: assess_risk_def risk_label_def)

text \<open>
  C1. For every value and every target range with \<open>tmin < tmax\<close>, exactly one of the
  six tiers covers the value (the tiers partition the real line), the code reports the
  level and conclusion of that tier, and no two tiers share a level and conclusion. The
  tiers are: below 3.9 critical (hypoglycaemia); from 16.7 critical (severe
  hyperglycaemia); from 11.1 high; otherwise below \<open>tmin\<close> moderate (below target);
  within \<open>tmin\<close> and \<open>tmax\<close> normal; above \<open>tmax\<close> and below 11.1 moderate (above target).
\<close>

theorem assess_risk_partition:
  assumes "tmin < tmax"
  shows "(\<exists>!t. tier_region t tmin tmax v) \<and>
         (\<forall>t. tier_region t tmin tmax v \<longrightarrow> risk_label (assess_risk v tmin tmax c) = tier_label t) \<and>
         (\<forall>s t. tier_label s = tier_label t \<longrightarrow> s = t)"
  using assms region_cover assess_region labels_distinct by blast

theorem assess_risk_partition_witness:
  "(4.4::real) < 7.2 \<and> tier_region Normal 4.4 7.2 5.2 \<and>
   risk_label (assess_risk 5.2 4.4 7.2 (Some ctx_fasting)) = (lvl_normal, zh_in_target)"
proof -
  have h: "(4.4::real) < 7.2" by simp
  have r: "tier_region Normal 4.4 7.2 5.2" by simp
  from assess_risk_partition [OF h, of "5.2" "Some ctx_fasting"] r
  have "risk_label (assess_risk 5.2 4.4 7.2 (Some ctx_fasting)) = tier_label Normal" by blast
  with h r show ?thesis by simp
qed

subsection \<open>Weekly report\<close>

lemma compliant_Some: "compliant (Some usr) r = Inr (in_target usr r)"
  by (simp add: compliant_def in_target_def)

lemma count_compliant_Some:
  "count_compliant (Some usr) rs n = Inr (n + length (filter (in_target usr) rs))"
  by (induction rs arbitrary: n) (simp_all add: compliant_Some)

lemma compliance_Some:
  "calculate_target_compliance rs (Some usr) =
     Inr (if rs = [] then 0 else real (length (filter (in_target usr) rs)) / real (length rs) * 100)"
  by (simp add: calculate_target_compliance_def count_compliant_Some)

lemma ws: "week_start_of t_tue_noon = 63929174400000000"
  by (simp add: week_start_of_def t_tue_noon_def dt_weekday_def dt_midnight_def us_per_day_def us_per_hour_def)

lemma we: "week_end_of t_tue_noon = 63929779200000000"
  by (simp add: week_end_of_def ws us_per_day_def us_per_hour_def)

lemma wr2: "week_readings sample_db t_tue_noon 2 = []"
  by (simp add: week_readings_def ws we sample_db_def sample_readings_def reading_at_def)


text \<open>
  C4. For every user whose week window holds no glucose reading,
  \<^verbatim>\<open>generate_weekly_report\<close> returns (it raises nothing) the dictionary with
  \<^verbatim>\<open>success = False\<close>, the no-data message, no report id, a measurement count of 0 and
  \<^verbatim>\<open>None\<close> for the averages and the compliance rate; the state is unchanged.
\<close>

theorem weekly_report_no_data:
  assumes "week_readings d today user_id = []"
  shows "generate_weekly_report d today user_id =
           Inr ([(''success'', PBool False),
                 (''content'', PStr (plain zh_no_data)),
                 (''report_id'', PNone),
                 (''total_measurements'', PInt 0),
                 (''average_glucose'', PNone),
                 (''fasting_average'', PNone),
                 (''post_meal_average'', PNone),
                 (''target_compliance_rate'', PNone)], d)"
  using assms by (simp add: generate_weekly_report_def)

theorem weekly_report_no_data_witness:
  "week_readings sample_db t_tue_noon 2 = [] \<and>
   map_sum id (\<lambda>(res, d). (map_of res ''success'', map_of res ''total_measurements'',
                             map_of res ''target_compliance_rate'', weekly_reports d))
     (generate_weekly_report sample_db t_tue_noon 2)
   = Inr (Some (PBool False), Some (PInt 0), Some PNone, [])"
  using weekly_report_no_data [OF wr2] wr2 by (simp add: sample_db_def)




lemma action_items_Some:
  "\<exists>items. generate_action_items rs (Some usr) ps = Inr items"
  by (simp add: generate_action_items_def compliance_Some Let_def)












lemma std_dev_test: "sqrt var < 1.5 \<longleftrightarrow> var < 1.5 ^ 2"
proof -
  have "sqrt ((1.5::real) ^ 2) = 1.5" by simp
  then have "sqrt var < 1.5 \<longleftrightarrow> sqrt var < sqrt (1.5 ^ 2)" by simp
  also have "\<dots> \<longleftrightarrow> var < 1.5 ^ 2" by (rule real_sqrt_less_iff)
  finally show ?thesis .
qed

text \<open>
  The exception of line 308: with the readings \<open>10 ^ 160\<close>, 5 and 5 in the week the square
  of the first deviation from the mean is beyond the range of the doubles, the call
  raises \<^verbatim>\<open>OverflowError\<close> and no row is persisted.
\<close>

lemma wr_huge:
  "map r_value (week_readings sample_db_huge t_tue_noon 1) = [10 ^ 160, 5, 5]"
  by (simp add: week_readings_def ws we sample_db_huge_def sample_db_def reading_at_def)

lemma variance_huge: "variance [10 ^ 160, 5, 5] = Inl OverflowError"
  by (simp add: variance_def average_def float_sq_def overflows_def dbl_overflow_def)

lemma weekly_report_overflow:
  "generate_weekly_report sample_db_huge t_tue_noon 1 = Inl OverflowError"
proof -
  let ?rs = "week_readings sample_db_huge t_tue_noon 1"
  have len: "length ?rs = 3" using arg_cong [OF wr_huge, of length] by simp
  then have ne: "?rs \<noteq> []" by auto
  have u: "query_user sample_db_huge 1 = Some sample_user1"
    by (simp add: query_user_def sample_db_huge_def sample_db_def sample_user1_def)
  obtain a where a: "generate_action_items ?rs (Some sample_user1)
       (identify_patterns ?rs (week_meals sample_db_huge t_tue_noon 1)
          (week_exercises sample_db_huge t_tue_noon 1)) = Inr a"
    using action_items_Some by blast
  have p: "identify_positive_progress ?rs (Some sample_user1) = Inl OverflowError"
  proof -
    have v: "variance (map r_value ?rs) = Inl OverflowError"
      unfolding wr_huge by (rule variance_huge)
    show ?thesis
      using ne len v by (simp add: identify_positive_progress_def compliance_Some Let_def)
  qed
  show ?thesis
    using ne u a p by (simp add: generate_weekly_report_def Let_def compliance_Some)
qed



subsection \<open>Text extractors\<close>

lemma any_search_iff: "any_search ps t \<longleftrightarrow> matches_some ps t"
  by (induction ps) (auto simp: matches_some_def split: option.splits)

lemma ctx_distinct:
  "ctx_fasting \<noteq> ctx_random" "ctx_fasting \<noteq> ctx_pre_meal" "ctx_fasting \<noteq> ctx_post_meal"
  "ctx_pre_meal \<noteq> ctx_post_meal" "ctx_pre_meal \<noteq> ctx_random" "ctx_post_meal \<noteq> ctx_random"
  by (simp_all add: ctx_fasting_def ctx_random_def ctx_pre_meal_def ctx_post_meal_def asc_def)

text \<open>
  C2. \<^verbatim>\<open>detect_context_from_colloquial\<close> is a first-match-wins cascade over the
  lower-cased text: fasting if some fasting pattern is found, otherwise pre-meal if some
  pre-meal pattern is found, otherwise post-meal, otherwise random, otherwise \<^verbatim>\<open>None\<close>. In
  particular a text in which both a fasting pattern and a random pattern are found is
  classified as fasting, not as random.
\<close>

theorem colloquial_cascade:
  "detect_context_from_colloquial text =
     (if matches_some fasting_keywords (py_lower text) then Some ctx_fasting
      else if matches_some pre_meal_keywords (py_lower text) then Some ctx_pre_meal
      else if matches_some post_meal_keywords (py_lower text) then Some ctx_post_meal
      else if matches_some random_keywords (py_lower text) then Some ctx_random
      else None)
   \<and> (matches_some fasting_keywords (py_lower text) \<and> matches_some random_keywords (py_lower text)
        \<longrightarrow> detect_context_from_colloquial text = Some ctx_fasting
            \<and> detect_context_from_colloquial text \<noteq> Some ctx_random)"
  using ctx_distinct(1) by (simp add: detect_context_from_colloquial_def any_search_iff Let_def)

lemma sample_lower: "py_lower sample_ambiguous = sample_ambiguous"
  by (simp add: py_lower_def sample_ambiguous_def lower_cp_def)

lemma sample_fasting: "re_search False (Lit zh_kongfu) sample_ambiguous \<noteq> None"
  by (simp add: sample_ambiguous_def zh_kongfu_def lit_ok_def)

lemma sample_random:
  "re_search False (seq [Lit zh_suibian, dotstar, Lit zh_ce]) sample_ambiguous \<noteq> None"
  by (simp add: sample_ambiguous_def zh_suibian_def zh_ce_def lit_ok_def dotstar_def cls_ok_def)

theorem colloquial_cascade_witness:
  "matches_some fasting_keywords (py_lower sample_ambiguous)
   \<and> matches_some random_keywords (py_lower sample_ambiguous)
   \<and> detect_context_from_colloquial sample_ambiguous = Some ctx_fasting"
proof -
  have f: "matches_some fasting_keywords (py_lower sample_ambiguous)"
    unfolding matches_some_def sample_lower
    by (rule bexI [where x = "Lit zh_kongfu"]) (simp_all add: sample_fasting fasting_keywords_def)
  have r: "matches_some random_keywords (py_lower sample_ambiguous)"
    unfolding matches_some_def sample_lower
    by (rule bexI [where x = "seq [Lit zh_suibian, dotstar, Lit zh_ce]"])
       (simp_all only: sample_random random_keywords_def list.set insert_iff simp_thms)
  from colloquial_cascade [of sample_ambiguous] f r show ?thesis by simp
qed

subsection \<open>Value and unit\<close>

lemma digit_facts:
  "is_digit 0x38" "is_digit 0x35" "\<not> is_digit 0x2E" "\<not> is_digit 0x662F"
  by (simp_all add: is_digit_def digit_blocks_def in_block_def)

lemma digit_ranges:
  assumes "is_digit c"
  shows "(0x30 \<le> c \<and> c < 0x3A) \<or> (0x660 \<le> c \<and> c < 0x109A) \<or> (0x17E0 \<le> c \<and> c < 0x1C5A)
         \<or> 0xA620 \<le> c"
proof -
  from assms obtain b where b: "b \<in> set digit_blocks" "b \<le> c" "c < b + 10"
    by (auto simp: is_digit_def list_ex_iff in_block_def)
  from b(1) have "b = 0x30 \<or> (0x660 \<le> b \<and> b \<le> 0x1090) \<or> (0x17E0 \<le> b \<and> b \<le> 0x1C50) \<or> 0xA620 \<le> b"
    unfolding digit_blocks_def by (simp only: list.set insert_iff empty_iff) (elim disjE; simp)
  with b(2,3) show ?thesis by linarith
qed

lemma space_not_digit: "is_space c \<Longrightarrow> \<not> is_digit c"
proof
  assume s: "is_space c" and "is_digit c"
  from digit_ranges [OF this(2)] s show False
    unfolding is_space_def by linarith
qed

lemma cls_digit [simp]: "cls_ok ic [Digit] = is_digit"
  by (rule ext) (simp add: cls_ok_def)

lemma many_stop: "t = [] \<or> \<not> p (hd t) \<Longrightarrow> many p t = [t]"
  by (cases t) auto

lemma many1_stop: "t = [] \<or> \<not> p (hd t) \<Longrightarrow> many1 p t = []"
  by (cases t) (auto simp: many1_def)

lemma nd_head: "\<forall>c \<in> set t. \<not> is_digit c \<Longrightarrow> t = [] \<or> \<not> is_digit (hd t)"
  by (cases t) auto

text \<open>The number pattern at a text that does not start with a digit, and at "5" and "8.5".\<close>

lemma number_nondigit: "t = [] \<or> \<not> is_digit (hd t) \<Longrightarrow> rx_run True number (g, t) = []"
  by (simp add: number_def many1_stop)

lemma frac_nondigit:
  assumes "\<forall>c \<in> set post. \<not> is_digit c"
  shows "rx_run True (Then (Lit (asc ''.'')) (Plus [Digit])) (g, post) = []"
proof (cases post)
  case Nil then show ?thesis by (simp add: lit_ok_def asc_def)
next
  case (Cons c t)
  with assms have "t = [] \<or> \<not> is_digit (hd t)" by (cases t) auto
  then show ?thesis using Cons by (simp add: many1_stop asc_def)
qed

lemma opt_frac_nondigit:
  assumes "\<forall>c \<in> set post. \<not> is_digit c"
  shows "rx_run True (Opt (Then (Lit (asc ''.'')) (Plus [Digit]))) (g, post) = [(g, post)]"
  by (simp only: rx_run.simps(7) frac_nondigit [OF assms] append_Nil)

lemma plus_digit_5:
  assumes "\<forall>c \<in> set post. \<not> is_digit c"
  shows "rx_run True (Plus [Digit]) (g, 0x35 # post) = [(g, post)]"
  using many_stop [where p = is_digit, OF nd_head [OF assms]] by (simp add: many1_def digit_facts)

lemma number_5:
  assumes "\<forall>c \<in> set post. \<not> is_digit c"
  shows "rx_run True number (g, 0x35 # post) = [(g, post)]"
  by (simp only: number_def rx_run.simps(5) plus_digit_5 [OF assms] list.map concat.simps
      opt_frac_nondigit [OF assms] append_Nil2)

lemma frac_5:
  assumes "\<forall>c \<in> set post. \<not> is_digit c"
  shows "rx_run True (Then (Lit (asc ''.'')) (Plus [Digit])) (g, 0x2E # 0x35 # post) = [(g, post)]"
proof -
  have "rx_run True (Lit (asc ''.'')) (g, 0x2E # 0x35 # post) = [(g, 0x35 # post)]"
    by (simp add: lit_ok_def asc_def)
  then show ?thesis
    by (simp only: rx_run.simps(5) list.map concat.simps plus_digit_5 [OF assms] append_Nil2)
qed

lemma opt_frac_5:
  assumes "\<forall>c \<in> set post. \<not> is_digit c"
  shows "rx_run True (Opt (Then (Lit (asc ''.'')) (Plus [Digit]))) (g, 0x2E # 0x35 # post)
           = [(g, post), (g, 0x2E # 0x35 # post)]"
  by (simp only: rx_run.simps(7) frac_5 [OF assms] append_Cons append_Nil)

lemma number_8_5:
  assumes "\<forall>c \<in> set post. \<not> is_digit c"
  shows "rx_run True number (g, 0x38 # 0x2E # 0x35 # post)
           = [(g, post), (g, 0x2E # 0x35 # post)]"
proof -
  have "rx_run True (Plus [Digit]) (g, 0x38 # 0x2E # 0x35 # post) = [(g, 0x2E # 0x35 # post)]"
    by (simp add: many1_def digit_facts)
  then show ?thesis
    by (simp only: number_def rx_run.simps(5) list.map concat.simps opt_frac_5 [OF assms]
        append_Nil2)
qed


text \<open>The capturing group around the number.\<close>

lemma group_nondigit:
  "t = [] \<or> \<not> is_digit (hd t) \<Longrightarrow> rx_run True (Group number) (g, t) = []"
  by (simp only: rx_run.simps(8) number_nondigit list.map)

lemma group_nd: "\<forall>c \<in> set t. \<not> is_digit c \<Longrightarrow> rx_run True (Group number) (g, t) = []"
  by (rule group_nondigit) (rule nd_head)

lemma group_5:
  assumes "\<forall>c \<in> set post. \<not> is_digit c"
  shows "rx_run True (Group number) (g, 0x35 # post) = [([0x35], post)]"
  by (simp only: rx_run.simps(8) number_5 [OF assms]) simp

lemma group_8_5:
  assumes "\<forall>c \<in> set post. \<not> is_digit c"
  shows "rx_run True (Group number) (g, 0x38 # 0x2E # 0x35 # post)
           = [([0x38, 0x2E, 0x35], post), ([0x38], 0x2E # 0x35 # post)]"
  by (simp only: rx_run.simps(8) number_8_5 [OF assms]) simp

text \<open>The third pattern, the bare number.\<close>

lemma search3:
  assumes "\<forall>c \<in> set pre. \<not> is_digit c" and post: "\<forall>c \<in> set post. \<not> is_digit c"
  shows "re_search True (Group number) (pre @ 0x38 # 0x2E # 0x35 # post) = Some [0x38, 0x2E, 0x35]"
  using assms(1)
proof (induction pre)
  case Nil
  show ?case by (simp add: group_8_5 [OF post] del: rx_run.simps)
next
  case (Cons c pre)
  then have "rx_run True (Group number) ([], c # pre @ 0x38 # 0x2E # 0x35 # post) = []"
    by (intro group_nondigit) simp
  with Cons show ?case by (simp del: rx_run.simps)
qed

text \<open>The first pattern, a number followed by a unit.\<close>

lemma alt_group:
  "concat (map (\<lambda>t'. rx_run True (Alt (Lit a) (Lit b)) (g, t')) ts)
     = map (Pair g) (map snd (concat (map (\<lambda>t'. rx_run True (Alt (Lit a) (Lit b)) ([], t')) ts)))"
  by (induction ts) simp_all

lemma tail_group:
  "rx_run True unit_tail (g, t) = map (Pair g) (map snd (rx_run True unit_tail ([], t)))"
  using alt_group [of "asc ''mmol''" "asc ''mg''" g "many (cls_ok True [Space]) t"]
  by (simp only: unit_tail_def rx_run.simps(5) rx_run.simps(3) map_map o_def)

lemma tail_dot: "rx_run True unit_tail (g, 0x2E # t) = []"
  by (simp add: unit_tail_def cls_ok_def is_space_def lit_ok_def asc_def fold_cp_def)

lemma p1_nondigit:
  "t = [] \<or> \<not> is_digit (hd t) \<Longrightarrow> rx_run True (Then (Group number) unit_tail) (g, t) = []"
  by (simp only: rx_run.simps(5) group_nondigit list.map concat.simps)

lemma p1_5:
  assumes "\<forall>c \<in> set post. \<not> is_digit c"
  shows "rx_run True (Then (Group number) unit_tail) (g, 0x35 # post)
           = rx_run True unit_tail ([0x35], post)"
  by (simp only: rx_run.simps(5) group_5 [OF assms] list.map concat.simps append_Nil2)

lemma p1_8_5:
  assumes "\<forall>c \<in> set post. \<not> is_digit c"
  shows "rx_run True (Then (Group number) unit_tail) (g, 0x38 # 0x2E # 0x35 # post)
           = rx_run True unit_tail ([0x38, 0x2E, 0x35], post)"
  by (simp only: rx_run.simps(5) group_8_5 [OF assms] list.map concat.simps tail_dot append_Nil2)

lemma search1_nd:
  "\<forall>c \<in> set t. \<not> is_digit c \<Longrightarrow> re_search True (Then (Group number) unit_tail) t = None"
proof (induction t)
  case Nil
  show ?case by (simp add: p1_nondigit del: rx_run.simps)
next
  case (Cons c t)
  then have "rx_run True (Then (Group number) unit_tail) ([], c # t) = []"
    by (intro p1_nondigit) simp
  with Cons show ?case by (simp del: rx_run.simps)
qed

lemma search1:
  assumes "\<forall>c \<in> set pre. \<not> is_digit c" and post: "\<forall>c \<in> set post. \<not> is_digit c"
  shows "re_search True (Then (Group number) unit_tail) (pre @ 0x38 # 0x2E # 0x35 # post)
           \<in> {None, Some [0x38, 0x2E, 0x35]}"
  using assms(1)
proof (induction pre)
  case Nil
  show ?case
  proof (cases "rx_run True unit_tail ([], post)")
    case Nil
    then have e: "rx_run True unit_tail (g, post) = []" for g
      using tail_group [of g post] by simp
    have "rx_run True (Then (Group number) unit_tail) ([], 0x2E # 0x35 # post) = []"
      by (intro p1_nondigit) (simp add: digit_facts)
    then show ?thesis
      by (simp add: p1_8_5 [OF post] p1_5 [OF post] e search1_nd [OF post] del: rx_run.simps)
  next
    case (Cons x xs)
    then have "rx_run True unit_tail ([0x38, 0x2E, 0x35], post)
                 = ([0x38, 0x2E, 0x35], snd x) # map (Pair [0x38, 0x2E, 0x35]) (map snd xs)"
      using tail_group [of "[0x38, 0x2E, 0x35]" post] by simp
    then show ?thesis
      by (simp add: p1_8_5 [OF post] del: rx_run.simps)
  qed
next
  case (Cons c pre)
  then have "rx_run True (Then (Group number) unit_tail) ([], c # pre @ 0x38 # 0x2E # 0x35 # post) = []"
    by (intro p1_nondigit) simp
  with Cons show ?case by (simp del: rx_run.simps)
qed


text \<open>The second pattern, a number after the word for blood glucose.\<close>

lemma label_class_not_digit: "label_class c \<Longrightarrow> \<not> is_digit c"
proof -
  assume "label_class c"
  then have "fold_cp c = 0x662F \<or> is_space c"
    by (simp add: label_class_def cls_ok_def fold_cp_def)
  then show ?thesis
  proof
    assume "fold_cp c = 0x662F"
    then have "c = 0x662F" by (simp add: fold_cp_def split: if_splits)
    then show ?thesis by (simp add: digit_facts)
  next
    assume "is_space c" then show ?thesis by (rule space_not_digit)
  qed
qed

lemma many_concat:
  assumes "\<And>c s. p c \<Longrightarrow> f (c # s) = []"
  shows "concat (map f (many p t)) = f (dropWhile p t)"
  by (induction t) (simp_all add: assms)

lemma star_group:
  "rx_run True (Then (Star [Ch 0x662F, Space]) (Group number)) (g, t)
     = rx_run True (Group number) (g, dropWhile label_class t)"
proof -
  have "concat (map (\<lambda>t'. rx_run True (Group number) (g, t')) (many label_class t))
          = rx_run True (Group number) (g, dropWhile label_class t)"
    by (rule many_concat) (simp add: group_nondigit label_class_not_digit del: rx_run.simps)
  then show ?thesis
    by (simp only: rx_run.simps(5) rx_run.simps(3) map_map o_def label_class_def)
qed

lemma then_lit:
  "rx_run ic (Then (Lit s) r) (g, u)
     = (if lit_ok ic s u then rx_run ic r (g, drop (length s) u) else [])"
  by simp

lemma p2_run:
  "rx_run True (Then (Lit zh_xuetang) (Then (Star [Ch 0x662F, Space]) (Group number))) (g, u)
     = (if lit_ok True zh_xuetang u
        then rx_run True (Group number) (g, dropWhile label_class (drop 2 u)) else [])"
proof -
  have "length zh_xuetang = 2" by (simp add: zh_xuetang_def)
  then show ?thesis
    by (simp only: then_lit star_group)
qed

lemma xuetang_no_match:
  "\<not> lit_ok True zh_xuetang []" "\<not> lit_ok True zh_xuetang (0x38 # t)"
  "\<not> lit_ok True zh_xuetang (0x2E # t)" "\<not> lit_ok True zh_xuetang (0x35 # t)"
  by (simp_all add: lit_ok_def zh_xuetang_def fold_cp_def)

lemma nd_dropWhile:
  "\<forall>c \<in> set t. \<not> is_digit c \<Longrightarrow> \<forall>c \<in> set (dropWhile p (drop k t)). \<not> is_digit c"
  by (meson in_set_dropD set_dropWhileD)

lemma search2_nd:
  "\<forall>c \<in> set t. \<not> is_digit c
   \<Longrightarrow> re_search True (Then (Lit zh_xuetang) (Then (Star [Ch 0x662F, Space]) (Group number))) t = None"
proof (induction t)
  case Nil
  show ?case by (simp add: p2_run xuetang_no_match del: rx_run.simps)
next
  case (Cons c t)
  have "rx_run True (Group number) ([], dropWhile label_class (drop 2 (c # t))) = []"
    by (rule group_nd) (rule nd_dropWhile [OF Cons.prems])
  with Cons show ?case by (simp add: p2_run del: rx_run.simps)
qed

lemma label_class_8_5:
  assumes "\<forall>c \<in> set a. \<not> is_digit c" and post: "\<forall>c \<in> set post. \<not> is_digit c"
  shows "rx_run True (Group number) (g, dropWhile label_class (a @ 0x38 # 0x2E # 0x35 # post)) = []
         \<or> rx_run True (Group number) (g, dropWhile label_class (a @ 0x38 # 0x2E # 0x35 # post))
             = [([0x38, 0x2E, 0x35], post), ([0x38], 0x2E # 0x35 # post)]"
  using assms(1)
proof (induction a)
  case Nil
  have "\<not> label_class 0x38" using label_class_not_digit digit_facts(1) by blast
  then show ?case by (simp add: group_8_5 [OF post] del: rx_run.simps)
next
  case (Cons x a)
  show ?case
  proof (cases "label_class x")
    case True with Cons show ?thesis by simp
  next
    case False
    have "rx_run True (Group number) (g, x # a @ 0x38 # 0x2E # 0x35 # post) = []"
      by (rule group_nondigit) (use Cons.prems in simp)
    with False show ?thesis by simp
  qed
qed

lemma search2:
  assumes "\<forall>c \<in> set pre. \<not> is_digit c" and post: "\<forall>c \<in> set post. \<not> is_digit c"
  shows "re_search True (Then (Lit zh_xuetang) (Then (Star [Ch 0x662F, Space]) (Group number)))
           (pre @ 0x38 # 0x2E # 0x35 # post) \<in> {None, Some [0x38, 0x2E, 0x35]}"
  using assms(1)
proof (induction pre)
  case Nil
  show ?case
    by (simp add: p2_run xuetang_no_match search2_nd [OF post] del: rx_run.simps)
next
  case (Cons c pre)
  let ?p = "Then (Lit zh_xuetang) (Then (Star [Ch 0x662F, Space]) (Group number))"
  let ?r = "rx_run True (Group number)
              ([], dropWhile label_class (drop 2 (c # pre @ 0x38 # 0x2E # 0x35 # post)))"
  from Cons have ih: "re_search True ?p (pre @ 0x38 # 0x2E # 0x35 # post)
                        \<in> {None, Some [0x38, 0x2E, 0x35]}"
    by simp
  have r: "?r = [] \<or> ?r = [([0x38, 0x2E, 0x35], post), ([0x38], 0x2E # 0x35 # post)]"
  proof (cases pre)
    case Nil
    have "\<not> label_class 0x2E" using label_class_not_digit
      by (simp add: label_class_def cls_ok_def fold_cp_def is_space_def)
    moreover have "rx_run True (Group number) ([], 0x2E # 0x35 # post) = []"
      by (rule group_nondigit) (simp add: digit_facts)
    ultimately show ?thesis using Nil by simp
  next
    case (Cons c2 a)
    with Cons.prems have "\<forall>c \<in> set a. \<not> is_digit c" by simp
    from label_class_8_5 [OF this post, of "[]"] Cons show ?thesis by simp
  qed
  show ?case
  proof (cases "lit_ok True zh_xuetang (c # pre @ 0x38 # 0x2E # 0x35 # post)")
    case False
    with ih show ?thesis by (simp add: p2_run del: rx_run.simps)
  next
    case True
    from r show ?thesis
    proof
      assume "?r = []"
      with True ih show ?thesis by (simp add: p2_run del: rx_run.simps)
    next
      assume "?r = [([0x38, 0x2E, 0x35], post), ([0x38], 0x2E # 0x35 # post)]"
      with True show ?thesis by (simp add: p2_run del: rx_run.simps)
    qed
  qed
qed


lemma float_8_5: "py_float [0x38, 0x2E, 0x35] = 8.5"
  by (simp add: py_float_def dec_def digit_val_def is_digit_def digit_blocks_def in_block_def)

lemma startswith_append: "startswith t (a @ b) \<Longrightarrow> startswith t a"
  by (induction t a rule: startswith.induct) simp_all

lemma py_in_append: "py_in (a @ b) t \<Longrightarrow> py_in a t"
  by (induction t) (auto dest: startswith_append)

lemma detect_unit_mg:
  "detect_unit text = (if py_in (asc ''mg'') (py_lower text) then unit_mgdl else unit_mmol)"
proof -
  have "py_in (asc ''mg/dl'') t \<Longrightarrow> py_in (asc ''mg'') t" for t :: pystr
    using py_in_append [of "asc ''mg''" "asc ''/dl''" t] by (simp add: asc_def)
  then show ?thesis by (auto simp: detect_unit_def Let_def)
qed

text \<open>
  C7, as amended. For every text that contains "8.5", has no decimal digit besides the two
  of that "8.5", and does not contain "mg" in any letter case, \<^verbatim>\<open>extract_glucose_value\<close>
  returns 8.5 and \<^verbatim>\<open>detect_unit\<close> returns "mmol/L" (whether or not the text contains
  "mmol").
\<close>

theorem extract_8_5:
  assumes pre: "\<forall>c \<in> set pre. \<not> is_digit c" and post: "\<forall>c \<in> set post. \<not> is_digit c"
      and mg: "\<not> py_in (asc ''mg'') (py_lower (pre @ asc ''8.5'' @ post))"
  shows "extract_glucose_value (pre @ asc ''8.5'' @ post) = Some 8.5
         \<and> detect_unit (pre @ asc ''8.5'' @ post) = unit_mmol"
proof -
  let ?t = "pre @ 0x38 # 0x2E # 0x35 # post"
  have t: "pre @ asc ''8.5'' @ post = ?t" by (simp add: asc_def)
  have pats: "glucose_patterns =
      [Then (Group number) unit_tail,
       Then (Lit zh_xuetang) (Then (Star [Ch 0x662F, Space]) (Group number)),
       Group number]"
    by (simp add: glucose_patterns_def unit_tail_def)
  from search1 [OF pre post] search2 [OF pre post] search3 [OF pre post]
  have "first_number glucose_patterns ?t = Some (py_float [0x38, 0x2E, 0x35])"
    unfolding pats by (auto simp del: rx_run.simps)
  then have "extract_glucose_value ?t = Some 8.5"
    by (simp add: extract_glucose_value_def float_8_5)
  moreover have "detect_unit (pre @ asc ''8.5'' @ post) = unit_mmol"
    using mg by (simp add: detect_unit_mg)
  ultimately show ?thesis by (simp add: t)
qed

theorem extract_8_5_witness:
  "list_all (\<lambda>c. \<not> is_digit c) sample_text_8_5_pre
   \<and> list_all (\<lambda>c. \<not> is_digit c) (asc '' mmol/L'')
   \<and> \<not> py_in (asc ''mg'') (py_lower (sample_text_8_5_pre @ asc ''8.5'' @ asc '' mmol/L''))
   \<and> extract_glucose_value (sample_text_8_5_pre @ asc ''8.5'' @ asc '' mmol/L'') = Some 8.5
   \<and> detect_unit (sample_text_8_5_pre @ asc ''8.5'' @ asc '' mmol/L'') = unit_mmol"
proof -
  have pre: "\<forall>c \<in> set sample_text_8_5_pre. \<not> is_digit c"
    by (simp add: sample_text_8_5_pre_def is_digit_def digit_blocks_def in_block_def)
  have post: "\<forall>c \<in> set (asc '' mmol/L''). \<not> is_digit c"
    by (simp add: asc_def is_digit_def digit_blocks_def in_block_def)
  have mg: "\<not> py_in (asc ''mg'') (py_lower (sample_text_8_5_pre @ asc ''8.5'' @ asc '' mmol/L''))"
    by (simp add: sample_text_8_5_pre_def asc_def py_lower_def lower_cp_def)
  from extract_8_5 [OF pre post mg] pre post mg show ?thesis
    by (simp add: list_all_iff)
qed

text \<open>
  The claim C7 as stated fails: "18.5 mmol/L (333 mg/dL)" contains "8.5" and "mmol", the
  value read is 18.5 and the unit detected is "mg/dL".
\<close>

theorem extract_8_5_counterexample:
  "py_in (asc ''8.5'') sample_text_18_5 \<and> py_in (asc ''mmol'') sample_text_18_5
   \<and> extract_glucose_value sample_text_18_5 = Some 18.5
   \<and> detect_unit sample_text_18_5 = unit_mgdl"
proof -
  have a: "py_in (asc ''8.5'') sample_text_18_5" "py_in (asc ''mmol'') sample_text_18_5"
    by (simp_all add: sample_text_18_5_def asc_def)
  have b: "extract_glucose_value sample_text_18_5 = Some 18.5"
    by (simp add: sample_text_18_5_def extract_glucose_value_def glucose_patterns_def number_def
        asc_def many1_def lit_ok_def cls_ok_def is_digit_def is_space_def digit_blocks_def
        in_block_def fold_cp_def py_float_def dec_def digit_val_def)
  have c: "detect_unit sample_text_18_5 = unit_mgdl"
    by (simp add: sample_text_18_5_def detect_unit_def py_lower_def lower_cp_def asc_def)
  from a b c show ?thesis by simp
qed

subsection \<open>Conversation state\<close>

text \<open>The handlers leave the conversation states alone.\<close>

lemma cs_log_glucose:
  "conversation_states (snd (log_glucose d now u text ts unit c m h)) = conversation_states d"
  by (simp add: log_glucose_def Let_def split: option.splits)

lemma cs_handle_record_glucose:
  "conversation_states (snd (handle_record_glucose d now u m sl)) = conversation_states d"
  by (simp add: handle_record_glucose_def Let_def cs_log_glucose)

lemma cs_analyze_glucose:
  "analyze_glucose d t1 t2 u v c rid = Inr (a, d1) \<Longrightarrow> conversation_states d1 = conversation_states d"
  by (auto simp: analyze_glucose_def Let_def split: option.splits sum.splits if_splits)

lemma cs_message_turn: "snd (message_turn r a n d) = d"
  by (simp add: message_turn_def split: sum.splits)

lemma cs_record_glucose_turn:
  "conversation_states (snd (record_glucose_turn clk d u m sl)) = conversation_states d"
proof -
  obtain r d1 where h: "handle_record_glucose d (clk_primary clk) u m sl = (r, d1)"
    by (cases "handle_record_glucose d (clk_primary clk) u m sl")
  then have d1: "conversation_states d1 = conversation_states d"
    using cs_handle_record_glucose [of d "clk_primary clk" u m sl] by simp
  show ?thesis
    using d1 by (auto simp: record_glucose_turn_def h split: sum.splits dest: cs_analyze_glucose)
qed

lemma cs_log_meal: "conversation_states (snd (log_meal d now u t ts m p)) = conversation_states d"
  by (simp add: log_meal_def Let_def)

lemma cs_log_exercise:
  "conversation_states (snd (log_exercise d now u t ts e m i)) = conversation_states d"
  by (simp add: log_exercise_def Let_def)

lemma cs_log_medication:
  "conversation_states (snd (log_medication d now u t ts n g)) = conversation_states d"
  by (simp add: log_medication_def Let_def)

lemma cs_ask_value_status:
  "conversation_states (snd (handle_ask_value_status d t1 t2 u m)) = conversation_states d"
  by (auto simp: handle_ask_value_status_def split: option.splits sum.splits dest: cs_analyze_glucose)

lemma cs_weekly_report:
  "generate_weekly_report d now u = Inr (r, d1) \<Longrightarrow> conversation_states d1 = conversation_states d"
  by (auto simp: generate_weekly_report_def Let_def split: if_splits sum.splits)

lemma cs_handle_weekly_report:
  "conversation_states (snd (handle_weekly_report d now u)) = conversation_states d"
  by (auto simp: handle_weekly_report_def split: sum.splits dest: cs_weekly_report)


lemma cs_dispatch:
  "conversation_states (snd (dispatch clk d u m i sl)) = conversation_states d"
proof -
  have meal: "conversation_states (snd (case log_meal d t u m None None None of
                (result, d1) \<Rightarrow> message_turn result a (missing_of result) d1)) = conversation_states d"
    for t a
    using cs_log_meal [of d t u m None None None]
    by (cases "log_meal d t u m None None None") (simp add: cs_message_turn)
  have ex: "conversation_states (snd (case log_exercise d t u m None None None None of
                (result, d1) \<Rightarrow> message_turn result a [] d1)) = conversation_states d"
    for t a
    using cs_log_exercise [of d t u m None None None None]
    by (cases "log_exercise d t u m None None None None") (simp add: cs_message_turn)
  have med: "conversation_states (snd (case log_medication d t u m None None None of
                (result, d1) \<Rightarrow> message_turn result a [] d1)) = conversation_states d"
    for t a
    using cs_log_medication [of d t u m None None None]
    by (cases "log_medication d t u m None None None") (simp add: cs_message_turn)
  have ask: "conversation_states (snd (case handle_ask_value_status d t1 t2 u m of
                (Inl e, d1) \<Rightarrow> (Inl e, d1)
              | (Inr result, d1) \<Rightarrow> message_turn result a [] d1)) = conversation_states d"
    for t1 t2 a
    using cs_ask_value_status [of d t1 t2 u m]
    by (cases "handle_ask_value_status d t1 t2 u m")
       (auto simp: cs_message_turn split: sum.splits)
  have wk: "conversation_states (snd (case handle_weekly_report d t u of
                (Inl e, d1) \<Rightarrow> (Inl e, d1)
              | (Inr result, d1) \<Rightarrow> message_turn result a [] d1)) = conversation_states d"
    for t a
    using cs_handle_weekly_report [of d t u]
    by (cases "handle_weekly_report d t u") (auto simp: cs_message_turn split: sum.splits)
  show ?thesis
    unfolding dispatch_def
    by (simp only: meal ex med ask wk cs_record_glucose_turn if_distrib [of snd]
          if_distrib [of conversation_states] Let_def split: if_splits)
       (simp split: sum.splits)
qed


lemma cs_process_message:
  "conversation_states (snd (process_message clk d u s m))
     = conversation_states (update_conversation_state d (clk_state clk) u s
         (classify_intent m) (detect_sentiment m) (extract_slots m))"
proof -
  let ?d1 = "update_conversation_state d (clk_state clk) u s
               (classify_intent m) (detect_sentiment m) (extract_slots m)"
  let ?r = "dispatch clk ?d1 u m (classify_intent m) (extract_slots m)"
  have "snd (process_message clk d u s m) = snd ?r"
    by (cases ?r) (auto simp: process_message_def Let_def split: sum.splits prod.splits)
  then show ?thesis by (simp add: cs_dispatch)
qed

text \<open>The update of the conversation state.\<close>

lemma find_None_filter: "find p xs = None \<longleftrightarrow> filter p xs = []"
  by (induction xs) auto

lemma update_first_keys:
  assumes "\<And>x. k (f x) = k x"
  shows "map k (update_first p f xs) = map k xs"
  by (induction xs) (simp_all add: assms)

lemma update_first_filter:
  assumes "distinct (map k xs)" and "\<And>x. p x \<longleftrightarrow> k x = a" and "\<And>x. k (f x) = k x"
      and "filter p xs \<noteq> []"
  shows "\<exists>x. p x \<and> filter p (update_first p f xs) = [f x]"
  using assms(1,4)
proof (induction xs)
  case Nil then show ?case by simp
next
  case (Cons y ys)
  show ?case
  proof (cases "p y")
    case True
    then have "k y = a" by (simp add: assms(2))
    moreover from Cons.prems(1) have "k y \<notin> k ` set ys" by simp
    ultimately have "\<forall>z \<in> set ys. \<not> p z" by (auto simp: assms(2) image_iff)
    then have e: "filter p ys = []" by (simp add: filter_empty_conv)
    have "p (f y)" using True assms(2) [of "f y"] assms(2) [of y] assms(3) [of y] by simp
    then have "filter p (update_first p f (y # ys)) = [f y]"
      using True e by (simp del: assms)
    with True show ?thesis by blast
  next
    case False
    with Cons show ?thesis by simp
  qed
qed

lemma update_first_other:
  assumes "\<And>x. p x \<Longrightarrow> \<not> q x" and "\<And>x. p x \<Longrightarrow> \<not> q (f x)"
  shows "filter q (update_first p f xs) = filter q xs"
  by (induction xs) (simp_all add: assms)

lemma same_session_key:
  "same_session u s x \<longleftrightarrow> (cs_user_id x, cs_session_id x) = (u, s)"
  by (auto simp: same_session_def)

lemma update_state_keys:
  "distinct (session_keys d)
   \<Longrightarrow> distinct (session_keys (update_conversation_state d now u s i se sl))"
proof -
  assume dist: "distinct (session_keys d)"
  show ?thesis
  proof (cases "find (same_session u s) (conversation_states d)")
    case None
    then have "\<forall>x \<in> set (conversation_states d). \<not> same_session u s x"
      by (simp add: find_None_iff)
    then have "(u, s) \<notin> set (session_keys d)"
      by (auto simp: session_keys_def same_session_def)
    with dist None show ?thesis
      by (simp add: update_conversation_state_def session_keys_def)
  next
    case (Some st)
    have "session_keys (update_conversation_state d now u s i se sl) = session_keys d"
      using Some
      by (simp add: update_conversation_state_def session_keys_def update_first_keys)
    with dist show ?thesis by simp
  qed
qed

lemma update_state_row:
  assumes dist: "distinct (session_keys d)"
  shows "\<exists>row. session_rows (update_conversation_state d now u s i se sl) u s = [row]
           \<and> cs_intent row = Some i \<and> cs_current_topic row = Some i
           \<and> cs_sentiment row = Some se \<and> cs_slots row = Some sl \<and> cs_updated_at row = now"
proof (cases "find (same_session u s) (conversation_states d)")
  case None
  then have "filter (same_session u s) (conversation_states d) = []"
    by (simp add: find_None_filter)
  with None show ?thesis
    by (simp add: update_conversation_state_def session_rows_def same_session_def)
next
  case (Some st)
  let ?f = "\<lambda>x. x\<lparr>cs_current_topic := Some i, cs_intent := Some i, cs_sentiment := Some se,
                      cs_slots := Some sl, cs_updated_at := now\<rparr>"
  from Some have ne: "filter (same_session u s) (conversation_states d) \<noteq> []"
    using find_None_filter [of "same_session u s" "conversation_states d"] by simp
  have "\<exists>x. same_session u s x
          \<and> filter (same_session u s) (update_first (same_session u s) ?f (conversation_states d))
              = [?f x]"
  proof (rule update_first_filter [where k = "\<lambda>x. (cs_user_id x, cs_session_id x)" and a = "(u, s)"])
    show "distinct (map (\<lambda>x. (cs_user_id x, cs_session_id x)) (conversation_states d))"
      using dist by (simp add: session_keys_def)
    show "same_session u s x \<longleftrightarrow> (cs_user_id x, cs_session_id x) = (u, s)" for x
      by (rule same_session_key)
    show "(cs_user_id (?f x), cs_session_id (?f x)) = (cs_user_id x, cs_session_id x)" for x
      by simp
    show "filter (same_session u s) (conversation_states d) \<noteq> []" by (rule ne)
  qed
  then show ?thesis
    using Some by (auto simp: update_conversation_state_def session_rows_def)
qed

lemma update_state_others:
  assumes "(u', s') \<noteq> (u, s)"
  shows "session_rows (update_conversation_state d now u s i se sl) u' s' = session_rows d u' s'"
proof (cases "find (same_session u s) (conversation_states d)")
  case None
  with assms show ?thesis
    by (auto simp: update_conversation_state_def session_rows_def same_session_def)
next
  case (Some st)
  have "filter (same_session u' s')
          (update_first (same_session u s)
             (\<lambda>x. x\<lparr>cs_current_topic := Some i, cs_intent := Some i, cs_sentiment := Some se,
                      cs_slots := Some sl, cs_updated_at := now\<rparr>) (conversation_states d))
        = filter (same_session u' s') (conversation_states d)"
    by (rule update_first_other) (use assms in \<open>auto simp: same_session_def\<close>)
  with Some show ?thesis
    by (simp add: update_conversation_state_def session_rows_def)
qed

lemma update_state_fresh:
  assumes "session_rows d u s = []"
  shows "\<exists>row. conversation_states (update_conversation_state d now u s i se sl)
                 = conversation_states d @ [row]
           \<and> cs_user_id row = u \<and> cs_session_id row = s \<and> cs_intent row = Some i
           \<and> cs_sentiment row = Some se \<and> cs_slots row = Some sl"
proof -
  from assms have "find (same_session u s) (conversation_states d) = None"
    by (simp add: find_None_filter session_rows_def)
  then show ?thesis by (simp add: update_conversation_state_def)
qed


lemma keys_process_message:
  "session_keys (snd (process_message clk d u s m))
     = session_keys (update_conversation_state d (clk_state clk) u s
         (classify_intent m) (detect_sentiment m) (extract_slots m))"
  by (simp add: session_keys_def cs_process_message)

lemma rows_process_message:
  "session_rows (snd (process_message clk d u s m)) u' s'
     = session_rows (update_conversation_state d (clk_state clk) u s
         (classify_intent m) (detect_sentiment m) (extract_slots m)) u' s'"
  by (simp add: session_rows_def cs_process_message)

text \<open>
  C9. The conversation state is overwritten, never appended. If there is at most one row
  for every user and session (as in the empty table), there still is after a turn of
  \<^verbatim>\<open>process_message\<close>; after two turns with the same user and session id there is exactly
  one row for them, and it holds the intent, the sentiment and the slots of the second
  turn; a turn with a session id that has no row yet adds one fresh row for it; the rows
  of other users and sessions are not changed.
\<close>

theorem conversation_state_overwritten:
  assumes "distinct (session_keys d)"
  shows "distinct (session_keys (snd (process_message clk1 d u s m1)))
         \<and> (\<exists>row. session_rows
                     (snd (process_message clk2 (snd (process_message clk1 d u s m1)) u s m2)) u s
                   = [row]
                 \<and> cs_intent row = Some (classify_intent m2)
                 \<and> cs_sentiment row = Some (detect_sentiment m2)
                 \<and> cs_slots row = Some (extract_slots m2))
         \<and> (session_rows d u s = []
              \<longrightarrow> (\<exists>row. conversation_states (snd (process_message clk1 d u s m1))
                           = conversation_states d @ [row]
                     \<and> cs_user_id row = u \<and> cs_session_id row = s
                     \<and> cs_intent row = Some (classify_intent m1)
                     \<and> cs_sentiment row = Some (detect_sentiment m1)
                     \<and> cs_slots row = Some (extract_slots m1)))
         \<and> ((u', s') \<noteq> (u, s)
              \<longrightarrow> session_rows (snd (process_message clk1 d u s m1)) u' s' = session_rows d u' s')"
proof -
  let ?d1 = "snd (process_message clk1 d u s m1)"
  have d1: "distinct (session_keys ?d1)"
    using assms by (simp add: keys_process_message update_state_keys)
  have two: "\<exists>row. session_rows (snd (process_message clk2 ?d1 u s m2)) u s = [row]
                 \<and> cs_intent row = Some (classify_intent m2)
                 \<and> cs_sentiment row = Some (detect_sentiment m2)
                 \<and> cs_slots row = Some (extract_slots m2)"
    using update_state_row [OF d1, of "clk_state clk2" u s "classify_intent m2"
        "detect_sentiment m2" "extract_slots m2"]
    by (auto simp: rows_process_message)
  have fresh: "session_rows d u s = []
      \<longrightarrow> (\<exists>row. conversation_states ?d1 = conversation_states d @ [row]
             \<and> cs_user_id row = u \<and> cs_session_id row = s
             \<and> cs_intent row = Some (classify_intent m1)
             \<and> cs_sentiment row = Some (detect_sentiment m1)
             \<and> cs_slots row = Some (extract_slots m1))"
    using update_state_fresh [of d u s "clk_state clk1" "classify_intent m1"
        "detect_sentiment m1" "extract_slots m1"]
    by (auto simp: cs_process_message)
  have others: "(u', s') \<noteq> (u, s) \<longrightarrow> session_rows ?d1 u' s' = session_rows d u' s'"
    by (simp add: rows_process_message update_state_others)
  from d1 two fresh others show ?thesis by blast
qed

theorem conversation_state_overwritten_witness:
  "distinct (session_keys sample_db)
   \<and> session_rows sample_db 1 sample_session = []
   \<and> (\<exists>row. session_rows
              (snd (process_message sample_clock
                      (snd (process_message sample_clock sample_db 1 sample_session sample_afraid))
                      1 sample_session sample_fasting_7_5)) 1 sample_session
            = [row]
          \<and> cs_intent row = Some (classify_intent sample_fasting_7_5)
          \<and> cs_sentiment row = Some (detect_sentiment sample_fasting_7_5))
   \<and> (\<exists>row. conversation_states
              (snd (process_message sample_clock sample_db 1 sample_session sample_afraid))
            = [row]
          \<and> cs_intent row = Some (classify_intent sample_afraid))"
proof -
  have a: "distinct (session_keys sample_db)"
    by (simp add: session_keys_def sample_db_def)
  have b: "session_rows sample_db 1 sample_session = []"
    by (simp add: session_rows_def sample_db_def)
  have c: "conversation_states sample_db = []" by (simp add: sample_db_def)
  from conversation_state_overwritten [OF a, of sample_clock 1 sample_session sample_afraid
      sample_clock sample_fasting_7_5 1 sample_session] a b c
  show ?thesis by (simp del: ex_simps) blast
qed

subsection \<open>Empathy line\<close>

lemma afraid_intent: "classify_intent sample_afraid = intent_general"
  by (simp add: classify_intent_def sample_afraid_def Let_def py_lower_def lower_cp_def any_in_def
      str_isdigit_def asc_def
      zh_o167_1_def zh_o167_2_def zh_o167_3_def zh_o171_1_def zh_o171_2_def zh_o171_3_def
      zh_o171_4_def zh_o171_5_def zh_o175_1_def zh_o175_2_def zh_o175_3_def zh_o175_4_def
      zh_o179_1_def zh_o179_2_def zh_o179_3_def zh_o183_1_def zh_o183_2_def zh_o183_3_def
      zh_o183_4_def zh_o183_5_def zh_o187_1_def zh_o187_2_def zh_o187_3_def zh_o187_4_def
      zh_o191_1_def zh_o191_2_def zh_o191_3_def zh_o195_1_def zh_o195_2_def zh_o195_3_def
      zh_o195_4_def zh_o195_5_def zh_o195_6_def zh_o196_1_def zh_o196_2_def zh_o196_3_def
      zh_o196_4_def zh_o201_1_def zh_o201_2_def zh_o201_3_def)

lemma afraid_sentiment: "detect_sentiment sample_afraid = sent_anxious"
  by (simp add: detect_sentiment_def sample_afraid_def Let_def py_lower_def lower_cp_def any_in_def
      zh_o210_1_def zh_o210_2_def)

lemma afraid_support:
  "provide_support sample_afraid uo =
     [(''sentiment'', PStr (plain (asc ''anxious''))),
      (''empathy'', PStr (plain zh_a1011_1)),
      (''encouragement'', PStr (plain zh_a1012_1)),
      (''next_steps'', str_list [zh_a1014_1, zh_a1015_1, zh_a1016_1])]"
  by (simp add: provide_support_def sample_afraid_def Let_def py_lower_def lower_cp_def any_in_def
      anxious_keywords_def zh_a960_1_def zh_a960_2_def asc_def)


lemma general_dispatch:
  "dispatch clk d u sample_afraid intent_general sl
     = (Inr ([plain zh_o135_1, plain zh_o139_1], [], []), d)"
proof -
  have "\<not> py_in zh_o136_1 sample_afraid"
    by (simp add: zh_o136_1_def sample_afraid_def)
  then show ?thesis
    by (simp add: dispatch_def intent_general_def intent_record_glucose_def
        intent_emotional_support_def asc_def)
qed

lemma afraid_empathy:
  "add_empathy sent_anxious sample_afraid u [p, q] = Inr [p, plain zh_a1011_1, q]"
proof -
  have "plain zh_a1011_1 \<noteq> []" by (simp add: plain_def zh_a1011_1_def)
  then show ?thesis
    by (simp add: add_empathy_def afraid_support dict_get_def subscript_def py_insert_def)
qed

lemma afraid_reply:
  "aggregate_reply intent_general [plain zh_o135_1, plain zh_a1011_1, plain zh_o139_1]
     = plain zh_o135_1 @ plain [0x0A, 0x0A] @ plain zh_a1011_1 @ plain [0x0A, 0x0A]
       @ plain zh_o139_1"
proof -
  have ne: "plain zh_o135_1 \<noteq> []" "plain zh_a1011_1 \<noteq> []" "plain zh_o139_1 \<noteq> []"
    by (simp_all add: plain_def zh_o135_1_def zh_a1011_1_def zh_o139_1_def)
  have no: "\<not> py_in (plain zh_o151_1)
              (plain zh_o135_1 @ plain [0x0A, 0x0A] @ plain zh_a1011_1 @ plain [0x0A, 0x0A]
               @ plain zh_o139_1)"
    by (simp add: plain_def zh_o151_1_def zh_o135_1_def zh_a1011_1_def zh_o139_1_def)
  have i: "intent_general \<notin> set [asc ''ask_value_status'', asc ''risk_alert'']"
    by (simp add: intent_general_def asc_def)
  show ?thesis
    unfolding aggregate_reply_def Let_def using ne no i by simp
qed

text \<open>
  C6. The claim says that for a negative, anxious or frustrated sentiment the empathy line
  is prepended, the first fragment of the reply; the comment on line 145 says the same.
  The code inserts it at index 1. For the message U+5BB3 U+6015 ("afraid"), of intent
  \<^verbatim>\<open>general\<close> and sentiment \<^verbatim>\<open>anxious\<close>, the reply is the handler's first part, then the
  empathy line, then the handler's second part, in every state and for every user.
\<close>

theorem empathy_is_second_fragment:
  "fst (process_message clk d u s sample_afraid)
     = Inr [(''reply'', PStr (plain zh_o135_1 @ plain [0x0A, 0x0A] @ plain zh_a1011_1
                              @ plain [0x0A, 0x0A] @ plain zh_o139_1)),
            (''intent'', PStr (plain intent_general)),
            (''sentiment'', PStr (plain sent_anxious)),
            (''actions_taken'', PList []),
            (''needs_clarification'', PList [])]"
  by (simp add: process_message_def Let_def afraid_intent afraid_sentiment general_dispatch
      afraid_empathy afraid_reply str_list_def)


text \<open>
  In general: whenever the sentiment is anxious or negative, an empathy line of the
  support agent is inserted after the first of the reply parts.
\<close>

lemma sentiment_anxious:
  "detect_sentiment m = sent_anxious \<Longrightarrow> any_in anxious_keywords (py_lower m)"
  by (auto simp: detect_sentiment_def Let_def sent_anxious_def sent_negative_def asc_def
      any_in_def anxious_keywords_def zh_o210_1_def zh_o210_2_def zh_o210_3_def zh_o210_4_def
      zh_a960_1_def zh_a960_2_def zh_a960_3_def zh_a960_4_def split: if_splits)

lemma sentiment_negative:
  "detect_sentiment m = sent_negative \<Longrightarrow> any_in negative_keywords (py_lower m)"
  by (auto simp: detect_sentiment_def Let_def sent_anxious_def sent_negative_def asc_def
      any_in_def negative_keywords_def zh_o211_1_def zh_o211_2_def zh_o211_3_def zh_o211_4_def
      zh_o211_5_def zh_a956_1_def zh_a956_2_def zh_a956_3_def zh_a956_4_def zh_a956_7_def
      split: if_splits)

lemma support_empathy:
  assumes "any_in anxious_keywords (py_lower m) \<or> any_in negative_keywords (py_lower m)"
  shows "map_of (provide_support m uo) ''empathy'' = Some (PStr (plain zh_a1011_1))
         \<or> map_of (provide_support m uo) ''empathy'' = Some (PStr (plain zh_a1000_1))"
  using assms by (auto simp: provide_support_def Let_def asc_def)

lemma add_empathy_second:
  assumes "detect_sentiment m = sent_anxious \<or> detect_sentiment m = sent_negative"
  shows "\<exists>e. e \<in> {plain zh_a1011_1, plain zh_a1000_1}
             \<and> add_empathy (detect_sentiment m) m u (p # ps) = Inr (p # e # ps)"
proof -
  have ne: "plain zh_a1011_1 \<noteq> []" "plain zh_a1000_1 \<noteq> []"
    by (simp_all add: plain_def zh_a1011_1_def zh_a1000_1_def)
  from assms have "any_in anxious_keywords (py_lower m) \<or> any_in negative_keywords (py_lower m)"
    using sentiment_anxious sentiment_negative by blast
  from support_empathy [OF this, of "Some u"] ne assms show ?thesis
    by (auto simp: add_empathy_def Let_def dict_get_def subscript_def py_insert_def)
qed

end
